theory Spec2Isabelle
  imports Complex_Main "HOL-Library.AList" "HOL-Library.Sublist"
begin

section \<open>JavaScript strings and object literals\<close>

text \<open>
  A JavaScript string is a sequence of UTF-16 code units. The scripts compare, split and
  join strings code unit by code unit, so a string is modelled as the list of its code
  units. ASCII literals of the source are written with \<open>U\<close>.
\<close>

type_synonym ustring = "nat list"

definition U :: "string \<Rightarrow> ustring" where
  "U s = map of_char s"

text \<open>
  \<open>String.prototype.split(sep)\<close> for a non-empty separator scans from the left and cuts
  at every non-overlapping occurrence; for the empty separator it yields the code units.
  \<open>Array.prototype.join(sep)\<close> concatenates the pieces with the separator between them.
\<close>

fun splitFrom :: "ustring \<Rightarrow> ustring \<Rightarrow> ustring \<Rightarrow> ustring list" where
  "splitFrom sep piece [] = [piece]"
| "splitFrom sep piece (c # cs) =
     (if sep \<noteq> [] \<and> prefix sep (c # cs)
      then piece # splitFrom sep [] (drop (length sep - 1) cs)
      else splitFrom sep (piece @ [c]) cs)"

definition split :: "ustring \<Rightarrow> ustring \<Rightarrow> ustring list" where
  "split sep s = (if sep = [] then map (\<lambda>c. [c]) s else splitFrom sep [] s)"

fun join :: "ustring \<Rightarrow> ustring list \<Rightarrow> ustring" where
  "join sep [] = []"
| "join sep [p] = p"
| "join sep (p # q # ps) = p @ sep @ join sep (q # ps)"

text \<open>
  An object literal with a repeated key keeps the key at its first position and the value
  written last; \<open>Object.entries\<close> lists the properties in that order.
\<close>

definition objectLiteral :: "('k \<times> 'v) list \<Rightarrow> ('k \<times> 'v) list" where
  "objectLiteral kvs = fold (\<lambda>(k, v). AList.update k v) kvs []"


text \<open>
  \<open>String.prototype.includes\<close>: the pattern occurs somewhere in the string.
\<close>

fun includes' :: "'a list \<Rightarrow> 'a list \<Rightarrow> bool" where
  "includes' [] pat = (pat = [])"
| "includes' (c # cs) pat = (prefix pat (c # cs) \<or> includes' cs pat)"

section \<open>JavaScript values and parsed documents\<close>

text \<open>
  The value of \<open>JSON.parse\<close>, together with \<open>undefined\<close> for a property that is not
  there. Numbers are rationals (JSON has neither NaN nor infinities). An object is the
  list of its own properties in insertion order; property names are kept as byte strings,
  which the scripts only compare for equality and match against ASCII patterns.
\<close>

datatype jsval =
    JUndefined
  | JNull
  | JBool bool
  | JNum rat
  | JStr ustring
  | JArr "jsval list"
  | JObj "(string \<times> jsval) list"

type_synonym document = "(string \<times> jsval) list"

datatype jserror = TypeError

text \<open>Truthiness, as \<open>if (v)\<close>, \<open>!v\<close> and \<open>a || b\<close> use it.\<close>

fun truthy :: "jsval \<Rightarrow> bool" where
  "truthy JUndefined = False"
| "truthy JNull = False"
| "truthy (JBool b) = b"
| "truthy (JNum r) = (r \<noteq> 0)"
| "truthy (JStr s) = (s \<noteq> [])"
| "truthy (JArr xs) = True"
| "truthy (JObj kvs) = True"

definition jsOr :: "jsval \<Rightarrow> jsval \<Rightarrow> jsval" where
  "jsOr a b = (if truthy a then a else b)"

text \<open>
  \<open>data[key]\<close> on a parsed document, and \<open>v[key]\<close> on a value that is known not to be
  \<open>null\<close> or \<open>undefined\<close> (or is read through \<open>?.\<close>): own properties only. The keys the
  scripts read are never \<open>length\<close>, an index or a name of \<open>Object.prototype\<close>, so a
  primitive or an array answers \<open>undefined\<close>.
\<close>

definition get :: "document \<Rightarrow> string \<Rightarrow> jsval" where
  "get data key = (case map_of data key of None \<Rightarrow> JUndefined | Some v \<Rightarrow> v)"

fun getProp :: "jsval \<Rightarrow> string \<Rightarrow> jsval" where
  "getProp (JObj kvs) key = get kvs key"
| "getProp v key = JUndefined"

text \<open>
  \<open>v.includes(pat)\<close> where \<open>v\<close> is whatever the document holds: a string searches for the
  substring, an array for an element equal to the pattern, anything else has no such
  method and the call raises.
\<close>

fun jsIncludes :: "jsval \<Rightarrow> ustring \<Rightarrow> jserror + bool" where
  "jsIncludes (JStr s) pat = Inr (includes' s pat)"
| "jsIncludes (JArr xs) pat = Inr (JStr pat \<in> set xs)"
| "jsIncludes v pat = Inl TypeError"

section \<open>Structural validator (\<open>validate.js\<close>)\<close>

record validation =
  errors :: "string list"
  warnings :: "string list"

definition nonPlantSlugs :: "ustring list" where
  "nonPlantSlugs = map U [
     ''calcium'', ''copper'', ''iodine'', ''iron'', ''magnesium'', ''manganese'',
     ''potassium'', ''selenium'', ''zinc'',
     ''capigen'', ''ceramides'', ''chitosan'', ''choline'', ''chondroitin-sulfate'',
     ''cysteine-hci'', ''epicutin-tt'', ''factor-arl'', ''glucosamine-sulfate'',
     ''glycerin'', ''glycine'', ''hydration-factor-cte4'', ''inositol'', ''lecithin'',
     ''linolenic-acid'', ''lysine'', ''melatonin'', ''methionine'', ''mineral-oil'',
     ''mpc'', ''paba'', ''petrolatum'', ''phospholipids'', ''saw-palmetto'', ''squalene'',
     ''royal-jelly'', ''argan-oil'', ''balm-mint-oil'', ''clove-oil'', ''eucalyptus-oil'',
     ''evening-primrose-oil'', ''jojoba-seed-oil'', ''lavender-oil'', ''peppermint-oil'',
     ''rosemary-oil'', ''sage-oil'', ''tea-tree-oil'', ''thyme-oil'', ''amber'']"

text \<open>
  \<open>xs.some(f)\<close> where \<open>f\<close> may raise: the elements are tried in order, the first \<open>true\<close>
  ends the search, and an exception leaves it at once.
\<close>

fun someE :: "('a \<Rightarrow> jserror + bool) \<Rightarrow> 'a list \<Rightarrow> jserror + bool" where
  "someE f [] = Inr False"
| "someE f (x # xs) =
     (case f x of Inl e \<Rightarrow> Inl e | Inr True \<Rightarrow> Inr True | Inr False \<Rightarrow> someE f xs)"

text \<open>
  \<open>!nonPlantSlugs.some(s => id.includes(s)) && !id.includes('vitamin-') &&
  !id.includes('omega')\<close>, with the short-circuit order of \<open>&&\<close>.
\<close>

definition isPlantId :: "jsval \<Rightarrow> jserror + bool" where
  "isPlantId ident =
     (case someE (jsIncludes ident) nonPlantSlugs of
        Inl e \<Rightarrow> Inl e
      | Inr True \<Rightarrow> Inr False
      | Inr False \<Rightarrow>
          (case jsIncludes ident (U ''vitamin-'') of
             Inl e \<Rightarrow> Inl e
           | Inr True \<Rightarrow> Inr False
           | Inr False \<Rightarrow>
               (case jsIncludes ident (U ''omega'') of
                  Inl e \<Rightarrow> Inl e
                | Inr b \<Rightarrow> Inr (\<not> b))))"

text \<open>The key test of \<open>validateLanguageMap\<close>: \<open>/^[a-z]{2}(-[A-Z]{2})?$/\<close>.\<close>

definition lowerAscii :: "char \<Rightarrow> bool" where
  "lowerAscii c = (97 \<le> (of_char c :: nat) \<and> (of_char c :: nat) \<le> 122)"

definition upperAscii :: "char \<Rightarrow> bool" where
  "upperAscii c = (65 \<le> (of_char c :: nat) \<and> (of_char c :: nat) \<le> 90)"

fun isLanguageCode :: "string \<Rightarrow> bool" where
  "isLanguageCode [a, b] = (lowerAscii a \<and> lowerAscii b)"
| "isLanguageCode [a, b, h, c, d] =
     (lowerAscii a \<and> lowerAscii b \<and> h = CHR ''-'' \<and> upperAscii c \<and> upperAscii d)"
| "isLanguageCode k = False"

text \<open>\<open>Object.keys\<close> of an array are its indices in decimal, none of them a language code.\<close>

fun hasLanguageCodeKey :: "jsval \<Rightarrow> bool" where
  "hasLanguageCodeKey (JObj kvs) = list_ex isLanguageCode (map fst kvs)"
| "hasLanguageCodeKey v = False"

fun isObjectType :: "jsval \<Rightarrow> bool" where
  "isObjectType (JObj kvs) = True"
| "isObjectType (JArr xs) = True"
| "isObjectType JNull = True"
| "isObjectType v = False"

fun isStringType :: "jsval \<Rightarrow> bool" where
  "isStringType (JStr s) = True"
| "isStringType v = False"

definition validateLanguageMap :: "jsval \<Rightarrow> string \<Rightarrow> string list \<Rightarrow> string list" where
  "validateLanguageMap v propName ws =
     (if \<not> truthy v then ws
      else if isStringType v
        then ws @ [propName @ '' should be a language map, not a string'']
      else if isObjectType v \<and> \<not> hasLanguageCodeKey v
        then ws @ [propName @ '' language map should use valid language codes (en, zh-Hant, etc.)'']
      else ws)"

text \<open>
  \<open>validateIri\<close> returns from each of its branches without reporting anything
  (``not necessarily an error, could be valid'').
\<close>

definition iriPrefixes :: "ustring list" where
  "iriPrefixes = map U [''http'', ''plant/'', ''tcm/'', ''ayurveda/'', ''category/'',
     ''nature/'', ''flavor/'', ''meridian/'', ''rasa/'', ''virya/'', ''vipaka/'', ''guna/'',
     ''dosha/'']"

definition validateIri :: "jsval \<Rightarrow> string \<Rightarrow> string list \<Rightarrow> string list" where
  "validateIri v propName errs =
     (if \<not> truthy v then errs
      else if isObjectType v \<and> truthy (getProp v ''@id'') then errs
      else if (case v of JStr s \<Rightarrow> list_ex (\<lambda>p. prefix p s) iriPrefixes | _ \<Rightarrow> False) then errs
      else errs)"

definition systemScopedProps :: "string list" where
  "systemScopedProps = [
     ''herbapedia:traditionalUsage'', ''traditionalUsage'',
     ''herbapedia:modernResearch'', ''modernResearch'',
     ''herbapedia:functions'', ''functions'',
     ''tcm:traditionalUsage'', ''ayurveda:traditionalUsage'', ''western:traditionalUsage'']"

definition scopeMessage :: "string \<Rightarrow> string" where
  "scopeMessage p =
     ''Plant entity should NOT contain system-scoped content: '' @ p @ ''. Move to system profile.''"

fun isArray :: "jsval \<Rightarrow> bool" where
  "isArray (JArr xs) = True"
| "isArray v = False"

text \<open>
  \<open>SimpleValidator.validatePlant\<close>. The only statement that can raise is the computation
  of \<open>isPlant\<close>, which comes first; the checks then append their messages in order.
\<close>

definition validatePlant :: "document \<Rightarrow> jserror + validation" where
  "validatePlant data =
     (case isPlantId (jsOr (get data ''@id'') (JStr [])) of
        Inl e \<Rightarrow> Inl e
      | Inr isPlant \<Rightarrow>
          (let e1 = (if \<not> truthy (get data ''@id'')
                     then [''Missing required property: @id''] else []);
               e2 = (if \<not> truthy (get data ''@type'')
                     then [''Missing required property: @type''] else []);
               w1 = (if truthy (get data ''@type'') \<and> \<not> isArray (get data ''@type'')
                     then [''@type should be an array''] else []);
               e3 = (if isPlant \<and> \<not> truthy (get data ''dwc:scientificName'')
                          \<and> \<not> truthy (get data ''scientificName'')
                     then [''Missing required property: scientificName''] else []);
               e4 = (if \<not> truthy (get data ''schema:name'') \<and> \<not> truthy (get data ''name'')
                     then [''Missing required property: name''] else []);
               w2 = validateLanguageMap (jsOr (get data ''schema:name'') (get data ''name''))
                      ''name'' w1;
               w3 = validateIri (jsOr (get data ''schema:sameAs'') (get data ''sameAs''))
                      ''sameAs'' w2;
               w4 = validateIri (jsOr (get data ''herbapedia:hasPart'') (get data ''hasPart''))
                      ''hasPart'' w3;
               w5 = validateIri (jsOr (get data ''herbapedia:containsChemical'')
                      (get data ''containsChemical'')) ''containsChemical'' w4;
               e5 = map scopeMessage (filter (\<lambda>p. truthy (get data p)) systemScopedProps)
           in Inr \<lparr>errors = e1 @ e2 @ e3 @ e4 @ e5, warnings = w5\<rparr>))"



section \<open>Translation filler: traditional to simplified conversion\<close>

text \<open>
  \<open>CHAR_MAP\<close> of \<open>fill-translations.js\<close>, in the order of the source. Every key and every
  value is a string of one code unit; the entries are given by their code units.
\<close>

definition CHAR_MAP_source :: "(nat \<times> nat) list" where
  "CHAR_MAP_source = [
(0x85E5, 0x836F), (0x91AB, 0x533B), (0x5B78, 0x5B66), (0x8518, 0x53C2),
(0x6C23, 0x6C14), (0x88DC, 0x8865), (0x990A, 0x517B), (0x5BE6, 0x5B9E), (0x865B, 0x865A),
(0x71B1, 0x70ED), (0x8B49, 0x8BC1), (0x8108, 0x8109), (0x9A5A, 0x60CA), (0x9AD4, 0x4F53),
(0x814E, 0x80BE), (0x81BD, 0x80C6), (0x8178, 0x80A0), (0x8166, 0x8111),
(0x9670, 0x9634), (0x967D, 0x9633), (0x7D93, 0x7ECF), (0x7D61, 0x7EDC), (0x81DF, 0x810F),
(0x819A, 0x80A4), (0x9AEE, 0x53D1), (0x984F, 0x989C), (0x984D, 0x989D), (0x982D, 0x5934),
(0x5291, 0x5242), (0x7642, 0x7597), (0x9A57, 0x9A8C), (0x7919, 0x788D),
(0x93AE, 0x9547), (0x975C, 0x9759), (0x596E, 0x594B), (0x95DC, 0x5173), (0x7BC0, 0x8282),
(0x8B8A, 0x53D8), (0x81A0, 0x80F6), (0x9846, 0x9897), (0x8CBC, 0x8D34), (0x98F2, 0x996E),
(0x6E6F, 0x6C64), (0x885D, 0x51B2), (0x8CEA, 0x8D28), (0x7A2E, 0x79CD), (0x985E, 0x7C7B),
(0x5C6C, 0x5C5E), (0x6F3F, 0x6D46), (0x6FC3, 0x6D53), (0x5099, 0x5907), (0x88FD, 0x5236),
(0x8449, 0x53F6), (0x5F8C, 0x540E), (0x4E7E, 0x5E72), (0x6FD5, 0x6E7F), (0x6F80, 0x6DA9),
(0x9E79, 0x54B8), (0x9B31, 0x90C1), (0x7A4D, 0x79EF), (0x7A69, 0x7A33), (0x52D5, 0x52A8),
(0x7D30, 0x7EC6), (0x8EDF, 0x8F6F), (0x786C, 0x786C), (0x7DE9, 0x7F13), (0x92B3, 0x9510),
(0x9ECF, 0x9ECF), (0x6F64, 0x6DA6), (0x6B77, 0x5386), (0x7D00, 0x7EAA), (0x8A18, 0x8BB0),
(0x8F09, 0x8F7D), (0x9304, 0x5F55), (0x50B3, 0x4F20), (0x7D71, 0x7EDF), (0x8AAA, 0x8BF4),
(0x8ABF, 0x8C03), (0x5291, 0x5242), (0x5F37, 0x5F3A), (0x58EF, 0x58EE), (0x8208, 0x5174),
(0x596E, 0x594B), (0x93AE, 0x9547), (0x5B89, 0x5B89), (0x795E, 0x795E), (0x7CBE, 0x7CBE),
(0x83EF, 0x534E), (0x570B, 0x56FD), (0x6771, 0x4E1C), (0x5340, 0x533A), (0x5C08, 0x4E13),
(0x696D, 0x4E1A), (0x66F8, 0x4E66), (0x64DA, 0x636E), (0x64DA, 0x636E), (0x7D50, 0x7ED3),
(0x69CB, 0x6784), (0x6A5F, 0x673A), (0x9AD4, 0x4F53), (0x7CFB, 0x7CFB), (0x7D71, 0x7EDF),
(0x6A23, 0x6837), (0x9019, 0x8FD9), (0x9EBC, 0x4E48), (0x6642, 0x65F6), (0x5011, 0x4EEC),
(0x500B, 0x4E2A), (0x70BA, 0x4E3A), (0x8207, 0x4E0E), (0x53CA, 0x53CA), (0x6216, 0x6216),
(0x5C07, 0x5C06), (0x65BC, 0x4E8E), (0x7531, 0x7531), (0x4F86, 0x6765), (0x7A2E, 0x79CD),
(0x9577, 0x957F), (0x958B, 0x5F00), (0x95DC, 0x5173), (0x9032, 0x8FDB), (0x904E, 0x8FC7),
(0x904B, 0x8FD0), (0x52D5, 0x52A8), (0x9084, 0x8FD8), (0x9032, 0x8FDB), (0x61C9, 0x5E94)]"

definition CHAR_MAP :: "(nat \<times> nat) list" where
  "CHAR_MAP = objectLiteral CHAR_MAP_source"

text \<open>
  \<open>tradToSimp\<close>: an empty text is returned as it is; otherwise every entry of the table,
  in turn, replaces all occurrences of its key by \<open>split\<close> and \<open>join\<close>.
\<close>

definition tradToSimp :: "ustring \<Rightarrow> ustring" where
  "tradToSimp text =
     (if text = [] then text
      else fold (\<lambda>(trad, simp) result. join [simp] (split [trad] result)) CHAR_MAP text)"

text \<open>
  The conversion of one code unit that the table prescribes when its entries are applied
  one after the other, as the loop of \<open>tradToSimp\<close> does.
\<close>

definition substChar :: "(nat \<times> nat) list \<Rightarrow> nat \<Rightarrow> nat" where
  "substChar es c = fold (\<lambda>(t, d) x. if x = t then d else x) es c"


text \<open>Two plant entities that are complete apart from the content key they carry.\<close>

definition plantWithTcmFunctions :: document where
  "plantWithTcmFunctions =
     [(''@id'', JStr (U ''plant/ginger'')),
      (''@type'', JArr [JStr (U ''schema:Plant'')]),
      (''scientificName'', JStr (U ''Zingiber officinale'')),
      (''name'', JObj [(''en'', JStr (U ''Ginger''))]),
      (''tcmFunctions'', JObj [(''en'', JStr (U ''Releases the exterior''))])]"



section \<open>String helpers of the linking scripts\<close>

text \<open>\<open>s.split(sep)[0]\<close>: the text before the first occurrence of the separator.\<close>

definition splitFirst :: "ustring \<Rightarrow> ustring \<Rightarrow> ustring" where
  "splitFirst sep s = (case split sep s of [] \<Rightarrow> [] | piece # rest \<Rightarrow> piece)"

text \<open>
  The code units that \<open>\s\<close> matches and \<open>trim\<close> removes: the white space and line
  terminators of ECMAScript.
\<close>

definition isSpace :: "nat \<Rightarrow> bool" where
  "isSpace c =
     (if c \<le> 32 then (9 \<le> c \<and> c \<le> 13) \<or> c = 32
      else if c < 160 then False
      else c = 160 \<or> c = 0x1680 \<or> (0x2000 \<le> c \<and> c \<le> 0x200A)
        \<or> c = 0x2028 \<or> c = 0x2029 \<or> c = 0x202F \<or> c = 0x205F \<or> c = 0x3000 \<or> c = 0xFEFF)"

definition trim :: "ustring \<Rightarrow> ustring" where
  "trim s = rev (dropWhile isSpace (rev (dropWhile isSpace s)))"

text \<open>
  \<open>toLowerCase\<close> on the ASCII letters. Other code units are left as they are: the
  scripts only search the result for lower-case ASCII words (none with a \<open>k\<close>, none
  ending in \<open>i\<close>), and no other code unit lower-cases to a text that could complete
  such a word.
\<close>

definition toLowerCase :: "ustring \<Rightarrow> ustring" where
  "toLowerCase s = map (\<lambda>c. if 65 \<le> c \<and> c \<le> 90 then c + 32 else c) s"

text \<open>A whole number inside a template literal: its decimal digits.\<close>

function showNat :: "nat \<Rightarrow> ustring" where
  "showNat n = (if n < 10 then [48 + n] else showNat (n div 10) @ [48 + n mod 10])"
  by pat_completeness auto
termination
  by (relation "measure id") auto

declare showNat.simps [simp del]

definition showInt :: "int \<Rightarrow> ustring" where
  "showInt i = (if i < 0 then 45 # showNat (nat (- i)) else showNat (nat i))"

section \<open>External linker: GBIF (\<open>link-gbif.js\<close>)\<close>

text \<open>
  The body of a species-match response as the script reads it: match type, species key,
  confidence on a scale of 0 to 100, and the matched name; each may be missing. The
  service is a parameter: it answers a name with a response, or with \<open>null\<close> (here
  \<open>None\<close>) after a timeout, a status that is not 2xx, or a network error.
\<close>

record gbifMatch =
  matchType :: "ustring option"
  speciesKey :: "int option"
  confidence :: "rat option"
  matchedName :: "ustring option"

type_synonym gbifService = "ustring \<Rightarrow> gbifMatch option"

text \<open>
  \<open>typeof link === 'object' ? link['@id'] || link : link\<close>. \<open>typeof null\<close> is
  \<open>'object'\<close>, so a \<open>null\<close> entry raises at the property read.
\<close>

fun linkUrl :: "jsval \<Rightarrow> jserror + jsval" where
  "linkUrl JNull = Inl TypeError"
| "linkUrl (JObj kvs) = Inr (jsOr (get kvs ''@id'') (JObj kvs))"
| "linkUrl v = Inr v"

text \<open>\<open>Array.isArray(x) ? x : [x]\<close>.\<close>

fun asLinks :: "jsval \<Rightarrow> jsval list" where
  "asLinks (JArr xs) = xs"
| "asLinks v = [v]"

definition urlIncludes :: "ustring \<Rightarrow> jsval \<Rightarrow> jserror + bool" where
  "urlIncludes domain link =
     (case linkUrl link of Inl e \<Rightarrow> Inl e | Inr url \<Rightarrow> jsIncludes url domain)"

definition hasGbifLink :: "document \<Rightarrow> jserror + bool" where
  "hasGbifLink entity =
     (if \<not> truthy (get entity ''sameAs'') then Inr False
      else someE (urlIncludes (U ''gbif.org'')) (asLinks (get entity ''sameAs'')))"

text \<open>
  Assignment to a property: an existing own property keeps its place, a new one goes to
  the end.
\<close>

definition setProp :: "document \<Rightarrow> string \<Rightarrow> jsval \<Rightarrow> document" where
  "setProp data key v = AList.update key v data"

definition urlEquals :: "ustring \<Rightarrow> jsval \<Rightarrow> jserror + bool" where
  "urlEquals target link =
     (case linkUrl link of Inl e \<Rightarrow> Inl e | Inr url \<Rightarrow> Inr (url = JStr target))"

text \<open>
  The part that \<open>addGbifLink\<close> and \<open>addWikidataLink\<close> share, word for word: make
  \<open>sameAs\<close> an array, and push \<open>{'@id': url}\<close> unless an entry already has that URL.
\<close>

definition pushLink :: "document \<Rightarrow> ustring \<Rightarrow> jserror + document" where
  "pushLink entity url =
     (let e1 = (if \<not> truthy (get entity ''sameAs'') then setProp entity ''sameAs'' (JArr [])
                else entity);
          e2 = (if \<not> isArray (get e1 ''sameAs'')
                then setProp e1 ''sameAs'' (JArr [get e1 ''sameAs'']) else e1);
          links = asLinks (get e2 ''sameAs'')
      in case someE (urlEquals url) links of
           Inl e \<Rightarrow> Inl e
         | Inr True \<Rightarrow> Inr e2
         | Inr False \<Rightarrow> Inr (setProp e2 ''sameAs'' (JArr (links @ [JObj [(''@id'', JStr url)]]))))"

text \<open>
  The URL of a species key. The key is printed digit by digit, which is how the template
  literal prints an integer below \<open>10\<^sup>2\<^sup>1\<close>; from there on it prints an
  exponent, which is not modelled.
\<close>

definition gbifUrl :: "int \<Rightarrow> ustring" where
  "gbifUrl gbifId = U ''https://www.gbif.org/species/'' @ showInt gbifId"

definition addGbifLink :: "document \<Rightarrow> int \<Rightarrow> jserror + document" where
  "addGbifLink entity gbifId =
     (case pushLink entity (gbifUrl gbifId) of
        Inl e \<Rightarrow> Inl e
      | Inr e' \<Rightarrow> Inr (setProp e' ''gbifId'' (JNum (of_int gbifId))))"

datatype skipReason = already_linked | no_scientific_name | no_plant_ref | plant_not_found

datatype gbifStatus =
    Skipped skipReason
  | Linked int gbifMatch rat
  | LowConfidence gbifMatch rat
  | NotFound "ustring list"
  | Raised jserror

text \<open>
  What one run of \<open>processPlantEntity\<close> does: the value it returns (or the exception it
  leaves with, which \<open>main\<close> counts as an error), the names sent to the service in order,
  and the entity written back to the file, if any. \<open>Linked k m c\<close> stands for the
  object \<open>{status: 'linked', gbifId: k, scientificName, matchType, confidence: c}\<close> whose
  name and match type are those of the response \<open>m\<close>.
\<close>

record gbifOutcome =
  status :: gbifStatus
  queried :: "ustring list"
  written :: "document option"

definition cleanGbifName :: "ustring \<Rightarrow> ustring" where
  "cleanGbifName s =
     trim (splitFirst (U ''Hort'') (splitFirst (U ''Thunb.'') (splitFirst (U ''DC.'')
       (splitFirst (U ''L.'') (splitFirst (U ''('') s)))))"

text \<open>
  \<open>match && match.matchType && match.matchType !== 'NONE' && match.speciesKey\<close>, giving
  the species key when the test passes (it is not 0 then), and \<open>match.confidence || 0\<close>.
\<close>

definition usableMatch :: "gbifMatch option \<Rightarrow> (gbifMatch \<times> int) option" where
  "usableMatch r =
     (case r of
        None \<Rightarrow> None
      | Some m \<Rightarrow>
          (case matchType m of
             None \<Rightarrow> None
           | Some t \<Rightarrow>
               if t = [] \<or> t = U ''NONE'' then None
               else (case speciesKey m of
                       None \<Rightarrow> None
                     | Some k \<Rightarrow> if k = 0 then None else Some (m, k))))"

definition confidenceOf :: "gbifMatch \<Rightarrow> rat" where
  "confidenceOf m = (case confidence m of None \<Rightarrow> 0 | Some c \<Rightarrow> c)"

text \<open>
  The accepting branch: unless this is a dry run, add the link and write the file; then
  report \<open>linked\<close>.
\<close>

definition acceptMatch ::
  "bool \<Rightarrow> document \<Rightarrow> gbifMatch \<Rightarrow> int \<Rightarrow> ustring list \<Rightarrow> gbifOutcome" where
  "acceptMatch dryRun entity m k names =
     (let linked = Linked k m (confidenceOf m) in
      if dryRun then \<lparr>status = linked, queried = names, written = None\<rparr>
      else (case addGbifLink entity k of
              Inl e \<Rightarrow> \<lparr>status = Raised e, queried = names, written = None\<rparr>
            | Inr e' \<Rightarrow> \<lparr>status = linked, queried = names, written = Some e'\<rparr>))"

definition processPlantEntity :: "bool \<Rightarrow> gbifService \<Rightarrow> document \<Rightarrow> gbifOutcome" where
  "processPlantEntity dryRun service entity =
     (case hasGbifLink entity of
        Inl e \<Rightarrow> \<lparr>status = Raised e, queried = [], written = None\<rparr>
      | Inr True \<Rightarrow> \<lparr>status = Skipped already_linked, queried = [], written = None\<rparr>
      | Inr False \<Rightarrow>
          (if \<not> truthy (get entity ''scientificName'')
           then \<lparr>status = Skipped no_scientific_name, queried = [], written = None\<rparr>
           else (case get entity ''scientificName'' of
             JStr scientificName \<Rightarrow>
               (let cleanName = cleanGbifName scientificName in
                case usableMatch (service cleanName) of
                  Some (m, k) \<Rightarrow>
                    if confidenceOf m \<ge> 80
                    then acceptMatch dryRun entity m k [cleanName]
                    else \<lparr>status = LowConfidence m (confidenceOf m),
                           queried = [cleanName], written = None\<rparr>
                | None \<Rightarrow>
                    if cleanName \<noteq> scientificName
                    then (case usableMatch (service scientificName) of
                            Some (m2, k2) \<Rightarrow>
                              if confidenceOf m2 \<ge> 80
                              then acceptMatch dryRun entity m2 k2 [cleanName, scientificName]
                              else \<lparr>status = NotFound [cleanName, scientificName],
                                     queried = [cleanName, scientificName], written = None\<rparr>
                          | None \<Rightarrow>
                              \<lparr>status = NotFound [cleanName, scientificName],
                                queried = [cleanName, scientificName], written = None\<rparr>)
                    else \<lparr>status = NotFound [cleanName, scientificName],
                           queried = [cleanName], written = None\<rparr>)
           | other \<Rightarrow> \<lparr>status = Raised TypeError, queried = [], written = None\<rparr>)))"

section \<open>External linker: Wikidata (\<open>link-wikidata.js\<close>)\<close>

text \<open>
  A hit of the entity search (\<open>id\<close> and optional \<open>description\<close>) and the two services
  as parameters: the search answers a term with its hits, the SPARQL endpoint answers a
  name with the \<open>item.value\<close> of each binding; both answer with the empty list after a
  timeout or an error.
\<close>

record searchHit =
  hitId :: ustring
  hitDescription :: "ustring option"

type_synonym searchService = "jsval \<Rightarrow> searchHit list"

type_synonym sparqlService = "ustring \<Rightarrow> ustring list"

text \<open>The fields of a \<open>plantMap\<close> entry that \<open>processHerbProfile\<close> reads.\<close>

record plantInfo =
  plantScientificName :: jsval
  plantName :: jsval

definition hasWikidataLink :: "document \<Rightarrow> jserror + bool" where
  "hasWikidataLink profile =
     (if \<not> truthy (get profile ''sameAs'') then Inr False
      else someE (urlIncludes (U ''wikidata.org'')) (asLinks (get profile ''sameAs'')))"

definition wikidataUrl :: "ustring \<Rightarrow> ustring" where
  "wikidataUrl qid = U ''https://www.wikidata.org/wiki/'' @ qid"

definition addWikidataLink :: "document \<Rightarrow> ustring \<Rightarrow> jserror + document" where
  "addWikidataLink profile qid = pushLink profile (wikidataUrl qid)"

text \<open>\<open>uri.match(/Q\d+$/)\<close>: the leftmost \<open>Q\<close> that only digits follow, to the end.\<close>

definition isDigit :: "nat \<Rightarrow> bool" where
  "isDigit c = (48 \<le> c \<and> c \<le> 57)"

fun extractQid :: "ustring \<Rightarrow> ustring option" where
  "extractQid [] = None"
| "extractQid (c # cs) =
     (if c = 81 \<and> cs \<noteq> [] \<and> list_all isDigit cs then Some (c # cs) else extractQid cs)"

definition plantLike :: "searchHit \<Rightarrow> bool" where
  "plantLike hit =
     (let desc = toLowerCase (case hitDescription hit of None \<Rightarrow> [] | Some d \<Rightarrow> d) in
      includes' desc (U ''plant'') \<or> includes' desc (U ''species'')
      \<or> includes' desc (U ''taxon'') \<or> includes' desc (U ''herb'')
      \<or> includes' desc (U ''tree'') \<or> includes' desc (U ''flower''))"

datatype wdCall = SearchCall jsval | SparqlCall ustring

datatype wdMethod = rest_api jsval | sparql

datatype wdStatus =
    WdSkipped skipReason
  | WdLinked ustring wdMethod
  | WdNotFound "jsval list"
  | WdRaised jserror

record wdOutcome =
  wdStatus :: wdStatus
  wdCalls :: "wdCall list"
  wdWritten :: "document option"

text \<open>
  The loop over the search terms: each term is sent to the search, and the first hit that
  looks like a plant ends the loop.
\<close>

fun searchTerms :: "searchService \<Rightarrow> jsval list \<Rightarrow> wdCall list
    \<Rightarrow> (searchHit \<times> jsval) option \<times> wdCall list" where
  "searchTerms search [] calls = (None, calls)"
| "searchTerms search (term # terms) calls =
     (case find plantLike (search term) of
        Some hit \<Rightarrow> (Some (hit, term), calls @ [SearchCall term])
      | None \<Rightarrow> searchTerms search terms (calls @ [SearchCall term]))"

definition linkProfile ::
  "bool \<Rightarrow> document \<Rightarrow> ustring \<Rightarrow> wdMethod \<Rightarrow> wdCall list \<Rightarrow> wdOutcome" where
  "linkProfile dryRun profile qid method calls =
     (if dryRun then \<lparr>wdStatus = WdLinked qid method, wdCalls = calls, wdWritten = None\<rparr>
      else (case addWikidataLink profile qid of
              Inl e \<Rightarrow> \<lparr>wdStatus = WdRaised e, wdCalls = calls, wdWritten = None\<rparr>
            | Inr p' \<Rightarrow> \<lparr>wdStatus = WdLinked qid method, wdCalls = calls, wdWritten = Some p'\<rparr>))"

definition cleanWikidataName :: "ustring \<Rightarrow> ustring" where
  "cleanWikidataName s =
     trim (splitFirst (U ''DC.'') (splitFirst (U ''L.'') (splitFirst (U ''('') s)))"

text \<open>
  \<open>processHerbProfile\<close>. \<open>plantMap\<close> is keyed by strings, so a reference that is not a
  string finds nothing.
\<close>

definition processHerbProfile ::
  "bool \<Rightarrow> searchService \<Rightarrow> sparqlService \<Rightarrow> (ustring \<Rightarrow> plantInfo option) \<Rightarrow> document
    \<Rightarrow> wdOutcome" where
  "processHerbProfile dryRun search sparqlQuery plantMap profile =
     (case hasWikidataLink profile of
        Inl e \<Rightarrow> \<lparr>wdStatus = WdRaised e, wdCalls = [], wdWritten = None\<rparr>
      | Inr True \<Rightarrow> \<lparr>wdStatus = WdSkipped already_linked, wdCalls = [], wdWritten = None\<rparr>
      | Inr False \<Rightarrow>
          (let plantRef = jsOr (getProp (get profile ''derivedFromPlant'') ''@id'')
                            (get profile ''derivedFromPlant'') in
           if \<not> truthy plantRef
           then \<lparr>wdStatus = WdSkipped no_plant_ref, wdCalls = [], wdWritten = None\<rparr>
           else case (case plantRef of JStr r \<Rightarrow> plantMap r | other \<Rightarrow> None) of
             None \<Rightarrow> \<lparr>wdStatus = WdSkipped plant_not_found, wdCalls = [], wdWritten = None\<rparr>
           | Some plant \<Rightarrow>
               if \<not> truthy (plantScientificName plant)
               then \<lparr>wdStatus = WdSkipped no_scientific_name, wdCalls = [], wdWritten = None\<rparr>
               else (case plantScientificName plant of
                 JStr scientificName \<Rightarrow>
                   (let cleanName = cleanWikidataName scientificName;
                        terms = filter truthy
                          [JStr cleanName, JStr scientificName,
                           getProp (get profile ''name'') ''en'',
                           getProp (plantName plant) ''en'']
                    in case searchTerms search terms [] of
                         (Some (hit, term), calls) \<Rightarrow>
                           linkProfile dryRun profile (hitId hit) (rest_api term) calls
                       | (None, calls) \<Rightarrow>
                           (case sparqlQuery cleanName of
                              [] \<Rightarrow> \<lparr>wdStatus = WdNotFound terms,
                                      wdCalls = calls @ [SparqlCall cleanName], wdWritten = None\<rparr>
                            | item # items \<Rightarrow>
                                (case extractQid item of
                                   Some qid \<Rightarrow>
                                     linkProfile dryRun profile qid sparql
                                       (calls @ [SparqlCall cleanName])
                                 | None \<Rightarrow>
                                     \<lparr>wdStatus = WdNotFound terms,
                                       wdCalls = calls @ [SparqlCall cleanName],
                                       wdWritten = None\<rparr>)))
               | other \<Rightarrow> \<lparr>wdStatus = WdRaised TypeError, wdCalls = [], wdWritten = None\<rparr>)))"

text \<open>
  The claims' ``cross-reference whose URL contains the domain'': the URL read from the
  entry is a string that includes the domain. An entry is readable when the URL read
  from it answers \<open>includes\<close> at all (a string, or an array).
\<close>

definition urlContains :: "ustring \<Rightarrow> jsval \<Rightarrow> bool" where
  "urlContains domain link =
     (case linkUrl link of Inr (JStr u) \<Rightarrow> includes' u domain | other \<Rightarrow> False)"

definition readableUrl :: "jsval \<Rightarrow> bool" where
  "readableUrl link =
     (case linkUrl link of Inr (JStr u) \<Rightarrow> True | Inr (JArr xs) \<Rightarrow> True | other \<Rightarrow> False)"




text \<open>
  The cross-reference list of an entity as the linking scripts read it (a missing or
  falsy \<open>sameAs\<close> is the empty list, a single value a list of one), and the URLs of
  those entries that have one.
\<close>

definition currentLinks :: "document \<Rightarrow> jsval list" where
  "currentLinks entity =
     (if \<not> truthy (get entity ''sameAs'') then [] else asLinks (get entity ''sameAs''))"

definition urlStrings :: "jsval list \<Rightarrow> ustring list" where
  "urlStrings links =
     concat (map (\<lambda>l. case linkUrl l of Inr (JStr u) \<Rightarrow> [u] | other \<Rightarrow> []) links)"

text \<open>Any number of link operations, one after the other, stopping at an exception.\<close>

datatype linkOp = GbifLink int | WikidataLink ustring

fun applyLinks :: "document \<Rightarrow> linkOp list \<Rightarrow> jserror + document" where
  "applyLinks entity [] = Inr entity"
| "applyLinks entity (GbifLink k # ops) =
     (case addGbifLink entity k of Inl e \<Rightarrow> Inl e | Inr entity' \<Rightarrow> applyLinks entity' ops)"
| "applyLinks entity (WikidataLink q # ops) =
     (case addWikidataLink entity q of Inl e \<Rightarrow> Inl e | Inr entity' \<Rightarrow> applyLinks entity' ops)"

definition entityWithDuplicateLinks :: document where
  "entityWithDuplicateLinks =
     [(''sameAs'', JArr [JObj [(''@id'', JStr (U ''https://www.gbif.org/species/1''))],
                        JObj [(''@id'', JStr (U ''https://www.gbif.org/species/1''))]])]"

definition gingerEntity :: document where
  "gingerEntity = [(''scientificName'', JStr (U ''Zingiber officinale''))]"

definition noneMatch :: gbifMatch where
  "noneMatch =
     \<lparr>matchType = Some (U ''NONE''), speciesKey = Some 2757280, confidence = Some 90,
      matchedName = None\<rparr>"

definition noneService :: gbifService where
  "noneService name = Some noneMatch"

definition fuzzyMatch :: "rat \<Rightarrow> gbifMatch" where
  "fuzzyMatch c =
     \<lparr>matchType = Some (U ''FUZZY''), speciesKey = Some 2757280, confidence = Some c,
      matchedName = Some (U ''Zingiber officinale Roscoe'')\<rparr>"

definition fuzzyService :: "rat \<Rightarrow> gbifService" where
  "fuzzyService c name = Some (fuzzyMatch c)"

section \<open>Index builder (\<open>build-index.js\<close>)\<close>

text \<open>
  The summaries that \<open>buildPlantIndex\<close> and \<open>buildTcmIndex\<close> hand to \<open>buildMergedIndex\<close>,
  and the entries of the merged index. A plant reference of a profile is a slug or
  \<open>null\<close>; the fields copied from the documents are arbitrary values, and a field that an
  entry does not have is \<open>undefined\<close>.
\<close>

record plantSummary =
  pSlug :: ustring
  pName :: jsval
  pCommonName :: jsval
  pScientificName :: jsval
  pFamily :: jsval
  pImage :: jsval

record tcmSummary =
  tSlug :: ustring
  tCategory :: ustring
  tPlantSlug :: "ustring option"
  tName :: jsval
  tPinyin :: jsval
  tChineseName :: jsval
  tHasCategory :: jsval
  tHasNature :: jsval
  tHasFlavor :: jsval
  tEntersMeridian :: jsval

datatype entryType = TypeHerb | TypePlant

record mergedEntry =
  mSlug :: "ustring option"
  mTcmSlug :: "ustring option"
  mCategory :: ustring
  mType :: entryType
  mName :: jsval
  mCommonName :: jsval
  mScientificName :: jsval
  mFamily :: jsval
  mPinyin :: jsval
  mChineseName :: jsval
  mHasNature :: jsval
  mHasFlavor :: jsval
  mEntersMeridian :: jsval
  mImage :: jsval

text \<open>
  \<open>plantMap.get(slug)\<close> after every plant was \<open>set\<close> under its slug: the last plant
  with that slug, and nothing for \<open>null\<close>.
\<close>

definition plantMapGet :: "plantSummary list \<Rightarrow> ustring option \<Rightarrow> plantSummary option" where
  "plantMapGet plants ref =
     (case ref of None \<Rightarrow> None | Some s \<Rightarrow> find (\<lambda>p. pSlug p = s) (rev plants))"

text \<open>\<open>plant?.field || fallback\<close>.\<close>

definition plantField ::
  "plantSummary option \<Rightarrow> (plantSummary \<Rightarrow> jsval) \<Rightarrow> jsval \<Rightarrow> jsval" where
  "plantField found field fallback =
     (case found of None \<Rightarrow> fallback | Some p \<Rightarrow> jsOr (field p) fallback)"

definition herbEntry :: "plantSummary list \<Rightarrow> tcmSummary \<Rightarrow> mergedEntry" where
  "herbEntry plants tcm =
     (let found = plantMapGet plants (tPlantSlug tcm) in
      \<lparr>mSlug = tPlantSlug tcm,
       mTcmSlug = Some (tSlug tcm),
       mCategory = tCategory tcm,
       mType = TypeHerb,
       mName = plantField found pName (tName tcm),
       mCommonName = plantField found pCommonName (JObj []),
       mScientificName = plantField found pScientificName JNull,
       mFamily = plantField found pFamily JNull,
       mPinyin = tPinyin tcm,
       mChineseName = tChineseName tcm,
       mHasNature = tHasNature tcm,
       mHasFlavor = tHasFlavor tcm,
       mEntersMeridian = tEntersMeridian tcm,
       mImage = plantField found pImage JNull\<rparr>)"

definition mineralSlugs :: "ustring list" where
  "mineralSlugs = map U [''calcium'', ''copper'', ''iodine'', ''iron'', ''magnesium'',
     ''manganese'', ''potassium'', ''selenium'', ''zinc'']"

definition nutrientWords :: "ustring list" where
  "nutrientWords = map U [''choline'', ''chondroitin'', ''glucosamine'', ''inositol'',
     ''lecithin'', ''lysine'', ''melatonin'', ''methionine'']"

definition plantCategory :: "ustring \<Rightarrow> ustring" where
  "plantCategory slug =
     (if includes' slug (U ''vitamin-'') then U ''vitamins''
      else if slug \<in> set mineralSlugs then U ''minerals''
      else if list_ex (\<lambda>n. includes' slug n) nutrientWords then U ''nutrients''
      else U ''western-herbs'')"

definition plantEntry :: "plantSummary \<Rightarrow> mergedEntry" where
  "plantEntry p =
     \<lparr>mSlug = Some (pSlug p),
      mTcmSlug = None,
      mCategory = plantCategory (pSlug p),
      mType = TypePlant,
      mName = pName p,
      mCommonName = pCommonName p,
      mScientificName = pScientificName p,
      mFamily = pFamily p,
      mPinyin = JUndefined,
      mChineseName = JUndefined,
      mHasNature = JUndefined,
      mHasFlavor = JUndefined,
      mEntersMeridian = JUndefined,
      mImage = pImage p\<rparr>"

text \<open>
  \<open>categoryCounts\<close> with its five keys, and \<open>categoryCounts[c]++\<close> guarded by
  \<open>categoryCounts[c] !== undefined\<close>. A category named like a property that the object
  inherits passes the guard as well: the increment of a function is \<open>NaN\<close> (here
  \<open>None\<close>), stored under a new key, except for \<open>__proto__\<close>, whose setter ignores a
  number. A plant's category is always one of the five.
\<close>

definition inheritedNames :: "ustring list" where
  "inheritedNames = map U [''constructor'', ''__defineGetter__'', ''__defineSetter__'',
     ''hasOwnProperty'', ''__lookupGetter__'', ''__lookupSetter__'', ''isPrototypeOf'',
     ''propertyIsEnumerable'', ''toString'', ''valueOf'', ''__proto__'', ''toLocaleString'']"

definition initialCounts :: "(ustring \<times> nat option) list" where
  "initialCounts = [(U ''chinese-herbs'', Some 0), (U ''western-herbs'', Some 0),
     (U ''vitamins'', Some 0), (U ''minerals'', Some 0), (U ''nutrients'', Some 0)]"

definition countCategory ::
  "ustring \<Rightarrow> (ustring \<times> nat option) list \<Rightarrow> (ustring \<times> nat option) list" where
  "countCategory c counts =
     (if c \<in> set (map fst counts)
      then map (\<lambda>(k, n). if k = c then (k, map_option Suc n) else (k, n)) counts
      else if c \<in> set inheritedNames \<and> c \<noteq> U ''__proto__'' then counts @ [(c, None)]
      else counts)"

text \<open>
  \<open>buildMergedIndex\<close>: one entry of type \<open>herb\<close> for every profile, whether or not its
  plant exists, then one entry of type \<open>plant\<close> for every plant that no profile
  references. It returns the entries and the counts, and nothing else.
\<close>

definition buildMergedIndex ::
  "plantSummary list \<Rightarrow> tcmSummary list
    \<Rightarrow> mergedEntry list \<times> (ustring \<times> nat option) list" where
  "buildMergedIndex plants tcmHerbs =
     (let unreferenced = filter (\<lambda>p. Some (pSlug p) \<notin> set (map tPlantSlug tcmHerbs)) plants;
          merged = map (herbEntry plants) tcmHerbs @ map plantEntry unreferenced;
          counts = fold (\<lambda>p. countCategory (plantCategory (pSlug p))) unreferenced
                     (fold (\<lambda>t. countCategory (tCategory t)) tcmHerbs initialCounts)
      in (merged, counts))"

text \<open>The corpus of the claim: ten plants, five profiles of five of them, one orphan.\<close>

definition examplePlant :: "string \<Rightarrow> plantSummary" where
  "examplePlant s =
     \<lparr>pSlug = U s, pName = JObj [(''en'', JStr (U s))], pCommonName = JObj [],
      pScientificName = JStr (U s), pFamily = JNull, pImage = JNull\<rparr>"

definition exampleProfile :: "string \<Rightarrow> string \<Rightarrow> tcmSummary" where
  "exampleProfile s ref =
     \<lparr>tSlug = U s, tCategory = U ''chinese-herbs'', tPlantSlug = Some (U ref),
      tName = JObj [(''en'', JStr (U s))], tPinyin = JNull, tChineseName = JNull,
      tHasCategory = JUndefined, tHasNature = JUndefined, tHasFlavor = JUndefined,
      tEntersMeridian = JUndefined\<rparr>"

definition examplePlants :: "plantSummary list" where
  "examplePlants = map examplePlant
     [''p0'', ''p1'', ''p2'', ''p3'', ''p4'', ''p5'', ''p6'', ''p7'', ''p8'', ''p9'']"

definition exampleProfiles :: "tcmSummary list" where
  "exampleProfiles =
     [exampleProfile ''t0'' ''p0'', exampleProfile ''t1'' ''p1'', exampleProfile ''t2'' ''p2'',
      exampleProfile ''t3'' ''p3'', exampleProfile ''t4'' ''p4'', exampleProfile ''t5'' ''ghost'']"

section \<open>Name normalizer (\<open>fix-scientific-names.js\<close>)\<close>

definition TYPO_CORRECTIONS :: "(ustring \<times> ustring) list" where
  "TYPO_CORRECTIONS = map (\<lambda>(typo, correction). (U typo, U correction)) [
     (''Atractytlodes'', ''Atractylodes''),
     (''Miltorrhiza'', ''miltiorrhiza''),
     (''Ziaiphus Jujube Mill. Var. Spinosa'', ''Ziziphus jujuba var. spinosa''),
     (''Corus officinalis'', ''Cornus officinalis''),
     (''Coriolus Versicolour, Trametes versicolor'', ''Trametes versicolor''),
     (''Arctium lappi'', ''Arctium lappa''),
     (''Serenoa Serrulata'', ''Serenoa repens''),
     (''Rhodiola Sacra'', ''Rhodiola rosea''),
     (''Rosmarinus Officinalis'', ''Salvia rosmarinus''),
     (''Citrus Reticulate Blanco'', ''Citrus reticulata''),
     (''Ostrea Gigas'', ''Crassostrea gigas''),
     (''Cynomorium songaricum Rupr.'', ''Cynomorium coccineum''),
     (''Albizzia Julibrissin Durazz'', ''Albizia julibrissin''),
     (''Morindae Officinalis'', ''Morinda officinalis''),
     (''Achyranthis bidentatae'', ''Achyranthes bidentata''),
     (''Polygonum Bistortae'', ''Bistorta officinalis''),
     (''Cimicifuga heracleifolia Kom.'', ''Actaea heracleifolia''),
     (''radix angelicae pubescentisa'', ''Angelica pubescens''),
     (''Artemisiae Argyi'', ''Artemisia argyi''),
     (''Ligusticum chuanxiong Hort'', ''Ligusticum striatum''),
     (''Gastrodia elatae'', ''Gastrodia elata''),
     (''Alisma orientalis'', ''Alisma plantago-aquatica''),
     (''Polygonum multiflorum Thunb.'', ''Reynoutria multiflora''),
     (''Polygonum multiflorum Thunb'', ''Reynoutria multiflora''),
     (''Zea Mays (LINN.)'', ''Zea mays''),
     (''Vaccinium Macrocarpon'', ''Vaccinium macrocarpon''),
     (''Magnolia denudata'', ''Magnolia denudata'')]"

definition AUTHOR_CITATIONS :: "ustring list" where
  "AUTHOR_CITATIONS = map U [
     ''Y. C. Ma'', ''Y C Ma'',
     ''L.'', ''Bge.'', ''Hort'', ''Oliv.'', ''Thunb.'', ''Durazz'', ''Michx.'',
     ''Rupr.'', ''Ma'', ''Kom.'', ''Lindl.'', ''Lam'', ''DC.'', ''C.A.Mey'',
     ''C. A. Mey'', ''Harv.'', ''Setch.'', ''Blanco'', ''(LINN.)'',
     ''Ramat.'', ''Sacc.'', ''Nannf.'', ''Moench'', ''Gaertn'', ''Batsch'',
     ''Franch.'', ''BerK.'', ''Vent. Ex Pers.'', ''Vent Ex Pers.'', ''Fischer'',
     ''(Harv.) Setch.'', ''(Franch.) Nannf.'', ''(BerK.) Sacc.'',
     ''(Vent. Ex Pers.) Fischer'', ''(Vent Ex Pers.) Fischer'',
     ''(L.) Moench'', ''(L.) Gaertn'', ''(L.) Batsch'', ''(Thunb.) DC.'',
     ''(DC. ) Koidz.'', ''Koidz.'', ''Thumb'', ''(Thumb)'',
     ''C. A. Mey.'']"

definition SKIP_PATTERNS :: "ustring list" where
  "SKIP_PATTERNS = map U [
     ''Massa Fermentata'', ''Processed'', ''Carapace'', ''fatty acids'',
     ''DHA'', ''EPA'', ''GLA'', ''LA'', ''AA'',
     ''Tocopherol'', ''Retinol'', ''Ascorbic'']"

text \<open>
  \<open>s.replace(pattern, replacement)\<close> with a string pattern: the first occurrence only.
  (No replacement of the table contains a \<open>$\<close>, so it is inserted as it is.)
\<close>

fun replaceFirst :: "ustring \<Rightarrow> ustring \<Rightarrow> ustring \<Rightarrow> ustring" where
  "replaceFirst pat rep [] = (if pat = [] then rep else [])"
| "replaceFirst pat rep (c # cs) =
     (if prefix pat (c # cs) then rep @ drop (length pat) (c # cs)
      else c # replaceFirst pat rep cs)"

text \<open>
  \<open>s.replace(regex, replacement)\<close> with a global regular expression. The expression is
  given by its matcher: at a position of the text, it answers with the text that remains
  after the match that starts there, if there is one. The search goes from left to right;
  after a match it continues behind it, and after an empty match one code unit further.
\<close>

function gsub :: "(ustring \<Rightarrow> ustring option) \<Rightarrow> ustring \<Rightarrow> ustring \<Rightarrow> ustring" where
  "gsub matchAt rep [] = (case matchAt [] of Some rest \<Rightarrow> rep | None \<Rightarrow> [])"
| "gsub matchAt rep (c # cs) =
     (case matchAt (c # cs) of
        Some rest \<Rightarrow>
          if length rest < length (c # cs) then rep @ gsub matchAt rep rest
          else rep @ c # gsub matchAt rep cs
      | None \<Rightarrow> c # gsub matchAt rep cs)"
  by pat_completeness auto
termination
  by (relation "measure (\<lambda>(matchAt, rep, s). length s)") auto

text \<open>
  The matchers of the expressions of \<open>fixScientificName\<close>. In each of them a greedy run of
  white space (or of the class \<open>[A-Za-z\.\s]\<close>) is followed by a character outside the
  run's class, so the run is matched whole or the match fails.

  \<open>\s*LIT\s*\<close> for an escaped literal:
\<close>

definition matchCitation :: "ustring \<Rightarrow> ustring \<Rightarrow> ustring option" where
  "matchCitation lit s =
     (let rest = dropWhile isSpace s in
      if prefix lit rest then Some (dropWhile isSpace (drop (length lit) rest)) else None)"

text \<open>
  \<open>\s*\([A-Za-z\.\s]+\)\s*\<close>, and \<open>\s*\([A-Za-z\.\s]+ Ex [A-Za-z\.\s]+\)\s*\<close> with the flag
  \<open>i\<close>: an opening parenthesis, a run of the class that satisfies \<open>inside\<close>, a closing
  parenthesis. For the second expression the run must hold \<open>Ex\<close> in any case between
  two spaces, with at least one more character of the run on either side.
\<close>

definition isLetter :: "nat \<Rightarrow> bool" where
  "isLetter c = ((65 \<le> c \<and> c \<le> 90) \<or> (97 \<le> c \<and> c \<le> 122))"

definition isCitationChar :: "nat \<Rightarrow> bool" where
  "isCitationChar c = (isLetter c \<or> c = 46 \<or> isSpace c)"

definition matchParenthesized :: "(ustring \<Rightarrow> bool) \<Rightarrow> ustring \<Rightarrow> ustring option" where
  "matchParenthesized inside s =
     (case dropWhile isSpace s of
        [] \<Rightarrow> None
      | c # r1 \<Rightarrow>
          if c = 40 \<and> inside (takeWhile isCitationChar r1)
          then (case dropWhile isCitationChar r1 of
                  [] \<Rightarrow> None
                | d # r2 \<Rightarrow> if d = 41 then Some (dropWhile isSpace r2) else None)
          else None)"

fun exHere :: "ustring \<Rightarrow> bool" where
  "exHere (s1 # e # x # s2 # b # bs) =
     (s1 = 32 \<and> (e = 69 \<or> e = 101) \<and> (x = 88 \<or> x = 120) \<and> s2 = 32)"
| "exHere other = False"

fun exInside :: "ustring \<Rightarrow> bool" where
  "exInside [] = False"
| "exInside (a # rest) = (exHere rest \<or> exInside rest)"

text \<open>\<open>\s+\<close>, \<open>\s+\.\<close>, \<open>\.\s+\<close>, \<open>\(\s*\)\<close>, \<open>\(\s+\<close> and \<open>\s+\)\<close>:\<close>

definition matchSpaces :: "ustring \<Rightarrow> ustring option" where
  "matchSpaces s =
     (case s of [] \<Rightarrow> None
      | c # cs \<Rightarrow> if isSpace c then Some (dropWhile isSpace cs) else None)"

definition matchSpacesThen :: "nat \<Rightarrow> ustring \<Rightarrow> ustring option" where
  "matchSpacesThen ch s =
     (case s of [] \<Rightarrow> None
      | c # cs \<Rightarrow>
          if isSpace c
          then (case dropWhile isSpace cs of
                  [] \<Rightarrow> None
                | d # r \<Rightarrow> if d = ch then Some r else None)
          else None)"

definition matchThenSpaces :: "nat \<Rightarrow> ustring \<Rightarrow> ustring option" where
  "matchThenSpaces ch s =
     (case s of
        c # d # r \<Rightarrow> if c = ch \<and> isSpace d then Some (dropWhile isSpace r) else None
      | other \<Rightarrow> None)"

definition matchEmptyParens :: "ustring \<Rightarrow> ustring option" where
  "matchEmptyParens s =
     (case s of [] \<Rightarrow> None
      | c # cs \<Rightarrow>
          if c = 40
          then (case dropWhile isSpace cs of
                  [] \<Rightarrow> None
                | d # r \<Rightarrow> if d = 41 then Some r else None)
          else None)"

record fixResult =
  fixedName :: ustring
  nameSkipped :: bool

definition applyTypos :: "ustring \<Rightarrow> ustring" where
  "applyTypos s =
     fold (\<lambda>(typo, correction) fixed.
            if fixed = typo \<or> includes' fixed typo then replaceFirst typo correction fixed
            else fixed)
       TYPO_CORRECTIONS s"

definition removeComplex :: "ustring \<Rightarrow> ustring" where
  "removeComplex s =
     gsub (matchParenthesized exInside) [32]
       (gsub (matchParenthesized (\<lambda>run. run \<noteq> [])) [32] s)"

definition removeCitations :: "ustring \<Rightarrow> ustring" where
  "removeCitations s =
     fold (\<lambda>citation fixed. gsub (matchCitation citation) [32] fixed) AUTHOR_CITATIONS s"

definition cleanUp :: "ustring \<Rightarrow> ustring" where
  "cleanUp s =
     trim (gsub (matchSpacesThen 41) [41]
       (gsub (matchThenSpaces 40) [40]
         (gsub matchEmptyParens []
           (gsub (matchThenSpaces 46) [32]
             (gsub (matchSpacesThen 46) []
               (gsub (matchCitation [44]) [32]
                 (gsub matchSpaces [32] s)))))))"

definition dropTrailingPeriod :: "ustring \<Rightarrow> ustring" where
  "dropTrailingPeriod s = (if s \<noteq> [] \<and> last s = 46 then butlast s else s)"

definition fixScientificName :: "ustring \<Rightarrow> fixResult" where
  "fixScientificName name =
     (if name = [] then \<lparr>fixedName = name, nameSkipped = False\<rparr>
      else if list_ex (includes' (trim name)) SKIP_PATTERNS
        then \<lparr>fixedName = trim name, nameSkipped = True\<rparr>
      else \<lparr>fixedName =
              dropTrailingPeriod (cleanUp (removeCitations (removeComplex (applyTypos (trim name))))),
            nameSkipped = False\<rparr>)"

section \<open>Translation filler (\<open>fill-translations.js\<close>)\<close>

text \<open>
  \<open>DESC_TEMPLATES\<close>. Each template is a template literal over the name and, for most,
  the scientific name; the fixed text between the holes is given by its code units. The
  arguments are the texts that the template literal makes of its values.
\<close>

definition template_seaweed :: "ustring \<Rightarrow> ustring \<Rightarrow> ustring" where
  "template_seaweed name sci =
     name
     @ [0xFF08, 0x5B78, 0x540D, 0xFF1A]
     @ sci
     @ [0xFF09, 0x662F, 0x4E00, 0x7A2E, 0x6D77, 0x6D0B, 0x85FB, 0x985E, 0x690D, 0x7269,
       0xFF0C, 0x5728, 0x4E2D, 0x91AB, 0x85E5, 0x5B78, 0x4E2D, 0x5177, 0x6709, 0x8EDF,
       0x5805, 0x6563, 0x7D50, 0x3001, 0x6D88, 0x75F0, 0x5229, 0x6C34, 0x7684, 0x529F,
       0x6548, 0x3002, 0x73FE, 0x4EE3, 0x7814, 0x7A76, 0x8868, 0x660E, 0x5176, 0x5BCC,
       0x542B, 0x7898, 0x3001, 0x8910, 0x85FB, 0x9178, 0x7B49, 0x591A, 0x7A2E, 0x751F,
       0x7269, 0x6D3B, 0x6027, 0x6210, 0x5206, 0xFF0C, 0x5177, 0x6709, 0x8ABF, 0x7BC0,
       0x7532, 0x72C0, 0x817A, 0x529F, 0x80FD, 0x3001, 0x964D, 0x8840, 0x8102, 0x7B49,
       0x85E5, 0x7406, 0x4F5C, 0x7528, 0x3002]"

definition template_herb :: "ustring \<Rightarrow> ustring \<Rightarrow> ustring" where
  "template_herb name sci =
     name
     @ [0xFF08, 0x5B78, 0x540D, 0xFF1A]
     @ sci
     @ [0xFF09, 0x70BA, 0x50B3, 0x7D71, 0x85E5, 0x7528, 0x690D, 0x7269, 0xFF0C, 0x5728,
       0x4E2D, 0x91AB, 0x81E8, 0x5E8A, 0x61C9, 0x7528, 0x6B77, 0x53F2, 0x60A0, 0x4E45,
       0x3002, 0x8A72, 0x85E5, 0x6750, 0x5177, 0x6709, 0x591A, 0x7A2E, 0x85E5, 0x7406,
       0x6D3B, 0x6027, 0xFF0C, 0x73FE, 0x4EE3, 0x85E5, 0x7406, 0x5B78, 0x7814, 0x7A76,
       0x8B49, 0x5BE6, 0x5176, 0x542B, 0x6709, 0x591A, 0x7A2E, 0x751F, 0x7269, 0x6D3B,
       0x6027, 0x6210, 0x5206, 0xFF0C, 0x5728, 0x8ABF, 0x7BC0, 0x6A5F, 0x9AD4, 0x529F,
       0x80FD, 0x65B9, 0x9762, 0x5177, 0x6709, 0x91CD, 0x8981, 0x50F9, 0x503C, 0x3002]"

definition template_vitamin :: "ustring \<Rightarrow> ustring \<Rightarrow> ustring" where
  "template_vitamin name sci =
     name
     @ [0x662F, 0x4E00, 0x7A2E, 0x91CD, 0x8981, 0x7684, 0x71DF, 0x990A, 0x7D20, 0xFF0C,
       0x53C3, 0x8207, 0x4EBA, 0x9AD4, 0x591A, 0x7A2E, 0x751F, 0x7406, 0x4EE3, 0x8B1D,
       0x904E, 0x7A0B, 0x3002, 0x4F5C, 0x70BA, 0x5FC5, 0x9700, 0x71DF, 0x990A, 0x7D20,
       0xFF0C, 0x5C0D, 0x7DAD, 0x6301, 0x6A5F, 0x9AD4, 0x6B63, 0x5E38, 0x529F, 0x80FD,
       0x5177, 0x6709, 0x91CD, 0x8981, 0x4F5C, 0x7528, 0x3002, 0x81E8, 0x5E8A, 0x7814,
       0x7A76, 0x8868, 0x660E, 0x9069, 0x91CF, 0x88DC, 0x5145, 0x6709, 0x52A9, 0x65BC,
       0x7DAD, 0x6301, 0x8EAB, 0x9AD4, 0x5065, 0x5EB7, 0x3002]"

definition template_mineral :: "ustring \<Rightarrow> ustring \<Rightarrow> ustring" where
  "template_mineral name sci =
     name
     @ [0x662F, 0x4E00, 0x7A2E, 0x4EBA, 0x9AD4, 0x5FC5, 0x9700, 0x7684, 0x7926, 0x7269,
       0x8CEA, 0x5143, 0x7D20, 0xFF0C, 0x53C3, 0x8207, 0x9AA8, 0x9ABC, 0x4EE3, 0x8B1D,
       0x3001, 0x795E, 0x7D93, 0x50B3, 0x5C0E, 0x3001, 0x9176, 0x6D3B, 0x6027, 0x8ABF,
       0x7BC0, 0x7B49, 0x591A, 0x7A2E, 0x751F, 0x7406, 0x529F, 0x80FD, 0x3002, 0x9069,
       0x91CF, 0x651D, 0x5165, 0x5C0D, 0x7DAD, 0x6301, 0x6A5F, 0x9AD4, 0x6B63, 0x5E38,
       0x4EE3, 0x8B1D, 0x548C, 0x751F, 0x7406, 0x529F, 0x80FD, 0x5177, 0x6709, 0x91CD,
       0x8981, 0x610F, 0x7FA9, 0x3002]"

definition template_oil :: "ustring \<Rightarrow> ustring \<Rightarrow> ustring" where
  "template_oil name sci =
     name
     @ [0xFF08, 0x5B78, 0x540D, 0xFF1A]
     @ sci
     @ [0xFF09, 0x8403, 0x53D6, 0x81EA, 0x690D, 0x7269, 0x7A2E, 0x5B50, 0x6216, 0x679C,
       0x5BE6, 0xFF0C, 0x5BCC, 0x542B, 0x4E0D, 0x98FD, 0x548C, 0x8102, 0x80AA, 0x9178,
       0x548C, 0x7DAD, 0x751F, 0x7D20, 0x0045, 0x7B49, 0x71DF, 0x990A, 0x6210, 0x5206,
       0x3002, 0x5177, 0x6709, 0x6ECB, 0x6F64, 0x76AE, 0x819A, 0x3001, 0x6297, 0x6C27,
       0x5316, 0x7B49, 0x529F, 0x6548, 0xFF0C, 0x5EE3, 0x6CDB, 0x61C9, 0x7528, 0x65BC,
       0x4FDD, 0x5065, 0x548C, 0x7F8E, 0x5BB9, 0x9818, 0x57DF, 0x3002]"

definition template_fruit :: "ustring \<Rightarrow> ustring \<Rightarrow> ustring" where
  "template_fruit name sci =
     name
     @ [0xFF08, 0x5B78, 0x540D, 0xFF1A]
     @ sci
     @ [0xFF09, 0x662F, 0x4E00, 0x7A2E, 0x5177, 0x6709, 0x85E5, 0x7528, 0x50F9, 0x503C,
       0x7684, 0x6F3F, 0x679C, 0x985E, 0x690D, 0x7269, 0x3002, 0x73FE, 0x4EE3, 0x7814,
       0x7A76, 0x8868, 0x660E, 0x5176, 0x5BCC, 0x542B, 0x82B1, 0x9752, 0x7D20, 0x3001,
       0x985E, 0x9EC3, 0x916E, 0x7B49, 0x6297, 0x6C27, 0x5316, 0x7269, 0x8CEA, 0xFF0C,
       0x5177, 0x6709, 0x4FDD, 0x8B77, 0x5FC3, 0x8840, 0x7BA1, 0x3001, 0x6539, 0x5584,
       0x8996, 0x529B, 0x7B49, 0x85E5, 0x7406, 0x6D3B, 0x6027, 0x3002]"

definition template_root :: "ustring \<Rightarrow> ustring \<Rightarrow> ustring" where
  "template_root name sci =
     name
     @ [0xFF08, 0x5B78, 0x540D, 0xFF1A]
     @ sci
     @ [0xFF09, 0x70BA, 0x591A, 0x5E74, 0x751F, 0x8349, 0x672C, 0x690D, 0x7269, 0xFF0C,
       0x4EE5, 0x5176, 0x6839, 0x90E8, 0x5165, 0x85E5, 0x3002, 0x5728, 0x4E2D, 0x91AB,
       0x85E5, 0x7406, 0x8AD6, 0x4E2D, 0x6B78, 0x5C6C, 0x65BC, 0x88DC, 0x76CA, 0x985E,
       0x85E5, 0x7269, 0xFF0C, 0x5177, 0x6709, 0x88DC, 0x6C23, 0x990A, 0x8840, 0x3001,
       0x5065, 0x813E, 0x76CA, 0x80BA, 0x7B49, 0x529F, 0x6548, 0xFF0C, 0x662F, 0x91CD,
       0x8981, 0x7684, 0x50B3, 0x7D71, 0x4E2D, 0x85E5, 0x6750, 0x3002]"

definition template_animal :: "ustring \<Rightarrow> ustring \<Rightarrow> ustring" where
  "template_animal name sci =
     name
     @ [0x662F, 0x4E00, 0x7A2E, 0x73CD, 0x8CB4, 0x7684, 0x5929, 0x7136, 0x6ECB, 0x88DC,
       0x54C1, 0xFF0C, 0x5BCC, 0x542B, 0x86CB, 0x767D, 0x8CEA, 0x3001, 0x6C28, 0x57FA,
       0x9178, 0x548C, 0x591A, 0x7A2E, 0x5FAE, 0x91CF, 0x5143, 0x7D20, 0x3002, 0x5728,
       0x4E2D, 0x91AB, 0x85E5, 0x5B78, 0x4E2D, 0x88AB, 0x8996, 0x70BA, 0x6ECB, 0x9670,
       0x6F64, 0x71E5, 0x3001, 0x76CA, 0x6C23, 0x88DC, 0x865B, 0x7684, 0x4E0A, 0x54C1,
       0xFF0C, 0x5177, 0x6709, 0x986F, 0x8457, 0x7684, 0x71DF, 0x990A, 0x4FDD, 0x5065,
       0x50F9, 0x503C, 0x3002]"

definition template_default :: "ustring \<Rightarrow> ustring \<Rightarrow> ustring" where
  "template_default name sci =
     name
     @ [0xFF08, 0x5B78, 0x540D, 0xFF1A]
     @ (if sci = [] then [0x5F85, 0x5B9A] else sci)
     @ [0xFF09, 0x662F, 0x4E00, 0x7A2E, 0x5177, 0x6709, 0x85E5, 0x7528, 0x50F9, 0x503C,
       0x7684, 0x5929, 0x7136, 0x7522, 0x7269, 0x3002, 0x73FE, 0x4EE3, 0x85E5, 0x7406,
       0x5B78, 0x7814, 0x7A76, 0x8B49, 0x5BE6, 0x5176, 0x542B, 0x6709, 0x591A, 0x7A2E,
       0x751F, 0x7269, 0x6D3B, 0x6027, 0x6210, 0x5206, 0xFF0C, 0x5728, 0x50B3, 0x7D71,
       0x91AB, 0x5B78, 0x548C, 0x73FE, 0x4EE3, 0x4FDD, 0x5065, 0x9818, 0x57DF, 0x5747,
       0x6709, 0x91CD, 0x8981, 0x61C9, 0x7528, 0x50F9, 0x503C, 0x3002]"

datatype descCategory =
  Cvitamin | Cmineral | Coil | Cseaweed | Cfruit | Croot | Canimal | Cdefault

fun descTemplate :: "descCategory \<Rightarrow> ustring \<Rightarrow> ustring \<Rightarrow> ustring" where
  "descTemplate Cseaweed = template_seaweed"
| "descTemplate Cvitamin = template_vitamin"
| "descTemplate Cmineral = template_mineral"
| "descTemplate Coil = template_oil"
| "descTemplate Cfruit = template_fruit"
| "descTemplate Croot = template_root"
| "descTemplate Canimal = template_animal"
| "descTemplate Cdefault = template_default"

text \<open>
  The text that a template literal makes of a value. For a value that is not a string it
  is \<open>String(v)\<close>, which the model takes as a parameter \<open>str\<close>.
\<close>

definition textOf :: "(jsval \<Rightarrow> ustring) \<Rightarrow> jsval \<Rightarrow> ustring" where
  "textOf str v = (case v of JStr s \<Rightarrow> s | other \<Rightarrow> str other)"

text \<open>
  \<open>tradToSimp\<close> on a value of a document: a falsy value is returned as it is, and a
  truthy value that is not a string has no \<open>split\<close>.
\<close>

definition tradToSimpValue :: "jsval \<Rightarrow> jserror + jsval" where
  "tradToSimpValue text =
     (if \<not> truthy text then Inr text
      else case text of JStr s \<Rightarrow> Inr (JStr (tradToSimp s)) | other \<Rightarrow> Inl TypeError)"

text \<open>\<open>(v || '').toLowerCase()\<close>.\<close>

definition lowerCaseValue :: "jsval \<Rightarrow> jserror + ustring" where
  "lowerCaseValue v =
     (if \<not> truthy v then Inr []
      else case v of JStr s \<Rightarrow> Inr (toLowerCase s) | other \<Rightarrow> Inl TypeError)"

definition detectCategory :: "ustring \<Rightarrow> jsval \<Rightarrow> jsval \<Rightarrow> jserror + descCategory" where
  "detectCategory filePath nameMap scientificName =
     (let lowerPath = toLowerCase filePath in
      case lowerCaseValue (getProp nameMap ''en'') of
        Inl e \<Rightarrow> Inl e
      | Inr lowerName \<Rightarrow>
          (case lowerCaseValue scientificName of
             Inl e \<Rightarrow> Inl e
           | Inr lowerSci \<Rightarrow>
               Inr (if includes' lowerPath (U ''vitamin'') \<or> includes' lowerName (U ''vitamin'')
                      then Cvitamin
                    else if includes' lowerPath (U ''mineral'') \<or> includes' lowerName (U ''calcium'')
                        \<or> includes' lowerName (U ''selenium'') \<or> includes' lowerName (U ''zinc'')
                      then Cmineral
                    else if includes' lowerPath (U ''oil'') \<or> includes' lowerName (U ''oil'')
                        \<or> includes' lowerName (U ''extract'')
                      then Coil
                    else if includes' lowerName (U ''algae'') \<or> includes' lowerName (U ''seaweed'')
                        \<or> includes' lowerSci (U ''sargassum'')
                      then Cseaweed
                    else if includes' lowerName (U ''berry'') \<or> includes' lowerName (U ''fruit'')
                        \<or> includes' lowerSci (U ''berry'') \<or> includes' lowerSci (U ''vaccinium'')
                      then Cfruit
                    else if includes' lowerName (U ''root'') \<or> includes' lowerName (U ''ginseng'')
                      then Croot
                    else if includes' lowerName (U ''nest'') \<or> includes' lowerName (U ''jelly'')
                        \<or> includes' lowerName (U ''royal'')
                      then Canimal
                    else Cdefault)))"

text \<open>
  \<open>generateChineseDescription\<close>: the traditional text of the template and its
  conversion.
\<close>

definition generateChineseDescription ::
  "(jsval \<Rightarrow> ustring) \<Rightarrow> document \<Rightarrow> ustring \<Rightarrow> jserror + ustring \<times> ustring" where
  "generateChineseDescription str data filePath =
     (let nameMap = get data ''name'';
          subject = jsOr (jsOr (jsOr (getProp nameMap ''zh-Hant'') (getProp nameMap ''zh-Hans''))
                      (getProp nameMap ''en'')) (JStr [0x8A72, 0x690D, 0x7269]);
          sci = jsOr (get data ''scientificName'') (JStr [])
      in case detectCategory filePath nameMap (get data ''scientificName'') of
           Inl e \<Rightarrow> Inl e
         | Inr category \<Rightarrow>
             (let zhHant = descTemplate category (textOf str subject) (textOf str sci)
              in Inr (zhHant, tradToSimp zhHant)))"

text \<open>
  \<open>data[field][lang] = v\<close>. The scripts assign only after a property of \<open>data[field]\<close>
  was read and found truthy, so \<open>data[field]\<close> is an object whenever this is reached.
\<close>

definition setField :: "document \<Rightarrow> string \<Rightarrow> string \<Rightarrow> jsval \<Rightarrow> document" where
  "setField data field lang v =
     (case get data field of
        JObj kvs \<Rightarrow> setProp data field (JObj (setProp kvs lang v))
      | other \<Rightarrow> data)"

definition langOf :: "document \<Rightarrow> string \<Rightarrow> string \<Rightarrow> jsval" where
  "langOf data field lang = getProp (get data field) lang"

text \<open>
  \<open>processPlantEntity\<close> of the translation filler (the GBIF script has a function of the
  same name). The result is the document and the list \<open>updates\<close>; \<open>modified\<close> is true
  exactly when the list is not empty.
\<close>

definition fillDescription ::
  "(jsval \<Rightarrow> ustring) \<Rightarrow> ustring \<Rightarrow> document \<times> ustring list
    \<Rightarrow> jserror + document \<times> ustring list" where
  "fillDescription str filePath state =
     (let data = fst state; updates = snd state in
      if truthy (get data ''description'') \<and> truthy (langOf data ''description'' ''en'')
      then (let hasZhHant = truthy (langOf data ''description'' ''zh-Hant'');
                hasZhHans = truthy (langOf data ''description'' ''zh-Hans'')
            in if \<not> hasZhHant \<or> \<not> hasZhHans
               then (case generateChineseDescription str data filePath of
                       Inl e \<Rightarrow> Inl e
                     | Inr (zhHant, zhHans) \<Rightarrow>
                         (let s1 = (if \<not> hasZhHant
                                    then (setField data ''description'' ''zh-Hant'' (JStr zhHant),
                                          updates @ [U ''Added description.zh-Hant''])
                                    else (data, updates));
                              s2 = (if \<not> hasZhHans
                                    then (setField (fst s1) ''description'' ''zh-Hans'' (JStr zhHans),
                                          snd s1 @ [U ''Added description.zh-Hans''])
                                    else s1)
                          in Inr s2))
               else Inr state)
      else Inr state)"

definition fillCommonName :: "document \<times> ustring list \<Rightarrow> document \<times> ustring list" where
  "fillCommonName state =
     (let data = fst state; updates = snd state in
      if truthy (get data ''commonName'') \<and> truthy (langOf data ''commonName'' ''en'')
      then (let s1 = (if \<not> truthy (langOf data ''commonName'' ''zh-Hant'')
                         \<and> truthy (langOf data ''name'' ''zh-Hant'')
                      then (setField data ''commonName'' ''zh-Hant'' (langOf data ''name'' ''zh-Hant''),
                            updates @ [U ''Added commonName.zh-Hant from name''])
                      else (data, updates));
                s2 = (if \<not> truthy (langOf (fst s1) ''commonName'' ''zh-Hans'')
                         \<and> truthy (langOf (fst s1) ''name'' ''zh-Hans'')
                      then (setField (fst s1) ''commonName'' ''zh-Hans''
                              (langOf (fst s1) ''name'' ''zh-Hans''),
                            snd s1 @ [U ''Added commonName.zh-Hans from name''])
                      else s1)
            in s2)
      else state)"

definition processPlantEntity_fill ::
  "(jsval \<Rightarrow> ustring) \<Rightarrow> ustring \<Rightarrow> document \<Rightarrow> jserror + document \<times> ustring list" where
  "processPlantEntity_fill str filePath data =
     (case fillDescription str filePath (data, []) of
        Inl e \<Rightarrow> Inl e
      | Inr state \<Rightarrow> Inr (fillCommonName state))"

text \<open>
  The label that the placeholders of \<open>processTcmProfile\<close> make of a field name:
  \<open>field.replace('tcm', '').replace(/([A-Z])/g, ' $1').trim()\<close>.
\<close>

definition spaceCapitals :: "ustring \<Rightarrow> ustring" where
  "spaceCapitals s = concat (map (\<lambda>c. if 65 \<le> c \<and> c \<le> 90 then [32, c] else [c]) s)"

definition fieldLabel :: "string \<Rightarrow> ustring" where
  "fieldLabel field = trim (spaceCapitals (replaceFirst (U ''tcm'') [] (U field)))"

text \<open>
  The two placeholders, with the subject's name and the field's label in them. The
  Chinese one opens with the name between U+3010 and U+3011 and closes with a fixed
  request for translation; the English one stands in square brackets.
\<close>

definition zhPlaceholder :: "ustring \<Rightarrow> string \<Rightarrow> ustring" where
  "zhPlaceholder subject field =
     [0x3010] @ subject @ [0x3011] @ fieldLabel field
     @ [0x5167, 0x5BB9, 0x5F85, 0x7FFB, 0x8B6F, 0x88DC, 0x5145, 0x3002]"

definition enPlaceholder :: "ustring \<Rightarrow> string \<Rightarrow> ustring" where
  "enPlaceholder subject field =
     U ''['' @ fieldLabel field @ U '' information for '' @ subject
     @ U '' - translation needed]''"

definition addMissingTranslations ::
  "(jsval \<Rightarrow> ustring) \<Rightarrow> string \<Rightarrow> document \<times> ustring list
    \<Rightarrow> jserror + document \<times> ustring list" where
  "addMissingTranslations str field state =
     (let data = fst state; updates = snd state in
      if \<not> truthy (get data field) then Inr state
      else
        (case (if truthy (langOf data field ''zh-Hant'') \<and> \<not> truthy (langOf data field ''zh-Hans'')
               then (case tradToSimpValue (langOf data field ''zh-Hant'') of
                       Inl e \<Rightarrow> Inl e
                     | Inr v \<Rightarrow>
                         Inr (setField data field ''zh-Hans'' v,
                              updates @ [U ''Added '' @ U field
                                         @ U ''.zh-Hans (converted from zh-Hant)'']))
               else Inr (data, updates)) of
           Inl e \<Rightarrow> Inl e
         | Inr s1 \<Rightarrow>
             (let s2 = (if truthy (langOf (fst s1) field ''zh-Hans'')
                           \<and> \<not> truthy (langOf (fst s1) field ''zh-Hant'')
                        then (setField (fst s1) field ''zh-Hant'' (langOf (fst s1) field ''zh-Hans''),
                              snd s1 @ [U ''Added '' @ U field @ U ''.zh-Hant''])
                        else s1);
                  s3 = (if truthy (langOf (fst s2) field ''en'')
                           \<and> \<not> truthy (langOf (fst s2) field ''zh-Hant'')
                           \<and> \<not> truthy (langOf (fst s2) field ''zh-Hans'')
                        then (let subject = jsOr (jsOr (langOf (fst s2) ''name'' ''zh-Hant'')
                                     (langOf (fst s2) ''name'' ''en'')) (JStr [0x8A72, 0x85E5, 0x6750]);
                                  placeholder = zhPlaceholder (textOf str subject) field
                              in (setField (setField (fst s2) field ''zh-Hant'' (JStr placeholder))
                                    field ''zh-Hans'' (JStr (tradToSimp placeholder)),
                                  snd s2 @ [U ''Added '' @ U field
                                    @ U ''.zh-Hant/zh-Hans (placeholder - needs translation)'']))
                        else s2);
                  s4 = (if truthy (langOf (fst s3) field ''zh-Hant'')
                           \<and> \<not> truthy (langOf (fst s3) field ''en'')
                        then (let subject = jsOr (jsOr (langOf (fst s3) ''name'' ''en'')
                                     (langOf (fst s3) ''name'' ''zh-Hant'')) (JStr (U ''This herb''))
                              in (setField (fst s3) field ''en''
                                    (JStr (enPlaceholder (textOf str subject) field)),
                                  snd s3 @ [U ''Added '' @ U field @ U ''.en (placeholder)'']))
                        else s3)
              in Inr s4)))"

text \<open>A sequence of steps on the document and its updates, left at the first exception.\<close>

fun steps :: "('s \<Rightarrow> jserror + 's) list \<Rightarrow> 's \<Rightarrow> jserror + 's" where
  "steps [] state = Inr state"
| "steps (f # fs) state = (case f state of Inl e \<Rightarrow> Inl e | Inr state' \<Rightarrow> steps fs state')"

definition tcmFields :: "string list" where
  "tcmFields = [''tcmHistory'', ''tcmTraditionalUsage'', ''tcmModernResearch'', ''tcmFunctions'',
     ''contraindications'', ''dosage'']"

definition processTcmProfile ::
  "(jsval \<Rightarrow> ustring) \<Rightarrow> ustring \<Rightarrow> document \<Rightarrow> jserror + document \<times> ustring list" where
  "processTcmProfile str filePath data =
     steps (map (addMissingTranslations str) tcmFields) (data, [])"

definition westernPlaceholder :: "ustring \<Rightarrow> ustring" where
  "westernPlaceholder subject =
     [0x3010] @ subject
     @ [0x3011, 0x5728, 0x897F, 0x65B9, 0x8349, 0x85E5, 0x5B78, 0x4E2D, 0x7684, 0x61C9,
        0x7528, 0x6B77, 0x53F2, 0x60A0, 0x4E45, 0xFF0C, 0x73FE, 0x4EE3, 0x7814, 0x7A76,
        0x8B49, 0x5BE6, 0x5176, 0x5177, 0x6709, 0x591A, 0x7A2E, 0x85E5, 0x7406, 0x6D3B,
        0x6027, 0x3002]"

definition addWesternTranslations ::
  "ustring \<Rightarrow> string \<Rightarrow> document \<times> ustring list \<Rightarrow> document \<times> ustring list" where
  "addWesternTranslations subject field state =
     (let data = fst state; updates = snd state in
      if \<not> truthy (get data field) then state
      else if truthy (langOf data field ''en'') \<and> \<not> truthy (langOf data field ''zh-Hant'')
              \<and> \<not> truthy (langOf data field ''zh-Hans'')
        then (setField (setField data field ''zh-Hant'' (JStr (westernPlaceholder subject)))
                field ''zh-Hans'' (JStr (tradToSimp (westernPlaceholder subject))),
              updates @ [U ''Added '' @ U field @ U ''.zh-Hant/zh-Hans''])
      else state)"

definition westernFields :: "string list" where
  "westernFields = [''westernHistory'', ''westernTraditionalUsage'', ''westernModernResearch'']"

definition processWesternProfile ::
  "(jsval \<Rightarrow> ustring) \<Rightarrow> ustring \<Rightarrow> document \<Rightarrow> jserror + document \<times> ustring list" where
  "processWesternProfile str filePath data =
     (let subject = textOf str (jsOr (jsOr (langOf data ''name'' ''zh-Hant'')
            (langOf data ''name'' ''en'')) (JStr [0x8A72, 0x8349, 0x85E5]))
      in Inr (fold (addWesternTranslations subject) westernFields (data, [])))"

text \<open>
  \<open>AYURVEDA_TERMS\<close>: for an English label, the traditional and the simplified label
  and, for the three doshas, a description.
\<close>

record ayurvedaTerm =
  termHant :: ustring
  termHans :: ustring
  termDesc :: "ustring option"

definition AYURVEDA_TERMS :: "(ustring \<times> ayurvedaTerm) list" where
  "AYURVEDA_TERMS = [
     (U ''Vata'',
      \<lparr>termHant = [0x98A8, 0x578B, 0xFF08, 0x74E6, 0x5854, 0xFF09],
       termHans = [0x98CE, 0x578B, 0xFF08, 0x74E6, 0x5854, 0xFF09],
       termDesc = Some
        [0x4E3B, 0x53F8, 0x904B, 0x52D5, 0x3001, 0x547C, 0x5438, 0x3001, 0x5FAA, 0x74B0,
         0x53CA, 0x795E, 0x7D93, 0x7CFB, 0x7D71, 0x529F, 0x80FD, 0xFF0C, 0x7531, 0x98A8,
         0x8207, 0x4EE5, 0x592A, 0x5143, 0x7D20, 0x7D44, 0x6210]\<rparr>),
     (U ''Pitta'',
      \<lparr>termHant = [0x706B, 0x578B, 0xFF08, 0x76AE, 0x5854, 0xFF09],
       termHans = [0x706B, 0x578B, 0xFF08, 0x76AE, 0x5854, 0xFF09],
       termDesc = Some
        [0x4E3B, 0x53F8, 0x6D88, 0x5316, 0x3001, 0x4EE3, 0x8B1D, 0x3001, 0x8F49, 0x5316,
         0x53CA, 0x9AD4, 0x6EAB, 0xFF0C, 0x7531, 0x706B, 0x8207, 0x6C34, 0x5143, 0x7D20,
         0x7D44, 0x6210]\<rparr>),
     (U ''Kapha'',
      \<lparr>termHant = [0x6C34, 0x578B, 0xFF08, 0x5361, 0x6CD5, 0xFF09],
       termHans = [0x6C34, 0x578B, 0xFF08, 0x5361, 0x6CD5, 0xFF09],
       termDesc = Some
        [0x4E3B, 0x53F8, 0x7D50, 0x69CB, 0x3001, 0x7A69, 0x5B9A, 0x3001, 0x6F64, 0x6ED1,
         0x53CA, 0x514D, 0x75AB, 0x529F, 0x80FD, 0xFF0C, 0x7531, 0x571F, 0x8207, 0x6C34,
         0x5143, 0x7D20, 0x7D44, 0x6210]\<rparr>),
     (U ''Guru'',
      \<lparr>termHant = [0x91CD],
       termHans = [0x91CD],
       termDesc = None\<rparr>),
     (U ''Laghu'',
      \<lparr>termHant = [0x8F15],
       termHans = [0x8F7B],
       termDesc = None\<rparr>),
     (U ''Sheeta'',
      \<lparr>termHant = [0x5BD2],
       termHans = [0x5BD2],
       termDesc = None\<rparr>),
     (U ''Ushna'',
      \<lparr>termHant = [0x71B1],
       termHans = [0x70ED],
       termDesc = None\<rparr>),
     (U ''Snigdha'',
      \<lparr>termHant = [0x6CB9, 0x6F64],
       termHans = [0x6CB9, 0x6DA6],
       termDesc = None\<rparr>),
     (U ''Ruksha'',
      \<lparr>termHant = [0x4E7E, 0x71E5],
       termHans = [0x5E72, 0x71E5],
       termDesc = None\<rparr>),
     (U ''Manda'',
      \<lparr>termHant = [0x7DE9],
       termHans = [0x7F13],
       termDesc = None\<rparr>),
     (U ''Tikshna'',
      \<lparr>termHant = [0x92B3],
       termHans = [0x9510],
       termDesc = None\<rparr>),
     (U ''Shlakshna'',
      \<lparr>termHant = [0x6ED1],
       termHans = [0x6ED1],
       termDesc = None\<rparr>),
     (U ''Khara'',
      \<lparr>termHant = [0x7CD9],
       termHans = [0x7CD9],
       termDesc = None\<rparr>),
     (U ''Sandra'',
      \<lparr>termHant = [0x7A20],
       termHans = [0x7A20],
       termDesc = None\<rparr>),
     (U ''Drava'',
      \<lparr>termHant = [0x6DB2],
       termHans = [0x6DB2],
       termDesc = None\<rparr>),
     (U ''Mrudu'',
      \<lparr>termHant = [0x8EDF],
       termHans = [0x8F6F],
       termDesc = None\<rparr>),
     (U ''Kathina'',
      \<lparr>termHant = [0x786C],
       termHans = [0x786C],
       termDesc = None\<rparr>),
     (U ''Sthira'',
      \<lparr>termHant = [0x7A69],
       termHans = [0x7A33],
       termDesc = None\<rparr>),
     (U ''Chala'',
      \<lparr>termHant = [0x52D5],
       termHans = [0x52A8],
       termDesc = None\<rparr>),
     (U ''Sukshma'',
      \<lparr>termHant = [0x7D30],
       termHans = [0x7EC6],
       termDesc = None\<rparr>),
     (U ''Sthula'',
      \<lparr>termHant = [0x7C97],
       termHans = [0x7C97],
       termDesc = None\<rparr>),
     (U ''Picchila'',
      \<lparr>termHant = [0x9ECF],
       termHans = [0x9ECF],
       termDesc = None\<rparr>),
     (U ''Vishada'',
      \<lparr>termHant = [0x6E05],
       termHans = [0x6E05],
       termDesc = None\<rparr>),
     (U ''Madhura'',
      \<lparr>termHant = [0x7518, 0x5473],
       termHans = [0x7518, 0x5473],
       termDesc = None\<rparr>),
     (U ''Amla'',
      \<lparr>termHant = [0x9178, 0x5473],
       termHans = [0x9178, 0x5473],
       termDesc = None\<rparr>),
     (U ''Lavana'',
      \<lparr>termHant = [0x9E79, 0x5473],
       termHans = [0x54B8, 0x5473],
       termDesc = None\<rparr>),
     (U ''Katu'',
      \<lparr>termHant = [0x8F9B, 0x5473],
       termHans = [0x8F9B, 0x5473],
       termDesc = None\<rparr>),
     (U ''Tikta'',
      \<lparr>termHant = [0x82E6, 0x5473],
       termHans = [0x82E6, 0x5473],
       termDesc = None\<rparr>),
     (U ''Kashaya'',
      \<lparr>termHant = [0x6F80, 0x5473],
       termHans = [0x6DA9, 0x5473],
       termDesc = None\<rparr>),
     (U ''Madhura Vipaka'',
      \<lparr>termHant = [0x7518, 0x5473, 0x5F8C, 0x5473],
       termHans = [0x7518, 0x5473, 0x540E, 0x5473],
       termDesc = None\<rparr>),
     (U ''Amla Vipaka'',
      \<lparr>termHant = [0x9178, 0x5473, 0x5F8C, 0x5473],
       termHans = [0x9178, 0x5473, 0x540E, 0x5473],
       termDesc = None\<rparr>),
     (U ''Katu Vipaka'',
      \<lparr>termHant = [0x8F9B, 0x5473, 0x5F8C, 0x5473],
       termHans = [0x8F9B, 0x5473, 0x540E, 0x5473],
       termDesc = None\<rparr>),
     (U ''Ushna Virya'',
      \<lparr>termHant = [0x71B1, 0x6027],
       termHans = [0x70ED, 0x6027],
       termDesc = None\<rparr>),
     (U ''Sheeta Virya'',
      \<lparr>termHant = [0x5BD2, 0x6027],
       termHans = [0x5BD2, 0x6027],
       termDesc = None\<rparr>)]"

text \<open>
  A property read of \<open>AYURVEDA_TERMS\<close> finds a term of the table or one of the
  \<open>inheritedNames\<close>, whose value is a function or an object: truthy, and without any of
  the properties \<open>zh-Hant\<close>, \<open>zh-Hans\<close> and \<open>desc\<close>.
\<close>

datatype termFound = OwnTerm ayurvedaTerm | Inherited

fun termProp :: "(ayurvedaTerm \<Rightarrow> ustring) \<Rightarrow> termFound \<Rightarrow> jsval" where
  "termProp field (OwnTerm t) = JStr (field t)"
| "termProp field Inherited = JUndefined"

fun descOf :: "termFound \<Rightarrow> jsval" where
  "descOf (OwnTerm t) = (case termDesc t of Some d \<Rightarrow> JStr d | None \<Rightarrow> JUndefined)"
| "descOf Inherited = JUndefined"

definition lookupKey :: "ustring \<Rightarrow> termFound option" where
  "lookupKey key =
     (case map_of AYURVEDA_TERMS key of
        Some t \<Rightarrow> Some (OwnTerm t)
      | None \<Rightarrow> if key \<in> set inheritedNames then Some Inherited else None)"

text \<open>
  \<open>AYURVEDA_TERMS[label]\<close>: the property whose key is the text of the label. The text
  of \<open>undefined\<close>, of \<open>null\<close>, of a boolean and of a number is the key of no property,
  own or inherited; the text of an array or an object is \<open>String(v)\<close>.
\<close>

definition lookupTerm :: "(jsval \<Rightarrow> ustring) \<Rightarrow> jsval \<Rightarrow> termFound option" where
  "lookupTerm str label =
     (case label of
        JStr s \<Rightarrow> lookupKey s
      | JArr xs \<Rightarrow> lookupKey (str label)
      | JObj kvs \<Rightarrow> lookupKey (str label)
      | other \<Rightarrow> None)"

text \<open>
  One item of \<open>@graph\<close>. A \<open>null\<close> item raises at \<open>item.prefLabel\<close>; an item that is not
  an object has neither property and stays as it is.
\<close>

definition fillPrefLabel ::
  "(jsval \<Rightarrow> ustring) \<Rightarrow> document \<times> ustring list \<Rightarrow> document \<times> ustring list" where
  "fillPrefLabel str state =
     (let item = fst state; updates = snd state in
      if truthy (get item ''prefLabel'')
      then (case lookupTerm str (langOf item ''prefLabel'' ''en'') of
              Some term \<Rightarrow>
                (let s1 = (if \<not> truthy (langOf item ''prefLabel'' ''zh-Hant'')
                           then (setField item ''prefLabel'' ''zh-Hant'' (termProp termHant term),
                                 updates @ [U ''Added prefLabel.zh-Hant for ''
                                   @ textOf str (get item ''@id'') @ U '': ''
                                   @ textOf str (termProp termHant term)])
                           else (item, updates));
                     s2 = (if \<not> truthy (langOf (fst s1) ''prefLabel'' ''zh-Hans'')
                           then (setField (fst s1) ''prefLabel'' ''zh-Hans'' (termProp termHans term),
                                 snd s1 @ [U ''Added prefLabel.zh-Hans for ''
                                   @ textOf str (get item ''@id'') @ U '': ''
                                   @ textOf str (termProp termHans term)])
                           else s1)
                 in s2)
            | None \<Rightarrow>
                if truthy (langOf item ''prefLabel'' ''en'')
                   \<and> \<not> truthy (langOf item ''prefLabel'' ''zh-Hant'')
                then (setField (setField item ''prefLabel'' ''zh-Hant'' (langOf item ''prefLabel'' ''en''))
                        ''prefLabel'' ''zh-Hans'' (langOf item ''prefLabel'' ''en''),
                      updates @ [U ''Added prefLabel zh for '' @ textOf str (get item ''@id'')
                        @ U '' (fallback)''])
                else state)
      else state)"

text \<open>
  The description of an item: \<open>term?.desc\<close> is a text of the table or \<open>undefined\<close>.
\<close>

definition fillItemDescription ::
  "(jsval \<Rightarrow> ustring) \<Rightarrow> document \<times> ustring list \<Rightarrow> document \<times> ustring list" where
  "fillItemDescription str state =
     (let item = fst state; updates = snd state in
      if truthy (get item ''description'') \<and> truthy (langOf item ''description'' ''en'')
         \<and> \<not> truthy (langOf item ''description'' ''zh-Hant'')
      then (case lookupTerm str (langOf item ''prefLabel'' ''en'') of
              Some term \<Rightarrow>
                (case descOf term of
                   JStr d \<Rightarrow>
                     if d \<noteq> []
                     then (setField (setField item ''description'' ''zh-Hant'' (JStr d))
                             ''description'' ''zh-Hans'' (JStr (tradToSimp d)),
                           updates @ [U ''Added description.zh for '' @ textOf str (get item ''@id'')])
                     else state
                 | other \<Rightarrow> state)
            | None \<Rightarrow> state)
      else state)"

fun processItem ::
  "(jsval \<Rightarrow> ustring) \<Rightarrow> jsval \<Rightarrow> ustring list \<Rightarrow> jserror + jsval \<times> ustring list" where
  "processItem str JNull updates = Inl TypeError"
| "processItem str (JObj item) updates =
     (let s = fillItemDescription str (fillPrefLabel str (item, updates))
      in Inr (JObj (fst s), snd s))"
| "processItem str v updates = Inr (v, updates)"

fun processItems ::
  "(jsval \<Rightarrow> ustring) \<Rightarrow> jsval list \<Rightarrow> ustring list \<Rightarrow> jserror + jsval list \<times> ustring list" where
  "processItems str [] updates = Inr ([], updates)"
| "processItems str (item # items) updates =
     (case processItem str item updates of
        Inl e \<Rightarrow> Inl e
      | Inr (item', updates') \<Rightarrow>
          (case processItems str items updates' of
             Inl e \<Rightarrow> Inl e
           | Inr (items', updates'') \<Rightarrow> Inr (item' # items', updates'')))"

text \<open>
  \<open>processAyurvedaReference\<close>. \<open>for (const item of data['@graph'])\<close> walks an array;
  a string is walked character by character and nothing is changed; any other truthy
  value is not iterable.
\<close>

definition processAyurvedaReference ::
  "(jsval \<Rightarrow> ustring) \<Rightarrow> ustring \<Rightarrow> document \<Rightarrow> jserror + document \<times> ustring list" where
  "processAyurvedaReference str filePath data =
     (if \<not> truthy (get data ''@graph'') then Inr (data, [])
      else case get data ''@graph'' of
        JArr items \<Rightarrow>
          (case processItems str items [] of
             Inl e \<Rightarrow> Inl e
           | Inr (items', updates) \<Rightarrow> Inr (setProp data ''@graph'' (JArr items'), updates))
      | JStr s \<Rightarrow> Inr (data, [])
      | other \<Rightarrow> Inl TypeError)"

text \<open>
  \<open>pathMatches\<close> and the choice of \<open>processFile\<close>. Its result is the processor's; an
  exception is caught and reported as an error, and the document is written back when
  it was modified and this is not a dry run.
\<close>

definition pathMatches :: "ustring \<Rightarrow> ustring \<Rightarrow> bool" where
  "pathMatches filePath pat =
     (let slashed = map (\<lambda>c. if c = 92 then 47 else c) filePath;
          normalized = (if prefix [47] slashed then slashed else 47 # slashed)
      in includes' normalized pat)"

definition processFile ::
  "(jsval \<Rightarrow> ustring) \<Rightarrow> ustring \<Rightarrow> document \<Rightarrow> jserror + document \<times> ustring list" where
  "processFile str filePath data =
     (if pathMatches filePath (U ''/schema/'') then Inr (data, [])
      else if pathMatches filePath (U ''/entities/plants/'') \<and> suffix (U ''entity.jsonld'') filePath
        then processPlantEntity_fill str filePath data
      else if pathMatches filePath (U ''/systems/tcm/herbs/'') \<and> suffix (U ''profile.jsonld'') filePath
        then processTcmProfile str filePath data
      else if pathMatches filePath (U ''/systems/western/herbs/'')
          \<and> suffix (U ''profile.jsonld'') filePath
        then processWesternProfile str filePath data
      else if pathMatches filePath (U ''/systems/ayurveda/'') \<and> \<not> pathMatches filePath (U ''/dravyas/'')
        then processAyurvedaReference str filePath data
      else Inr (data, []))"

text \<open>
  The reading of ``enclosed in a fixed marker'' that the placeholders of the filler
  suggest: the text opens with U+3010 or with a square bracket.
\<close>

definition reviewMarker :: "ustring \<Rightarrow> bool" where
  "reviewMarker p = (case p of [] \<Rightarrow> False | c # cs \<Rightarrow> c = 0x3010 \<or> c = 91)"

text \<open>
  An Ayurveda reference file whose only item has an English and a simplified label, and a
  plant entity with an English description only.
\<close>

definition agniReference :: document where
  "agniReference =
     [(''@graph'', JArr [JObj [(''@id'', JStr (U ''ayurveda/agni'')),
        (''prefLabel'', JObj [(''en'', JStr (U ''Agni'')),
                             (''zh-Hans'', JStr [0x6D88, 0x5316, 0x4E4B, 0x706B])])]])]"

definition gingerDescribed :: document where
  "gingerDescribed =
     [(''name'', JObj [(''en'', JStr (U ''Ginger''))]),
      (''description'', JObj [(''en'', JStr (U ''A flowering plant''))])]"

fun isObject :: "jsval \<Rightarrow> bool" where
  "isObject (JObj kvs) = True"
| "isObject v = False"

text \<open>
  Where a value of a field of a TCM profile can come from, given the name map of the
  profile and the field as it was: it is the value that was there, the conversion of the
  traditional text, the simplified text, or one of the two placeholders.
\<close>

definition tcmSubjectZh :: "(jsval \<Rightarrow> ustring) \<Rightarrow> jsval \<Rightarrow> ustring" where
  "tcmSubjectZh str nameMap =
     textOf str (jsOr (jsOr (getProp nameMap ''zh-Hant'') (getProp nameMap ''en''))
       (JStr [0x8A72, 0x85E5, 0x6750]))"

definition tcmSubjectEn :: "(jsval \<Rightarrow> ustring) \<Rightarrow> jsval \<Rightarrow> ustring" where
  "tcmSubjectEn str nameMap =
     textOf str (jsOr (jsOr (getProp nameMap ''en'') (getProp nameMap ''zh-Hant''))
       (JStr (U ''This herb'')))"

definition tcmOrigin ::
  "(jsval \<Rightarrow> ustring) \<Rightarrow> jsval \<Rightarrow> string \<Rightarrow> jsval \<Rightarrow> string \<Rightarrow> jsval \<Rightarrow> bool" where
  "tcmOrigin str nameMap field old lang v =
     (v = getProp old lang
      \<or> lang = ''zh-Hans'' \<and> tradToSimpValue (getProp old ''zh-Hant'') = Inr v
      \<or> lang = ''zh-Hant'' \<and> v = getProp old ''zh-Hans''
      \<or> v = JStr (zhPlaceholder (tcmSubjectZh str nameMap) field)
      \<or> v = JStr (tradToSimp (zhPlaceholder (tcmSubjectZh str nameMap) field))
      \<or> v = JStr (enPlaceholder (tcmSubjectEn str nameMap) field))"

definition gingerProfile :: document where
  "gingerProfile = [(''name'', JObj [(''en'', JStr (U ''Ginger''))]),
     (''tcmHistory'', JObj [(''en'', JStr (U ''Used for centuries''))])]"

text \<open>
  An entity whose scientific name carries an author, and a service that knows the name
  only with the author: the cleaned name finds nothing and the original name is retried.
\<close>

definition mintEntity :: document where
  "mintEntity = [(''scientificName'', JStr (U ''Mentha spicata L.''))]"

definition retryService :: "rat \<Rightarrow> gbifService" where
  "retryService c name = (if name = U ''Mentha spicata L.'' then Some (fuzzyMatch c) else None)"


text \<open>
  The subject and the scientific name that \<open>generateChineseDescription\<close> puts into the
  template, and the subject of the placeholder of \<open>processWesternProfile\<close>.
\<close>

definition plantSubject :: "(jsval \<Rightarrow> ustring) \<Rightarrow> jsval \<Rightarrow> ustring" where
  "plantSubject str nameMap =
     textOf str (jsOr (jsOr (jsOr (getProp nameMap ''zh-Hant'') (getProp nameMap ''zh-Hans''))
       (getProp nameMap ''en'')) (JStr [0x8A72, 0x690D, 0x7269]))"

definition plantSci :: "(jsval \<Rightarrow> ustring) \<Rightarrow> document \<Rightarrow> ustring" where
  "plantSci str data = textOf str (jsOr (get data ''scientificName'') (JStr []))"

definition westernSubject :: "(jsval \<Rightarrow> ustring) \<Rightarrow> jsval \<Rightarrow> ustring" where
  "westernSubject str nameMap =
     textOf str (jsOr (jsOr (getProp nameMap ''zh-Hant'') (getProp nameMap ''en''))
       (JStr [0x8A72, 0x8349, 0x85E5]))"

text \<open>
  The reading of ``enclosed in a fixed marker naming the subject and missing field'': the
  text opens with the marker and holds the subject's name and the label of the field.
\<close>

definition markedFor :: "ustring \<Rightarrow> ustring \<Rightarrow> ustring \<Rightarrow> bool" where
  "markedFor subject label p = (reviewMarker p \<and> includes' p subject \<and> includes' p label)"

text \<open>
  Where a value of a label or description of an Ayurveda reference item can come from,
  given the item as it was: it is the value that was there, a label or the description
  of the term found under the English label (or its conversion), or, when no term is
  found, the English label itself.
\<close>

definition ayurvedaOrigin ::
  "(jsval \<Rightarrow> ustring) \<Rightarrow> document \<Rightarrow> string \<Rightarrow> string \<Rightarrow> jsval \<Rightarrow> bool" where
  "ayurvedaOrigin str item field lang v =
     (v = langOf item field lang
      \<or> field = ''prefLabel'' \<and> lang = ''zh-Hant''
        \<and> (\<exists>term. lookupTerm str (langOf item ''prefLabel'' ''en'') = Some term
              \<and> v = termProp termHant term)
      \<or> field = ''prefLabel'' \<and> lang = ''zh-Hans''
        \<and> (\<exists>term. lookupTerm str (langOf item ''prefLabel'' ''en'') = Some term
              \<and> v = termProp termHans term)
      \<or> field = ''prefLabel'' \<and> (lang = ''zh-Hant'' \<or> lang = ''zh-Hans'')
        \<and> lookupTerm str (langOf item ''prefLabel'' ''en'') = None
        \<and> v = langOf item ''prefLabel'' ''en''
      \<or> field = ''description'' \<and> lang = ''zh-Hant''
        \<and> (\<exists>term. lookupTerm str (langOf item ''prefLabel'' ''en'') = Some term
              \<and> v = descOf term)
      \<or> field = ''description'' \<and> lang = ''zh-Hans''
        \<and> (\<exists>term d. lookupTerm str (langOf item ''prefLabel'' ''en'') = Some term
              \<and> descOf term = JStr d \<and> v = JStr (tradToSimp d)))"

fun itemFilled :: "(jsval \<Rightarrow> ustring) \<Rightarrow> jsval \<Rightarrow> jsval \<Rightarrow> bool" where
  "itemFilled str (JObj item) (JObj item') =
     (\<forall>field lang. ayurvedaOrigin str item field lang (langOf item' field lang))"
| "itemFilled str v v' = (v' = v)"

text \<open>
  A Western profile with two fields in English only, and two Ayurveda reference files:
  one item whose label is not in the table, and one item for the term \<open>Vata\<close>.
\<close>

definition gingerWestern :: document where
  "gingerWestern =
     [(''name'', JObj [(''en'', JStr (U ''Ginger''))]),
      (''westernHistory'', JObj [(''en'', JStr (U ''Used in Europe''))]),
      (''westernModernResearch'', JObj [(''en'', JStr (U ''Studied for nausea''))])]"

definition prakritiReference :: document where
  "prakritiReference =
     [(''@graph'', JArr [JObj [(''@id'', JStr (U ''ayurveda/prakriti'')),
        (''prefLabel'', JObj [(''en'', JStr (U ''Prakriti''))])]])]"

definition vataReference :: document where
  "vataReference =
     [(''@graph'', JArr [JObj [(''@id'', JStr (U ''dosha/vata'')),
        (''prefLabel'', JObj [(''en'', JStr (U ''Vata''))]),
        (''description'', JObj [(''en'', JStr (U ''The dosha of movement''))])]])]"

text \<open>
  A plant entity with a traditional name and an English common name, and a TCM profile
  whose history has an English and a simplified text.
\<close>

definition gingerNamed :: document where
  "gingerNamed =
     [(''name'', JObj [(''en'', JStr (U ''Ginger'')), (''zh-Hant'', JStr [0x8591])]),
      (''commonName'', JObj [(''en'', JStr (U ''Ginger''))])]"

definition gingerSimplified :: document where
  "gingerSimplified =
     [(''name'', JObj [(''en'', JStr (U ''Ginger''))]),
      (''tcmHistory'', JObj [(''en'', JStr (U ''Used for centuries'')),
                            (''zh-Hans'', JStr [0x59DC])])]"

section \<open>Properties\<close>

subsection \<open>Evaluation rules\<close>

lemmas ev_U = U_def list.map of_char_Char horner_sum_simps of_bool_eq arith_simps
  mult_1_right mult_1_left one_add_one mult_2_right mult_2 numeral_One
  numeral_plus_one one_plus_numeral add_numeral_left

lemmas ev_base = simp_thms if_True if_False rel_simps prod.case fst_conv snd_conv
  list.inject list.distinct char.inject option.inject option.distinct option.case
  sum.case sum.inject sum.distinct bool.case list.case

subsection \<open>The character conversion is a substitution and idempotent\<close>

lemma splitFrom_nonempty: "splitFrom sep piece s \<noteq> []"
  by (induction sep piece s rule: splitFrom.induct) auto

lemma join_Cons: "ps \<noteq> [] \<Longrightarrow> join sep (p # ps) = p @ sep @ join sep ps"
  by (cases ps) auto

lemma join_splitFrom_unit:
  "join [b] (splitFrom [a] piece s) = piece @ map (\<lambda>c. if c = a then b else c) s"
proof (induction s arbitrary: piece)
  case Nil
  show ?case by simp
next
  case (Cons c cs)
  show ?case
  proof (cases "c = a")
    case True
    then show ?thesis
      using Cons.IH [of "[]"] by (simp add: join_Cons splitFrom_nonempty)
  next
    case False
    then show ?thesis
      using Cons.IH [of "piece @ [c]"] by simp
  qed
qed

lemma join_split_unit: "join [b] (split [a] s) = map (\<lambda>c. if c = a then b else c) s"
  by (simp add: split_def join_splitFrom_unit)

lemma fold_map_substChar:
  "fold (\<lambda>(t, d). map (\<lambda>c. if c = t then d else c)) es s = map (substChar es) s"
proof (induction es arbitrary: s)
  case Nil
  show ?case by (simp add: substChar_def)
next
  case (Cons e es)
  obtain t d where e: "e = (t, d)" by (cases e)
  show ?case
    by (simp add: e Cons.IH) (simp add: substChar_def)
qed

lemma fold_replace_map:
  "fold (\<lambda>(t, d) r. join [d] (split [t] r)) es s = map (substChar es) s"
proof -
  have "(\<lambda>(t, d) r. join [d] (split [t] r)) = (\<lambda>(t, d). map (\<lambda>c. if c = t then d else c))"
    by (auto simp: fun_eq_iff join_split_unit)
  then show ?thesis
    by (simp add: fold_map_substChar)
qed

lemma substChar_lookup:
  assumes "distinct (map fst es)"
    and "\<forall>(k, v) \<in> set es. v = k \<or> v \<notin> fst ` set es"
  shows "substChar es c = (case map_of es c of None \<Rightarrow> c | Some d \<Rightarrow> d)"
  using assms
proof (induction es arbitrary: c)
  case Nil
  show ?case by (simp add: substChar_def)
next
  case (Cons e es)
  obtain t d where e: "e = (t, d)" by (cases e)
  have dist: "distinct (map fst es)" and tn: "t \<notin> fst ` set es"
    using Cons.prems(1) by (auto simp: e)
  have closed: "\<forall>(k, v) \<in> set es. v = k \<or> v \<notin> fst ` set es"
    using Cons.prems(2) by (auto simp: e)
  have IH: "\<And>x. substChar es x = (case map_of es x of None \<Rightarrow> x | Some d \<Rightarrow> d)"
    using Cons.IH [OF dist closed] .
  have step: "\<And>x. substChar ((t, d) # es) x = substChar es (if x = t then d else x)"
    by (simp add: substChar_def)
  show ?case
  proof (cases "c = t")
    case True
    have "d = t \<or> d \<notin> fst ` set (e # es)"
      using Cons.prems(2) by (auto simp: e)
    then have "d \<notin> fst ` set es"
      using tn by (auto simp: e)
    then have "map_of es d = None"
      by (simp add: map_of_eq_None_iff)
    then have "substChar es d = d"
      by (simp add: IH)
    then show ?thesis
      using True by (simp add: e step)
  next
    case False
    then show ?thesis
      by (simp add: step IH e)
  qed
qed

lemma set_update_subset: "set (AList.update k v al) \<subseteq> insert (k, v) (set al)"
  by (induction al) auto

lemma objectLiteral_acc:
  "distinct (map fst acc) \<Longrightarrow>
     distinct (map fst (fold (\<lambda>(k, v). AList.update k v) kvs acc)) \<and>
     set (fold (\<lambda>(k, v). AList.update k v) kvs acc) \<subseteq> set kvs \<union> set acc \<and>
     fst ` set (fold (\<lambda>(k, v). AList.update k v) kvs acc) = fst ` set kvs \<union> fst ` set acc"
proof (induction kvs arbitrary: acc)
  case Nil
  then show ?case by simp
next
  case (Cons e kvs)
  obtain k v where e: "e = (k, v)" by (cases e)
  have d: "distinct (map fst (AList.update k v acc))"
    using Cons.prems by (rule distinct_update)
  show ?case
    using Cons.IH [OF d] set_update_subset [of k v acc]
    by (auto simp: e dom_update)
qed

lemma objectLiteral_distinct: "distinct (map fst (objectLiteral kvs))"
  using objectLiteral_acc [of "[]" kvs] by (simp add: objectLiteral_def)

lemma objectLiteral_subset: "set (objectLiteral kvs) \<subseteq> set kvs"
  using objectLiteral_acc [of "[]" kvs] by (simp add: objectLiteral_def)

lemma objectLiteral_keys: "fst ` set (objectLiteral kvs) = fst ` set kvs"
  using objectLiteral_acc [of "[]" kvs] by (simp add: objectLiteral_def)

lemma CHAR_MAP_source_closed:
  "list_all (\<lambda>(k, v). v = k \<or> list_all (\<lambda>(k', v'). v \<noteq> k') CHAR_MAP_source) CHAR_MAP_source"
  unfolding CHAR_MAP_source_def
  by (simp only: list.pred_inject rel_simps simp_thms prod.case)

lemma CHAR_MAP_closed: "\<forall>(k, v) \<in> set CHAR_MAP. v = k \<or> v \<notin> fst ` set CHAR_MAP"
proof -
  have "\<forall>(k, v) \<in> set CHAR_MAP_source. v = k \<or> v \<notin> fst ` set CHAR_MAP_source"
    using CHAR_MAP_source_closed by (fastforce simp: list_all_iff)
  then show ?thesis
    using objectLiteral_subset [of CHAR_MAP_source]
    by (auto simp: CHAR_MAP_def objectLiteral_keys)
qed

lemma tradToSimp_map: "tradToSimp s = map (substChar CHAR_MAP) s"
  by (simp add: tradToSimp_def fold_replace_map)

lemma substChar_CHAR_MAP:
  "substChar CHAR_MAP c = (case map_of CHAR_MAP c of None \<Rightarrow> c | Some d \<Rightarrow> d)"
proof -
  have "distinct (map fst CHAR_MAP)"
    unfolding CHAR_MAP_def by (rule objectLiteral_distinct)
  then show ?thesis
    using CHAR_MAP_closed by (rule substChar_lookup)
qed

lemma CHAR_MAP_fixed:
  "(t, d) \<in> set CHAR_MAP \<Longrightarrow> map_of CHAR_MAP d = None \<or> map_of CHAR_MAP d = Some d"
proof -
  assume m: "(t, d) \<in> set CHAR_MAP"
  have dist: "distinct (map fst CHAR_MAP)"
    by (simp add: CHAR_MAP_def objectLiteral_distinct)
  from m CHAR_MAP_closed have "d = t \<or> d \<notin> fst ` set CHAR_MAP" by auto
  then show ?thesis
  proof
    assume "d = t"
    with m dist have "map_of CHAR_MAP d = Some d" by simp
    then show ?thesis ..
  next
    assume "d \<notin> fst ` set CHAR_MAP"
    then have "map_of CHAR_MAP d = None" by (simp add: map_of_eq_None_iff)
    then show ?thesis ..
  qed
qed

lemma substChar_idem: "substChar CHAR_MAP (substChar CHAR_MAP c) = substChar CHAR_MAP c"
proof (cases "map_of CHAR_MAP c")
  case None
  then show ?thesis by (simp add: substChar_CHAR_MAP)
next
  case (Some d)
  then have "(c, d) \<in> set CHAR_MAP" by (rule map_of_SomeD)
  from CHAR_MAP_fixed [OF this] Some show ?thesis
    by (auto simp: substChar_CHAR_MAP)
qed

text \<open>
  C10. \<open>tradToSimp\<close> converts a string code unit by code unit: a unit that is a key of
  \<open>CHAR_MAP\<close> becomes the table's value, every other unit stays as it is. No value of
  the table is a key that maps to a different unit, and therefore converting twice gives
  the same string as converting once.
\<close>

theorem tradToSimp_charwise_idempotent:
  "tradToSimp s = map (\<lambda>c. case map_of CHAR_MAP c of None \<Rightarrow> c | Some d \<Rightarrow> d) s
   \<and> (\<forall>(t, d) \<in> set CHAR_MAP. map_of CHAR_MAP d = None \<or> map_of CHAR_MAP d = Some d)
   \<and> tradToSimp (tradToSimp s) = tradToSimp s"
proof -
  have a: "tradToSimp s = map (\<lambda>c. case map_of CHAR_MAP c of None \<Rightarrow> c | Some d \<Rightarrow> d) s"
    by (simp add: tradToSimp_map substChar_CHAR_MAP)
  have b: "\<forall>(t, d) \<in> set CHAR_MAP. map_of CHAR_MAP d = None \<or> map_of CHAR_MAP d = Some d"
    using CHAR_MAP_fixed by auto
  have c: "tradToSimp (tradToSimp s) = tradToSimp s"
    by (simp add: tradToSimp_map substChar_idem)
  from a b c show ?thesis by blast
qed


lemma map_of_fold_update:
  "map_of (fold (\<lambda>(k, v). AList.update k v) kvs acc) = map_of acc ++ map_of (rev kvs)"
proof (induction kvs arbitrary: acc)
  case Nil
  show ?case by simp
next
  case (Cons e kvs)
  obtain k v where e: "e = (k, v)" by (cases e)
  show ?case
    by (simp add: e Cons.IH update_conv' map_add_upd_left fun_eq_iff map_add_def split: option.splits)
qed

lemma map_of_objectLiteral: "map_of (objectLiteral kvs) = map_of (rev kvs)"
  by (simp add: objectLiteral_def map_of_fold_update)

lemma CHAR_MAP_samples:
  "map_of CHAR_MAP 0x85E5 = Some 0x836F"
  "map_of CHAR_MAP 0x41 = None"
  "map_of CHAR_MAP 0x786C = Some 0x786C"
  unfolding CHAR_MAP_def map_of_objectLiteral CHAR_MAP_source_def
  by (simp_all only: rev.simps append.simps map_of_Cons_code rel_simps simp_thms if_True if_False
      cong: if_weak_cong)

text \<open>The theorem at the text U+85E5, \<open>A\<close>, U+786C.\<close>

theorem tradToSimp_witness:
  "(0x85E5, 0x836F) \<in> set CHAR_MAP
   \<and> (map_of CHAR_MAP 0x836F = None \<or> map_of CHAR_MAP 0x836F = Some 0x836F)
   \<and> tradToSimp [0x85E5, 0x41, 0x786C] = [0x836F, 0x41, 0x786C]
   \<and> tradToSimp (tradToSimp [0x85E5, 0x41, 0x786C]) = tradToSimp [0x85E5, 0x41, 0x786C]"
proof -
  note T = tradToSimp_charwise_idempotent [of "[0x85E5, 0x41, 0x786C]"]
  have mem: "(0x85E5, 0x836F) \<in> set CHAR_MAP"
    using CHAR_MAP_samples(1) by (rule map_of_SomeD)
  have fixed: "map_of CHAR_MAP 0x836F = None \<or> map_of CHAR_MAP 0x836F = Some 0x836F"
    using T mem by blast
  have val: "tradToSimp [0x85E5, 0x41, 0x786C] = [0x836F, 0x41, 0x786C]"
    using T by (simp add: CHAR_MAP_samples)
  from mem fixed val T show ?thesis by blast
qed

subsection \<open>Structural validator: the scoping check of plant entities\<close>




lemma scopeMessage_inj: "map scopeMessage ps = [] \<longleftrightarrow> ps = []"
  by simp












lemma someE_none:
  "list_all (\<lambda>x. f x = Inr False) xs \<Longrightarrow> someE f xs = Inr False"
  by (induction xs) auto

lemma ginger_id: "U ''plant/ginger'' = [112, 108, 97, 110, 116, 47, 103, 105, 110, 103, 101, 114]"
  by (simp only: ev_U)

lemma ginger_isPlant: "isPlantId (JStr (U ''plant/ginger'')) = Inr True"
  unfolding isPlantId_def nonPlantSlugs_def ginger_id
  by (simp only: ev_U ev_base someE.simps jsIncludes.simps includes'.simps prefix_code)


lemma U_eq_Nil: "U s = [] \<longleftrightarrow> s = []"
  by (simp add: U_def)

lemma U_inj: "U a = U b \<longleftrightarrow> a = b"
proof -
  have "inj (of_char :: char \<Rightarrow> nat)"
    by (rule injI) simp
  then show ?thesis
    unfolding U_def by (rule inj_map_eq_map)
qed




text \<open>
  The keys that the repository's guide lists as system-scoped content, \<open>tcmFunctions\<close>
  among them, are not in the list of the scoping check: a plant entity with
  \<open>tcmFunctions\<close> validates with no error.
\<close>

lemma validatePlant_plantWithTcmFunctions:
  "validatePlant plantWithTcmFunctions = Inr \<lparr>errors = [], warnings = []\<rparr>"
  by (simp add: validatePlant_def plantWithTcmFunctions_def get_def
      jsOr_def ginger_isPlant validateLanguageMap_def validateIri_def systemScopedProps_def
      lowerAscii_def U_eq_Nil Let_def)

subsection \<open>External linker: entities that are already linked\<close>

lemma someE_found:
  assumes "list_ex P xs"
    and "\<And>x. P x \<Longrightarrow> f x = Inr True"
    and "list_all (\<lambda>x. \<exists>b. f x = Inr b) (takeWhile (\<lambda>x. \<not> P x) xs)"
  shows "someE f xs = Inr True"
  using assms(1,3)
proof (induction xs)
  case Nil
  then show ?case by simp
next
  case (Cons x xs)
  show ?case
  proof (cases "P x")
    case True
    then show ?thesis by (simp add: assms(2))
  next
    case False
    then obtain b where b: "f x = Inr b" using Cons.prems(2) by auto
    have "someE f xs = Inr True"
      using Cons.IH Cons.prems False by simp
    then show ?thesis by (cases b) (simp_all add: b)
  qed
qed

lemma someE_not_False:
  assumes "list_ex P xs" and "\<And>x. P x \<Longrightarrow> f x = Inr True"
  shows "someE f xs \<noteq> Inr False"
  using assms(1)
proof (induction xs)
  case Nil
  then show ?case by simp
next
  case (Cons x xs)
  show ?case
  proof (cases "P x")
    case True
    then show ?thesis by (simp add: assms(2))
  next
    case False
    then have "someE f xs \<noteq> Inr False" using Cons by simp
    then show ?thesis by (auto split: sum.splits bool.splits)
  qed
qed

lemma urlContains_includes: "urlContains d l \<Longrightarrow> urlIncludes d l = Inr True"
  by (auto simp: urlContains_def urlIncludes_def split: sum.splits jsval.splits)

lemma readableUrl_includes: "readableUrl l \<Longrightarrow> \<exists>b. urlIncludes d l = Inr b"
  by (auto simp: readableUrl_def urlIncludes_def split: sum.splits jsval.splits)

lemma urlContains_truthy:
  "list_ex (urlContains d) (asLinks v) \<Longrightarrow> d \<noteq> [] \<Longrightarrow> truthy v"
  by (cases v) (auto simp: urlContains_def split: sum.splits jsval.splits)

lemma sum_bool_cases:
  fixes r :: "jserror + bool"
  shows "r = Inr True \<or> r = Inr False \<or> r = Inl TypeError"
  by (cases r) (auto intro: jserror.exhaust)

lemma someE_urlIncludes_carries:
  assumes "list_ex (urlContains d) links"
  shows "(someE (urlIncludes d) links = Inr True \<or> someE (urlIncludes d) links = Inl TypeError)
    \<and> (list_all readableUrl (takeWhile (\<lambda>l. \<not> urlContains d l) links)
        \<longrightarrow> someE (urlIncludes d) links = Inr True)"
proof -
  have nf: "someE (urlIncludes d) links \<noteq> Inr False"
    using assms urlContains_includes by (rule someE_not_False)
  have found: "someE (urlIncludes d) links = Inr True"
    if "list_all readableUrl (takeWhile (\<lambda>l. \<not> urlContains d l) links)"
  proof -
    have "list_all (\<lambda>x. \<exists>b. urlIncludes d x = Inr b)
            (takeWhile (\<lambda>l. \<not> urlContains d l) links)"
      using that readableUrl_includes by (auto simp: list_all_iff)
    with assms show ?thesis
      using urlContains_includes by (intro someE_found) auto
  qed
  from nf found sum_bool_cases [of "someE (urlIncludes d) links"] show ?thesis by blast
qed

lemma hasGbifLink_carries:
  assumes "list_ex (urlContains (U ''gbif.org'')) (asLinks (get entity ''sameAs''))"
  shows "(hasGbifLink entity = Inr True \<or> hasGbifLink entity = Inl TypeError)
    \<and> (list_all readableUrl (takeWhile (\<lambda>l. \<not> urlContains (U ''gbif.org'') l)
          (asLinks (get entity ''sameAs'')))
        \<longrightarrow> hasGbifLink entity = Inr True)"
proof -
  have ne: "U ''gbif.org'' \<noteq> []" by (simp add: U_def)
  have t: "truthy (get entity ''sameAs'')"
    using urlContains_truthy [OF assms ne] .
  have h: "hasGbifLink entity = someE (urlIncludes (U ''gbif.org'')) (asLinks (get entity ''sameAs''))"
    by (simp add: hasGbifLink_def t)
  show ?thesis
    unfolding h using assms by (rule someE_urlIncludes_carries)
qed

lemma hasWikidataLink_carries:
  assumes "list_ex (urlContains (U ''wikidata.org'')) (asLinks (get profile ''sameAs''))"
  shows "(hasWikidataLink profile = Inr True \<or> hasWikidataLink profile = Inl TypeError)
    \<and> (list_all readableUrl (takeWhile (\<lambda>l. \<not> urlContains (U ''wikidata.org'') l)
          (asLinks (get profile ''sameAs'')))
        \<longrightarrow> hasWikidataLink profile = Inr True)"
proof -
  have ne: "U ''wikidata.org'' \<noteq> []" by (simp add: U_def)
  have t: "truthy (get profile ''sameAs'')"
    using urlContains_truthy [OF assms ne] .
  have h: "hasWikidataLink profile =
      someE (urlIncludes (U ''wikidata.org'')) (asLinks (get profile ''sameAs''))"
    by (simp add: hasWikidataLink_def t)
  show ?thesis
    unfolding h using assms by (rule someE_urlIncludes_carries)
qed

lemma gbif_already_linked:
  assumes "list_ex (urlContains (U ''gbif.org'')) (asLinks (get entity ''sameAs''))"
  shows "queried (processPlantEntity dryRun service entity) = []
    \<and> written (processPlantEntity dryRun service entity) = None
    \<and> (status (processPlantEntity dryRun service entity) = Skipped already_linked
        \<or> status (processPlantEntity dryRun service entity) = Raised TypeError)
    \<and> (list_all readableUrl (takeWhile (\<lambda>l. \<not> urlContains (U ''gbif.org'') l)
          (asLinks (get entity ''sameAs'')))
        \<longrightarrow> status (processPlantEntity dryRun service entity) = Skipped already_linked)"
  using hasGbifLink_carries [OF assms]
  by (auto simp: processPlantEntity_def)

lemma wikidata_already_linked:
  assumes "list_ex (urlContains (U ''wikidata.org'')) (asLinks (get profile ''sameAs''))"
  shows "wdCalls (processHerbProfile dryRun search sparqlQuery plantMap profile) = []
    \<and> wdWritten (processHerbProfile dryRun search sparqlQuery plantMap profile) = None
    \<and> (wdStatus (processHerbProfile dryRun search sparqlQuery plantMap profile)
          = WdSkipped already_linked
        \<or> wdStatus (processHerbProfile dryRun search sparqlQuery plantMap profile)
          = WdRaised TypeError)
    \<and> (list_all readableUrl (takeWhile (\<lambda>l. \<not> urlContains (U ''wikidata.org'') l)
          (asLinks (get profile ''sameAs'')))
        \<longrightarrow> wdStatus (processHerbProfile dryRun search sparqlQuery plantMap profile)
              = WdSkipped already_linked)"
  using hasWikidataLink_carries [OF assms]
  by (auto simp: processHerbProfile_def)







lemmas ev_js = truthy.simps jsOr_def get_def map_of_Cons_code getProp.simps jsIncludes.simps
  includes'.simps prefix_code someE.simps linkUrl.simps asLinks.simps urlIncludes_def
  urlContains_def readableUrl_def urlEquals_def jsval.case jsval.distinct jsval.inject
  list_ex_Nil_iff list_ex_Cons_iff list.pred_inject takeWhile.simps isArray.simps isStringType.simps
  isObjectType.simps










subsection \<open>External linker: adding a cross-reference\<close>

lemma get_setProp: "get (setProp d k v) k' = (if k = k' then v else get d k')"
  by (simp add: get_def setProp_def update_conv')

lemma someE_urlEquals:
  "someE (urlEquals url) links = Inr b \<Longrightarrow> b = (url \<in> set (urlStrings links))"
proof (induction links)
  case Nil
  then show ?case by (simp add: urlStrings_def)
next
  case (Cons l links)
  then show ?case
    by (auto simp: urlStrings_def urlEquals_def split: sum.splits bool.splits jsval.splits)
qed

lemma someE_urlEquals_total:
  "JNull \<notin> set links \<Longrightarrow> \<exists>b. someE (urlEquals url) links = Inr b"
proof (induction links)
  case Nil
  then show ?case by auto
next
  case (Cons l links)
  then obtain b where b: "someE (urlEquals url) links = Inr b" by auto
  obtain v where "linkUrl l = Inr v"
    using Cons.prems by (cases l) auto
  then have "urlEquals url l = Inr (v = JStr url)"
    by (simp add: urlEquals_def)
  then show ?case
    using b by (cases "v = JStr url") auto
qed

lemma urlStrings_append: "urlStrings (xs @ ys) = urlStrings xs @ urlStrings ys"
  by (simp add: urlStrings_def)

lemma urlStrings_new: "url \<noteq> [] \<Longrightarrow> urlStrings [JObj [(''@id'', JStr url)]] = [url]"
  by (simp add: urlStrings_def get_def jsOr_def)

lemma pushLink_links:
  assumes "pushLink entity url = Inr e'"
  shows "currentLinks e' =
           (if url \<in> set (urlStrings (currentLinks entity)) then currentLinks entity
            else currentLinks entity @ [JObj [(''@id'', JStr url)]])
         \<and> (\<forall>key. key \<noteq> ''sameAs'' \<longrightarrow> get e' key = get entity key)"
proof -
  define e1 where "e1 = (if \<not> truthy (get entity ''sameAs'')
      then setProp entity ''sameAs'' (JArr []) else entity)"
  define e2 where "e2 = (if \<not> isArray (get e1 ''sameAs'')
      then setProp e1 ''sameAs'' (JArr [get e1 ''sameAs'']) else e1)"
  have links: "asLinks (get e2 ''sameAs'') = currentLinks entity"
    by (cases "get entity ''sameAs''")
      (auto simp: e1_def e2_def currentLinks_def get_setProp)
  have arr: "get e2 ''sameAs'' = JArr (currentLinks entity)"
    by (cases "get entity ''sameAs''")
      (auto simp: e1_def e2_def currentLinks_def get_setProp)
  have other: "\<And>key. key \<noteq> ''sameAs'' \<Longrightarrow> get e2 key = get entity key"
    by (auto simp: e1_def e2_def get_setProp)
  have p: "pushLink entity url =
      (case someE (urlEquals url) (currentLinks entity) of
         Inl e \<Rightarrow> Inl e
       | Inr True \<Rightarrow> Inr e2
       | Inr False \<Rightarrow> Inr (setProp e2 ''sameAs''
            (JArr (currentLinks entity @ [JObj [(''@id'', JStr url)]]))))"
    unfolding pushLink_def Let_def e1_def [symmetric] e2_def [symmetric] links ..
  from assms p obtain b where b: "someE (urlEquals url) (currentLinks entity) = Inr b"
    by (auto split: sum.splits)
  have bm: "b = (url \<in> set (urlStrings (currentLinks entity)))"
    using someE_urlEquals [OF b] .
  show ?thesis
  proof (cases b)
    case True
    with assms p b have "e' = e2" by simp
    then show ?thesis
      using True bm arr other by (simp add: currentLinks_def)
  next
    case False
    with assms p b have "e' = setProp e2 ''sameAs''
        (JArr (currentLinks entity @ [JObj [(''@id'', JStr url)]]))" by simp
    then show ?thesis
      using False bm other by (simp add: currentLinks_def get_setProp)
  qed
qed

lemma pushLink_total:
  assumes "JNull \<notin> set (currentLinks entity)"
  shows "\<exists>e'. pushLink entity url = Inr e'"
proof -
  define e1 where "e1 = (if \<not> truthy (get entity ''sameAs'')
      then setProp entity ''sameAs'' (JArr []) else entity)"
  define e2 where "e2 = (if \<not> isArray (get e1 ''sameAs'')
      then setProp e1 ''sameAs'' (JArr [get e1 ''sameAs'']) else e1)"
  have links: "asLinks (get e2 ''sameAs'') = currentLinks entity"
    by (cases "get entity ''sameAs''")
      (auto simp: e1_def e2_def currentLinks_def get_setProp)
  obtain b where "someE (urlEquals url) (currentLinks entity) = Inr b"
    using someE_urlEquals_total [OF assms] by blast
  then show ?thesis
    unfolding pushLink_def Let_def e1_def [symmetric] e2_def [symmetric] links
    by (cases b) simp_all
qed

lemma pushLink_distinct:
  assumes "pushLink entity url = Inr e'" and "url \<noteq> []"
    and "distinct (urlStrings (currentLinks entity))"
  shows "distinct (urlStrings (currentLinks e'))"
  using pushLink_links [OF assms(1)] assms(2,3)
  by (auto simp: urlStrings_append urlStrings_new)

lemma gbifUrl_nonempty: "gbifUrl k \<noteq> []"
  by (simp add: gbifUrl_def U_def)

lemma wikidataUrl_nonempty: "wikidataUrl q \<noteq> []"
  by (simp add: wikidataUrl_def U_def)

lemma currentLinks_setProp_other:
  "key \<noteq> ''sameAs'' \<Longrightarrow> currentLinks (setProp e key v) = currentLinks e"
  by (simp add: currentLinks_def get_setProp)

lemma addGbifLink_links:
  assumes "addGbifLink entity k = Inr e'"
  shows "currentLinks e' =
           (if gbifUrl k \<in> set (urlStrings (currentLinks entity)) then currentLinks entity
            else currentLinks entity @ [JObj [(''@id'', JStr (gbifUrl k))]])
         \<and> get e' ''gbifId'' = JNum (of_int k)"
proof -
  from assms obtain e1 where p: "pushLink entity (gbifUrl k) = Inr e1"
    and e': "e' = setProp e1 ''gbifId'' (JNum (of_int k))"
    by (auto simp: addGbifLink_def split: sum.splits)
  show ?thesis
    using pushLink_links [OF p] by (simp add: e' currentLinks_setProp_other get_setProp)
qed

lemma addGbifLink_distinct:
  assumes "addGbifLink entity k = Inr e'" and "distinct (urlStrings (currentLinks entity))"
  shows "distinct (urlStrings (currentLinks e'))"
  using addGbifLink_links [OF assms(1)] assms(2) gbifUrl_nonempty [of k]
  by (auto simp: urlStrings_append urlStrings_new)

lemma addWikidataLink_distinct:
  assumes "addWikidataLink entity q = Inr e'" and "distinct (urlStrings (currentLinks entity))"
  shows "distinct (urlStrings (currentLinks e'))"
  using assms wikidataUrl_nonempty [of q]
  by (auto simp: addWikidataLink_def intro: pushLink_distinct)

lemma addGbifLink_total:
  assumes "JNull \<notin> set (currentLinks entity)"
  shows "\<exists>e'. addGbifLink entity k = Inr e'"
proof -
  obtain e1 where "pushLink entity (gbifUrl k) = Inr e1"
    using pushLink_total [OF assms] by blast
  then show ?thesis
    by (simp add: addGbifLink_def)
qed

lemma applyLinks_distinct:
  "applyLinks entity ops = Inr e' \<Longrightarrow> distinct (urlStrings (currentLinks entity))
     \<Longrightarrow> distinct (urlStrings (currentLinks e'))"
proof (induction entity ops rule: applyLinks.induct)
  case (1 entity)
  then show ?case by simp
next
  case (2 entity k ops)
  then show ?case
    by (auto split: sum.splits dest: addGbifLink_distinct)
next
  case (3 entity q ops)
  then show ?case
    by (auto split: sum.splits dest: addWikidataLink_distinct)
qed

text \<open>
  C9 (as amended). Both \<open>addGbifLink\<close> and \<open>addWikidataLink\<close> return whenever no entry
  of the cross-reference list is \<open>null\<close>. The list afterwards is the list before, with
  \<open>{'@id': url}\<close> appended exactly when no entry had that URL. \<open>addGbifLink\<close> also
  records the species key as \<open>gbifId\<close>; \<open>addWikidataLink\<close> changes no property other
  than \<open>sameAs\<close>. A list without two entries of the same URL stays so under any
  sequence of link operations.
\<close>

theorem add_link_no_duplicate:
  "(JNull \<notin> set (currentLinks entity) \<longrightarrow>
      (\<exists>e'. addGbifLink entity k = Inr e') \<and> (\<exists>e'. addWikidataLink entity q = Inr e'))
   \<and> (\<forall>e'. addGbifLink entity k = Inr e' \<longrightarrow>
         currentLinks e' =
           (if gbifUrl k \<in> set (urlStrings (currentLinks entity)) then currentLinks entity
            else currentLinks entity @ [JObj [(''@id'', JStr (gbifUrl k))]])
         \<and> get e' ''gbifId'' = JNum (of_int k))
   \<and> (\<forall>e'. addWikidataLink entity q = Inr e' \<longrightarrow>
         currentLinks e' =
           (if wikidataUrl q \<in> set (urlStrings (currentLinks entity)) then currentLinks entity
            else currentLinks entity @ [JObj [(''@id'', JStr (wikidataUrl q))]])
         \<and> (\<forall>key. key \<noteq> ''sameAs'' \<longrightarrow> get e' key = get entity key))
   \<and> (\<forall>e'. applyLinks entity ops = Inr e' \<and> distinct (urlStrings (currentLinks entity))
         \<longrightarrow> distinct (urlStrings (currentLinks e')))"
proof -
  have a: "JNull \<notin> set (currentLinks entity) \<longrightarrow>
      (\<exists>e'. addGbifLink entity k = Inr e') \<and> (\<exists>e'. addWikidataLink entity q = Inr e')"
  proof
    assume n: "JNull \<notin> set (currentLinks entity)"
    have g: "\<exists>e'. addGbifLink entity k = Inr e'"
      using n by (rule addGbifLink_total)
    have w: "\<exists>e'. addWikidataLink entity q = Inr e'"
      using pushLink_total [OF n] by (simp add: addWikidataLink_def)
    from g w show "(\<exists>e'. addGbifLink entity k = Inr e') \<and> (\<exists>e'. addWikidataLink entity q = Inr e')"
      by blast
  qed
  have b: "\<forall>e'. addGbifLink entity k = Inr e' \<longrightarrow>
         currentLinks e' =
           (if gbifUrl k \<in> set (urlStrings (currentLinks entity)) then currentLinks entity
            else currentLinks entity @ [JObj [(''@id'', JStr (gbifUrl k))]])
         \<and> get e' ''gbifId'' = JNum (of_int k)"
    using addGbifLink_links by blast
  have c: "\<forall>e'. addWikidataLink entity q = Inr e' \<longrightarrow>
         currentLinks e' =
           (if wikidataUrl q \<in> set (urlStrings (currentLinks entity)) then currentLinks entity
            else currentLinks entity @ [JObj [(''@id'', JStr (wikidataUrl q))]])
         \<and> (\<forall>key. key \<noteq> ''sameAs'' \<longrightarrow> get e' key = get entity key)"
    using pushLink_links by (simp add: addWikidataLink_def)
  have d: "\<forall>e'. applyLinks entity ops = Inr e' \<and> distinct (urlStrings (currentLinks entity))
         \<longrightarrow> distinct (urlStrings (currentLinks e'))"
    using applyLinks_distinct by blast
  from a b c d show ?thesis by blast
qed


lemma urlEquals_new: "url \<noteq> [] \<Longrightarrow> urlEquals url (JObj [(''@id'', JStr url)]) = Inr True"
  by (simp add: urlEquals_def get_def jsOr_def)

lemma addGbifLink_empty:
  "addGbifLink [] k =
     Inr [(''sameAs'', JArr [JObj [(''@id'', JStr (gbifUrl k))]]), (''gbifId'', JNum (of_int k))]"
  by (simp add: addGbifLink_def pushLink_def get_def setProp_def)

lemma addGbifLink_again:
  "addGbifLink [(''sameAs'', JArr [JObj [(''@id'', JStr (gbifUrl k))]]), (''gbifId'', JNum (of_int k))] k =
     Inr [(''sameAs'', JArr [JObj [(''@id'', JStr (gbifUrl k))]]), (''gbifId'', JNum (of_int k))]"
  by (simp add: addGbifLink_def pushLink_def get_def setProp_def urlEquals_new gbifUrl_nonempty)

text \<open>
  The theorem on an entity without cross-references that is linked twice to species 5.
\<close>

theorem add_link_witness:
  "JNull \<notin> set (currentLinks [])
   \<and> addGbifLink [] 5 =
       Inr [(''sameAs'', JArr [JObj [(''@id'', JStr (gbifUrl 5))]]), (''gbifId'', JNum 5)]
   \<and> currentLinks [(''sameAs'', JArr [JObj [(''@id'', JStr (gbifUrl 5))]]), (''gbifId'', JNum 5)]
       = [JObj [(''@id'', JStr (gbifUrl 5))]]
   \<and> applyLinks [] [GbifLink 5, GbifLink 5] =
       Inr [(''sameAs'', JArr [JObj [(''@id'', JStr (gbifUrl 5))]]), (''gbifId'', JNum 5)]
   \<and> distinct (urlStrings (currentLinks
         [(''sameAs'', JArr [JObj [(''@id'', JStr (gbifUrl 5))]]), (''gbifId'', JNum 5)]))"
proof -
  note T = add_link_no_duplicate [where entity = "[]" and k = 5
      and ops = "[GbifLink 5, GbifLink 5]"]
  have n: "JNull \<notin> set (currentLinks [])"
    by (simp add: currentLinks_def get_def)
  have a: "addGbifLink [] 5 =
       Inr [(''sameAs'', JArr [JObj [(''@id'', JStr (gbifUrl 5))]]), (''gbifId'', JNum 5)]"
    using addGbifLink_empty [of 5] by simp
  have l: "currentLinks [(''sameAs'', JArr [JObj [(''@id'', JStr (gbifUrl 5))]]), (''gbifId'', JNum 5)]
       = [JObj [(''@id'', JStr (gbifUrl 5))]]"
    using T a by (simp add: currentLinks_def get_def urlStrings_def)
  have ops: "applyLinks [] [GbifLink 5, GbifLink 5] =
       Inr [(''sameAs'', JArr [JObj [(''@id'', JStr (gbifUrl 5))]]), (''gbifId'', JNum 5)]"
    using a addGbifLink_again [of 5] by simp
  have d0: "distinct (urlStrings (currentLinks []))"
    by (simp add: currentLinks_def get_def urlStrings_def)
  have d: "distinct (urlStrings (currentLinks
         [(''sameAs'', JArr [JObj [(''@id'', JStr (gbifUrl 5))]]), (''gbifId'', JNum 5)]))"
    using T ops d0 by blast
  from n a l ops d show ?thesis by blast
qed

lemma wikidataUrl_Q35625:
  "wikidataUrl (U ''Q35625'') = U ''https://www.wikidata.org/wiki/Q35625''"
  by (simp add: wikidataUrl_def U_def)

lemma gbifUrl_1: "gbifUrl 1 = U ''https://www.gbif.org/species/1''"
  by (simp add: gbifUrl_def showInt_def showNat.simps U_def)

text \<open>
  The claim as written fails twice: \<open>addWikidataLink\<close> leaves an entity whose only
  property is \<open>sameAs\<close>, with no identifier recorded; and an entity that already lists
  a URL twice still lists it twice after \<open>addGbifLink\<close>.
\<close>

theorem add_link_counterexample:
  "addWikidataLink [] (U ''Q35625'') =
     Inr [(''sameAs'', JArr [JObj [(''@id'', JStr (U ''https://www.wikidata.org/wiki/Q35625''))]])]
   \<and> addGbifLink entityWithDuplicateLinks 1 =
       Inr (entityWithDuplicateLinks @ [(''gbifId'', JNum 1)])
   \<and> \<not> distinct (urlStrings (currentLinks (entityWithDuplicateLinks @ [(''gbifId'', JNum 1)])))"
proof -
  have w: "addWikidataLink [] (U ''Q35625'') =
     Inr [(''sameAs'', JArr [JObj [(''@id'', JStr (U ''https://www.wikidata.org/wiki/Q35625''))]])]"
    by (simp add: addWikidataLink_def pushLink_def get_def setProp_def wikidataUrl_Q35625)
  have ne: "U ''https://www.gbif.org/species/1'' \<noteq> []"
    by (simp add: U_def)
  have g: "addGbifLink entityWithDuplicateLinks 1 =
       Inr (entityWithDuplicateLinks @ [(''gbifId'', JNum 1)])"
    by (simp add: addGbifLink_def pushLink_def get_def setProp_def entityWithDuplicateLinks_def
        gbifUrl_1 urlEquals_new ne)
  have d: "\<not> distinct (urlStrings (currentLinks (entityWithDuplicateLinks @ [(''gbifId'', JNum 1)])))"
    using ne by (simp add: entityWithDuplicateLinks_def currentLinks_def get_def urlStrings_def jsOr_def)
  from w g d show ?thesis by blast
qed

subsection \<open>External linker: the confidence threshold\<close>

lemma usableMatch_iff:
  "usableMatch r = Some (m, k) \<longleftrightarrow>
     r = Some m \<and> (\<exists>t. matchType m = Some t \<and> t \<noteq> [] \<and> t \<noteq> U ''NONE'')
     \<and> speciesKey m = Some k \<and> k \<noteq> 0"
  by (auto simp: usableMatch_def split: option.splits if_splits)

lemma someE_False_all: "someE f xs = Inr False \<Longrightarrow> \<forall>x \<in> set xs. f x = Inr False"
  by (induction xs) (auto split: sum.splits bool.splits)

lemma hasGbifLink_False_no_null:
  assumes "hasGbifLink entity = Inr False"
  shows "JNull \<notin> set (currentLinks entity)"
proof (cases "truthy (get entity ''sameAs'')")
  case False
  then show ?thesis by (simp add: currentLinks_def)
next
  case True
  with assms have "someE (urlIncludes (U ''gbif.org'')) (asLinks (get entity ''sameAs'')) = Inr False"
    by (simp add: hasGbifLink_def)
  then have "\<forall>l \<in> set (asLinks (get entity ''sameAs'')). urlIncludes (U ''gbif.org'') l = Inr False"
    by (rule someE_False_all)
  moreover have "urlIncludes (U ''gbif.org'') JNull \<noteq> Inr False"
    by (simp add: urlIncludes_def)
  ultimately show ?thesis
    using True by (auto simp: currentLinks_def)
qed

lemma acceptMatch_result:
  assumes "addGbifLink entity k = Inr e'"
  shows "acceptMatch dryRun entity m k names =
     \<lparr>status = Linked k m (confidenceOf m), queried = names,
      written = (if dryRun then None else Some e')\<rparr>"
  using assms by (simp add: acceptMatch_def)

text \<open>
  C2 (as amended). Take an entity without a GBIF cross-reference and with a scientific
  name. If the answer for the cleaned name has a match type that is neither empty nor
  \<open>NONE\<close> and a species key other than 0, then with confidence 80 or more the result is
  \<open>linked\<close> and, unless this is a dry run, the entity with the link added is written;
  with confidence below 80 nothing is written and the result is \<open>low_confidence\<close>. If
  the answer for the cleaned name is not usable and the original name differs, an answer
  for the original name of that kind is accepted in the same way with confidence 80 or
  more, and with confidence below 80 it is not applied: nothing is written and the result
  is not \<open>linked\<close>. Adding the link cannot raise here.
\<close>

theorem confidence_threshold:
  assumes "hasGbifLink entity = Inr False"
    and "get entity ''scientificName'' = JStr name" and "name \<noteq> []"
  shows "\<exists>e'. addGbifLink entity k = Inr e' \<and>
    (service (cleanGbifName name) = Some m \<and> matchType m = Some t \<and> t \<noteq> [] \<and> t \<noteq> U ''NONE''
       \<and> speciesKey m = Some k \<and> k \<noteq> 0 \<longrightarrow>
       (80 \<le> confidenceOf m \<longrightarrow>
          processPlantEntity dryRun service entity =
            \<lparr>status = Linked k m (confidenceOf m), queried = [cleanGbifName name],
             written = (if dryRun then None else Some e')\<rparr>)
       \<and> (confidenceOf m < 80 \<longrightarrow>
          processPlantEntity dryRun service entity =
            \<lparr>status = LowConfidence m (confidenceOf m), queried = [cleanGbifName name],
             written = None\<rparr>))
    \<and> (usableMatch (service (cleanGbifName name)) = None \<and> cleanGbifName name \<noteq> name
       \<and> service name = Some m \<and> matchType m = Some t \<and> t \<noteq> [] \<and> t \<noteq> U ''NONE''
       \<and> speciesKey m = Some k \<and> k \<noteq> 0 \<longrightarrow>
       (80 \<le> confidenceOf m \<longrightarrow>
          processPlantEntity dryRun service entity =
            \<lparr>status = Linked k m (confidenceOf m), queried = [cleanGbifName name, name],
             written = (if dryRun then None else Some e')\<rparr>)
       \<and> (confidenceOf m < 80 \<longrightarrow>
          written (processPlantEntity dryRun service entity) = None
          \<and> queried (processPlantEntity dryRun service entity) = [cleanGbifName name, name]
          \<and> (\<forall>k' m' c'. status (processPlantEntity dryRun service entity) \<noteq> Linked k' m' c')))"
proof -
  have "JNull \<notin> set (currentLinks entity)"
    using assms(1) by (rule hasGbifLink_False_no_null)
  then obtain e' where e': "addGbifLink entity k = Inr e'"
    using addGbifLink_total by blast
  have t: "truthy (get entity ''scientificName'')"
    using assms(2,3) by simp
  have first: "processPlantEntity dryRun service entity =
      (if 80 \<le> confidenceOf m
       then \<lparr>status = Linked k m (confidenceOf m), queried = [cleanGbifName name],
             written = (if dryRun then None else Some e')\<rparr>
       else \<lparr>status = LowConfidence m (confidenceOf m), queried = [cleanGbifName name],
             written = None\<rparr>)"
    if "service (cleanGbifName name) = Some m" "matchType m = Some t" "t \<noteq> []" "t \<noteq> U ''NONE''"
       "speciesKey m = Some k" "k \<noteq> 0"
  proof -
    have u: "usableMatch (service (cleanGbifName name)) = Some (m, k)"
      using that by (simp add: usableMatch_iff)
    show ?thesis
      by (simp add: processPlantEntity_def assms t Let_def u acceptMatch_result [OF e'])
  qed
  have second: "processPlantEntity dryRun service entity =
      (if 80 \<le> confidenceOf m
       then \<lparr>status = Linked k m (confidenceOf m), queried = [cleanGbifName name, name],
             written = (if dryRun then None else Some e')\<rparr>
       else \<lparr>status = NotFound [cleanGbifName name, name],
             queried = [cleanGbifName name, name], written = None\<rparr>)"
    if "usableMatch (service (cleanGbifName name)) = None" "cleanGbifName name \<noteq> name"
       "service name = Some m" "matchType m = Some t" "t \<noteq> []" "t \<noteq> U ''NONE''"
       "speciesKey m = Some k" "k \<noteq> 0"
  proof -
    have u: "usableMatch (service name) = Some (m, k)"
      using that by (simp add: usableMatch_iff)
    show ?thesis
      using that(1,2)
      by (simp add: processPlantEntity_def assms t Let_def u acceptMatch_result [OF e'])
  qed
  from e' first second show ?thesis
    by (intro exI [of _ e']) auto
qed


lemmas ev_str = split_def splitFirst_def splitFrom.simps join.simps trim_def isSpace_def
  dropWhile.simps rev.simps append.simps prefix_code drop_0 drop_Suc_Cons

lemma ginger_name: "U ''Zingiber officinale'' =
  [90, 105, 110, 103, 105, 98, 101, 114, 32, 111, 102, 102, 105, 99, 105, 110, 97, 108, 101]"
  by (simp only: ev_U)

lemma ginger_clean: "cleanGbifName (U ''Zingiber officinale'') = U ''Zingiber officinale''"
  unfolding cleanGbifName_def ginger_name
  by (simp only: ev_U ev_base ev_str cong: if_weak_cong)

lemma gingerEntity_unlinked: "hasGbifLink gingerEntity = Inr False"
  by (simp add: hasGbifLink_def gingerEntity_def get_def)

lemma mint_name: "U ''Mentha spicata L.'' =
  [77, 101, 110, 116, 104, 97, 32, 115, 112, 105, 99, 97, 116, 97, 32, 76, 46]"
  by (simp only: ev_U)

lemma mint_clean: "cleanGbifName (U ''Mentha spicata L.'') = U ''Mentha spicata''"
  unfolding cleanGbifName_def mint_name
  by (simp only: ev_U ev_base ev_str cong: if_weak_cong)

lemma mintEntity_unlinked: "hasGbifLink mintEntity = Inr False"
  by (simp add: hasGbifLink_def mintEntity_def get_def)

text \<open>
  The theorem on an entity answered with a fuzzy match of confidence 80, and of
  confidence 79; and on an entity whose name is found only when the original name is
  retried, again with confidence 80 and 79.
\<close>

theorem confidence_threshold_witness:
  "processPlantEntity False (fuzzyService 80) gingerEntity =
     \<lparr>status = Linked 2757280 (fuzzyMatch 80) 80,
      queried = [U ''Zingiber officinale''],
      written = Some [(''scientificName'', JStr (U ''Zingiber officinale'')),
                      (''sameAs'', JArr [JObj [(''@id'', JStr (gbifUrl 2757280))]]),
                      (''gbifId'', JNum 2757280)]\<rparr>
   \<and> processPlantEntity False (fuzzyService 79) gingerEntity =
     \<lparr>status = LowConfidence (fuzzyMatch 79) 79,
      queried = [U ''Zingiber officinale''], written = None\<rparr>
   \<and> processPlantEntity False (retryService 80) mintEntity =
     \<lparr>status = Linked 2757280 (fuzzyMatch 80) 80,
      queried = [U ''Mentha spicata'', U ''Mentha spicata L.''],
      written = Some [(''scientificName'', JStr (U ''Mentha spicata L.'')),
                      (''sameAs'', JArr [JObj [(''@id'', JStr (gbifUrl 2757280))]]),
                      (''gbifId'', JNum 2757280)]\<rparr>
   \<and> written (processPlantEntity False (retryService 79) mintEntity) = None
   \<and> queried (processPlantEntity False (retryService 79) mintEntity)
       = [U ''Mentha spicata'', U ''Mentha spicata L.'']"
proof -
  have n: "get gingerEntity ''scientificName'' = JStr (U ''Zingiber officinale'')"
    by (simp add: gingerEntity_def get_def)
  have ne: "U ''Zingiber officinale'' \<noteq> []"
    by (simp add: U_def)
  have tne: "U ''FUZZY'' \<noteq> U ''NONE''"
    by (simp add: U_def)
  have a: "addGbifLink gingerEntity 2757280 =
      Inr [(''scientificName'', JStr (U ''Zingiber officinale'')),
           (''sameAs'', JArr [JObj [(''@id'', JStr (gbifUrl 2757280))]]),
           (''gbifId'', JNum 2757280)]"
    by (simp add: addGbifLink_def pushLink_def gingerEntity_def get_def setProp_def)
  note T80 = confidence_threshold [OF gingerEntity_unlinked n ne, where k = 2757280
      and service = "fuzzyService 80" and dryRun = False and t = "U ''FUZZY''"
      and m = "fuzzyMatch 80"]
  note T79 = confidence_threshold [OF gingerEntity_unlinked n ne, where k = 2757280
      and service = "fuzzyService 79" and dryRun = False and t = "U ''FUZZY''"
      and m = "fuzzyMatch 79"]
  have g80: "processPlantEntity False (fuzzyService 80) gingerEntity =
     \<lparr>status = Linked 2757280 (fuzzyMatch 80) 80,
      queried = [U ''Zingiber officinale''],
      written = Some [(''scientificName'', JStr (U ''Zingiber officinale'')),
                      (''sameAs'', JArr [JObj [(''@id'', JStr (gbifUrl 2757280))]]),
                      (''gbifId'', JNum 2757280)]\<rparr>"
    using T80 a tne by (simp add: ginger_clean fuzzyService_def fuzzyMatch_def confidenceOf_def U_eq_Nil)
  have g79: "processPlantEntity False (fuzzyService 79) gingerEntity =
     \<lparr>status = LowConfidence (fuzzyMatch 79) 79,
      queried = [U ''Zingiber officinale''], written = None\<rparr>"
    using T79 tne by (simp add: ginger_clean fuzzyService_def fuzzyMatch_def confidenceOf_def U_eq_Nil)
  have mn: "get mintEntity ''scientificName'' = JStr (U ''Mentha spicata L.'')"
    by (simp add: mintEntity_def get_def)
  have mne: "U ''Mentha spicata L.'' \<noteq> []"
    by (simp add: U_def)
  have md: "U ''Mentha spicata'' \<noteq> U ''Mentha spicata L.''"
    by (simp add: U_inj)
  have ma: "addGbifLink mintEntity 2757280 =
      Inr [(''scientificName'', JStr (U ''Mentha spicata L.'')),
           (''sameAs'', JArr [JObj [(''@id'', JStr (gbifUrl 2757280))]]),
           (''gbifId'', JNum 2757280)]"
    by (simp add: addGbifLink_def pushLink_def mintEntity_def get_def setProp_def)
  have u: "usableMatch (retryService c (U ''Mentha spicata'')) = None" for c
    using md by (simp add: retryService_def usableMatch_def)
  note R80 = confidence_threshold [OF mintEntity_unlinked mn mne, where k = 2757280
      and service = "retryService 80" and dryRun = False and t = "U ''FUZZY''"
      and m = "fuzzyMatch 80"]
  note R79 = confidence_threshold [OF mintEntity_unlinked mn mne, where k = 2757280
      and service = "retryService 79" and dryRun = False and t = "U ''FUZZY''"
      and m = "fuzzyMatch 79"]
  have r80: "processPlantEntity False (retryService 80) mintEntity =
     \<lparr>status = Linked 2757280 (fuzzyMatch 80) 80,
      queried = [U ''Mentha spicata'', U ''Mentha spicata L.''],
      written = Some [(''scientificName'', JStr (U ''Mentha spicata L.'')),
                      (''sameAs'', JArr [JObj [(''@id'', JStr (gbifUrl 2757280))]]),
                      (''gbifId'', JNum 2757280)]\<rparr>"
    using R80 ma tne md u
    by (simp add: mint_clean retryService_def fuzzyMatch_def confidenceOf_def U_eq_Nil)
  have r79: "written (processPlantEntity False (retryService 79) mintEntity) = None
     \<and> queried (processPlantEntity False (retryService 79) mintEntity)
       = [U ''Mentha spicata'', U ''Mentha spicata L.'']"
    using R79 tne md u
    by (simp add: mint_clean retryService_def fuzzyMatch_def confidenceOf_def U_eq_Nil)
  from g80 g79 r80 r79 show ?thesis
    by simp
qed

text \<open>
  A response whose match type is the non-empty text \<open>NONE\<close>, with a species key and
  confidence 90: the link is not applied and the result is \<open>not_found\<close>.
\<close>

theorem confidence_threshold_counterexample:
  "matchType noneMatch = Some (U ''NONE'')
   \<and> U ''NONE'' \<noteq> []
   \<and> speciesKey noneMatch = Some 2757280
   \<and> confidence noneMatch = Some 90
   \<and> processPlantEntity False noneService gingerEntity =
       \<lparr>status = NotFound [U ''Zingiber officinale'', U ''Zingiber officinale''],
        queried = [U ''Zingiber officinale''], written = None\<rparr>"
proof -
  have n: "get gingerEntity ''scientificName'' = JStr (U ''Zingiber officinale'')"
    by (simp add: gingerEntity_def get_def)
  show ?thesis
    by (simp add: processPlantEntity_def gingerEntity_unlinked n Let_def
        ginger_clean noneService_def noneMatch_def usableMatch_def U_eq_Nil)
qed

subsection \<open>Index builder: plants, profiles and an orphaned profile\<close>

lemma length_filter_card:
  "distinct xs \<Longrightarrow> length (filter P xs) = card {x \<in> set xs. P x}"
  by (metis distinct_card distinct_filter set_filter)

lemma count_matching:
  assumes "distinct (map f xs)" and "distinct ys"
  shows "length (filter (\<lambda>x. f x \<in> set ys) xs) = length (filter (\<lambda>y. y \<in> f ` set xs) ys)"
proof -
  have dx: "distinct xs" and inj: "inj_on f (set xs)"
    using assms(1) by (auto simp: distinct_map)
  have "length (filter (\<lambda>x. f x \<in> set ys) xs) = card {x \<in> set xs. f x \<in> set ys}"
    using dx by (rule length_filter_card)
  also have "\<dots> = card (f ` {x \<in> set xs. f x \<in> set ys})"
    by (rule card_image [symmetric]) (rule inj_on_subset [OF inj], auto)
  also have "f ` {x \<in> set xs. f x \<in> set ys} = {y \<in> set ys. y \<in> f ` set xs}"
    by auto
  also have "card {y \<in> set ys. y \<in> f ` set xs} = length (filter (\<lambda>y. y \<in> f ` set xs) ys)"
    using assms(2) by (rule length_filter_card [symmetric])
  finally show ?thesis .
qed

lemma merged_entries:
  "fst (buildMergedIndex plants tcmHerbs) =
     map (herbEntry plants) tcmHerbs
     @ map plantEntry (filter (\<lambda>p. Some (pSlug p) \<notin> set (map tPlantSlug tcmHerbs)) plants)"
  by (simp add: buildMergedIndex_def Let_def)

lemma herbEntry_type: "mType (herbEntry plants t) = TypeHerb"
  by (simp add: herbEntry_def Let_def)

lemma plantEntry_type: "mType (plantEntry p) = TypePlant"
  by (simp add: plantEntry_def)

lemma merged_herbs:
  "filter (\<lambda>e. mType e = TypeHerb) (fst (buildMergedIndex plants tcmHerbs)) =
     map (herbEntry plants) tcmHerbs"
  by (simp add: merged_entries filter_map o_def herbEntry_type plantEntry_type)

lemma merged_plants:
  "filter (\<lambda>e. mType e = TypePlant) (fst (buildMergedIndex plants tcmHerbs)) =
     map plantEntry (filter (\<lambda>p. Some (pSlug p) \<notin> set (map tPlantSlug tcmHerbs)) plants)"
  by (simp add: merged_entries filter_map o_def herbEntry_type plantEntry_type)

lemma unreferenced_count:
  assumes "distinct (map pSlug plants)" and "distinct (map tPlantSlug tcmHerbs)"
  shows "length (filter (\<lambda>p. Some (pSlug p) \<notin> set (map tPlantSlug tcmHerbs)) plants)
         + length (filter (\<lambda>t. tPlantSlug t \<in> Some ` pSlug ` set plants) tcmHerbs)
         = length plants"
proof -
  have d: "distinct (map (\<lambda>p. Some (pSlug p)) plants)"
    using assms(1) by (simp add: distinct_map inj_on_def)
  have "length (filter (\<lambda>p. Some (pSlug p) \<in> set (map tPlantSlug tcmHerbs)) plants)
      = length (filter (\<lambda>r. r \<in> (\<lambda>p. Some (pSlug p)) ` set plants) (map tPlantSlug tcmHerbs))"
    using d assms(2) by (rule count_matching)
  also have "\<dots> = length (filter (\<lambda>t. tPlantSlug t \<in> Some ` pSlug ` set plants) tcmHerbs)"
    by (simp add: filter_map o_def image_image)
  finally have "length (filter (\<lambda>p. Some (pSlug p) \<in> set (map tPlantSlug tcmHerbs)) plants)
      = length (filter (\<lambda>t. tPlantSlug t \<in> Some ` pSlug ` set plants) tcmHerbs)" .
  moreover have "length (filter (\<lambda>p. Some (pSlug p) \<in> set (map tPlantSlug tcmHerbs)) plants)
      + length (filter (\<lambda>p. Some (pSlug p) \<notin> set (map tPlantSlug tcmHerbs)) plants)
      = length plants"
    using sum_length_filter_compl [of "\<lambda>p. Some (pSlug p) \<in> set (map tPlantSlug tcmHerbs)" plants]
    by simp
  ultimately show ?thesis by simp
qed

lemma orphan_entry:
  assumes "tPlantSlug t \<notin> Some ` pSlug ` set plants"
  shows "plantMapGet plants (tPlantSlug t) = None"
  using assms
  by (auto simp: plantMapGet_def find_None_iff split: option.splits)

lemma filter_same_key:
  "distinct (map f xs) \<Longrightarrow> x \<in> set xs \<Longrightarrow> filter (\<lambda>y. f y = f x) xs = [x]"
  by (induction xs) (auto simp add: filter_empty_conv rev_image_eqI)

lemma find_append':
  "find P (xs @ ys) = (case find P xs of None \<Rightarrow> find P ys | Some x \<Rightarrow> Some x)"
  by (induction xs) simp_all

lemma plantMapGet_found:
  assumes "distinct (map pSlug plants)" and "p \<in> set plants"
  shows "plantMapGet plants (Some (pSlug p)) = Some p"
proof -
  have "find (\<lambda>q. pSlug q = pSlug p) (rev plants) = Some p"
    using assms
  proof (induction plants)
    case Nil
    then show ?case by simp
  next
    case (Cons a plants)
    show ?case
    proof (cases "p \<in> set plants")
      case True
      with Cons show ?thesis
        by (simp add: find_append')
    next
      case False
      with Cons.prems have pa: "p = a"
        by simp
      have "find (\<lambda>q. pSlug q = pSlug a) (rev plants) = None"
        using Cons.prems(1) by (auto simp add: find_None_iff) (metis imageI)
      with pa show ?thesis
        by (simp add: find_append')
    qed
  qed
  then show ?thesis
    by (simp add: plantMapGet_def)
qed

lemma herbEntry_slug: "mSlug (herbEntry plants t) = tPlantSlug t"
  by (simp add: herbEntry_def Let_def)

lemma plantEntry_slug: "mSlug (plantEntry p) = Some (pSlug p)"
  by (simp add: plantEntry_def)

lemma orphan_once:
  assumes "distinct (map tPlantSlug tcmHerbs)" and "t \<in> set tcmHerbs"
    and "tPlantSlug t \<notin> Some ` pSlug ` set plants"
  shows "filter (\<lambda>e. mSlug e = tPlantSlug t) (fst (buildMergedIndex plants tcmHerbs))
    = [herbEntry plants t]"
proof -
  have "filter (\<lambda>e. mSlug e = tPlantSlug t) (map (herbEntry plants) tcmHerbs)
      = map (herbEntry plants) (filter (\<lambda>y. tPlantSlug y = tPlantSlug t) tcmHerbs)"
    by (simp add: filter_map o_def herbEntry_slug)
  also have "\<dots> = [herbEntry plants t]"
    by (simp add: filter_same_key [OF assms(1,2)])
  finally have a: "filter (\<lambda>e. mSlug e = tPlantSlug t) (map (herbEntry plants) tcmHerbs)
      = [herbEntry plants t]" .
  have b: "filter (\<lambda>e. mSlug e = tPlantSlug t) (map plantEntry ps) = []"
    if "set ps \<subseteq> set plants" for ps
  proof -
    have "Some (pSlug x) \<noteq> tPlantSlug t" if "x \<in> set ps" for x
      using that \<open>set ps \<subseteq> set plants\<close> assms(3) by (metis image_eqI subsetD)
    then show ?thesis
      by (simp add: filter_empty_conv plantEntry_slug)
  qed
  show ?thesis
    unfolding merged_entries filter_append a
    by (simp add: b)
qed

text \<open>
  C3 (as amended). For ten plants with distinct slugs and six profiles with distinct
  plant references, five of which are slugs of the plants: the merged index is the six
  entries of type \<open>herb\<close>, one for every profile in the order of the profiles, followed
  by the five entries of type \<open>plant\<close>, one for every plant that no profile references;
  eleven entries in all. The profile whose reference is not a plant has its entry among
  the six, and it is the only entry of the index under that slug: it carries the dangling
  reference as slug, the profile's own name, and no plant data. The entry of a profile
  whose reference is a plant carries the plant's data.
\<close>

theorem merged_index_scenario:
  assumes "length plants = 10" and "distinct (map pSlug plants)"
    and "length tcmHerbs = 6" and "distinct (map tPlantSlug tcmHerbs)"
    and "length (filter (\<lambda>t. tPlantSlug t \<in> Some ` pSlug ` set plants) tcmHerbs) = 5"
  shows "fst (buildMergedIndex plants tcmHerbs) =
      map (herbEntry plants) tcmHerbs
      @ map plantEntry (filter (\<lambda>p. Some (pSlug p) \<notin> set (map tPlantSlug tcmHerbs)) plants)
    \<and> length (fst (buildMergedIndex plants tcmHerbs)) = 11
    \<and> filter (\<lambda>e. mType e = TypeHerb) (fst (buildMergedIndex plants tcmHerbs))
        = map (herbEntry plants) tcmHerbs
    \<and> length (map (herbEntry plants) tcmHerbs) = 6
    \<and> filter (\<lambda>e. mType e = TypePlant) (fst (buildMergedIndex plants tcmHerbs))
        = map plantEntry
            (filter (\<lambda>p. Some (pSlug p) \<notin> set (map tPlantSlug tcmHerbs)) plants)
    \<and> length (filter (\<lambda>p. Some (pSlug p) \<notin> set (map tPlantSlug tcmHerbs)) plants) = 5
    \<and> (\<forall>t \<in> set tcmHerbs. tPlantSlug t \<notin> Some ` pSlug ` set plants \<longrightarrow>
          filter (\<lambda>e. mSlug e = tPlantSlug t) (fst (buildMergedIndex plants tcmHerbs))
            = [herbEntry plants t]
          \<and> herbEntry plants t =
              \<lparr>mSlug = tPlantSlug t, mTcmSlug = Some (tSlug t), mCategory = tCategory t,
               mType = TypeHerb, mName = tName t, mCommonName = JObj [],
               mScientificName = JNull, mFamily = JNull, mPinyin = tPinyin t,
               mChineseName = tChineseName t, mHasNature = tHasNature t,
               mHasFlavor = tHasFlavor t, mEntersMeridian = tEntersMeridian t,
               mImage = JNull\<rparr>)
    \<and> (\<forall>t \<in> set tcmHerbs. \<forall>p \<in> set plants. tPlantSlug t = Some (pSlug p) \<longrightarrow>
          herbEntry plants t =
              \<lparr>mSlug = Some (pSlug p), mTcmSlug = Some (tSlug t), mCategory = tCategory t,
               mType = TypeHerb, mName = jsOr (pName p) (tName t),
               mCommonName = jsOr (pCommonName p) (JObj []),
               mScientificName = jsOr (pScientificName p) JNull,
               mFamily = jsOr (pFamily p) JNull, mPinyin = tPinyin t,
               mChineseName = tChineseName t, mHasNature = tHasNature t,
               mHasFlavor = tHasFlavor t, mEntersMeridian = tEntersMeridian t,
               mImage = jsOr (pImage p) JNull\<rparr>)"
proof -
  have rest: "length (filter (\<lambda>p. Some (pSlug p) \<notin> set (map tPlantSlug tcmHerbs)) plants) = 5"
    using unreferenced_count [OF assms(2,4)] assms(1,5) by simp
  have a: "length (fst (buildMergedIndex plants tcmHerbs)) = 11"
    by (simp only: merged_entries length_append length_map rest assms(3))
  have b: "length (map (herbEntry plants) tcmHerbs) = 6"
    by (simp add: assms(3))
  have d: "filter (\<lambda>e. mSlug e = tPlantSlug t) (fst (buildMergedIndex plants tcmHerbs))
            = [herbEntry plants t]
          \<and> herbEntry plants t =
              \<lparr>mSlug = tPlantSlug t, mTcmSlug = Some (tSlug t), mCategory = tCategory t,
               mType = TypeHerb, mName = tName t, mCommonName = JObj [],
               mScientificName = JNull, mFamily = JNull, mPinyin = tPinyin t,
               mChineseName = tChineseName t, mHasNature = tHasNature t,
               mHasFlavor = tHasFlavor t, mEntersMeridian = tEntersMeridian t,
               mImage = JNull\<rparr>"
    if "t \<in> set tcmHerbs" "tPlantSlug t \<notin> Some ` pSlug ` set plants" for t
  proof -
    have m: "filter (\<lambda>e. mSlug e = tPlantSlug t) (fst (buildMergedIndex plants tcmHerbs))
            = [herbEntry plants t]"
      using assms(4) that by (rule orphan_once)
    have "herbEntry plants t =
              \<lparr>mSlug = tPlantSlug t, mTcmSlug = Some (tSlug t), mCategory = tCategory t,
               mType = TypeHerb, mName = tName t, mCommonName = JObj [],
               mScientificName = JNull, mFamily = JNull, mPinyin = tPinyin t,
               mChineseName = tChineseName t, mHasNature = tHasNature t,
               mHasFlavor = tHasFlavor t, mEntersMeridian = tEntersMeridian t,
               mImage = JNull\<rparr>"
      using orphan_entry [OF that(2)] by (simp add: herbEntry_def plantField_def)
    with m show ?thesis by blast
  qed
  have e: "herbEntry plants t =
              \<lparr>mSlug = Some (pSlug p), mTcmSlug = Some (tSlug t), mCategory = tCategory t,
               mType = TypeHerb, mName = jsOr (pName p) (tName t),
               mCommonName = jsOr (pCommonName p) (JObj []),
               mScientificName = jsOr (pScientificName p) JNull,
               mFamily = jsOr (pFamily p) JNull, mPinyin = tPinyin t,
               mChineseName = tChineseName t, mHasNature = tHasNature t,
               mHasFlavor = tHasFlavor t, mEntersMeridian = tEntersMeridian t,
               mImage = jsOr (pImage p) JNull\<rparr>"
    if "p \<in> set plants" "tPlantSlug t = Some (pSlug p)" for t p
    using plantMapGet_found [OF assms(2) that(1)] that(2)
    by (simp add: herbEntry_def plantField_def)
  show ?thesis
    using merged_entries [of plants tcmHerbs] merged_herbs [of plants tcmHerbs]
      merged_plants [of plants tcmHerbs] a b rest d e
    by blast
qed

lemma example_slugs:
  "map pSlug examplePlants = map U [''p0'', ''p1'', ''p2'', ''p3'', ''p4'', ''p5'', ''p6'', ''p7'', ''p8'', ''p9'']"
  "map tPlantSlug exampleProfiles = map (Some \<circ> U) [''p0'', ''p1'', ''p2'', ''p3'', ''p4'', ''ghost'']"
  by (simp_all add: examplePlants_def examplePlant_def exampleProfiles_def exampleProfile_def)

lemma h4: "distinct (map tPlantSlug exampleProfiles)"
    unfolding example_slugs by (simp add: U_inj)

lemma h5a: "Some ` pSlug ` set examplePlants = set (map (Some \<circ> U)
      [''p0'', ''p1'', ''p2'', ''p3'', ''p4'', ''p5'', ''p6'', ''p7'', ''p8'', ''p9''])"
proof -
  have "Some ` pSlug ` set examplePlants = set (map Some (map pSlug examplePlants))"
    by (simp only: set_map)
  then show ?thesis
    by (simp only: example_slugs map_map)
qed


lemma h5: "length (filter (\<lambda>t. tPlantSlug t \<in> Some ` pSlug ` set examplePlants) exampleProfiles) = 5"
  unfolding h5a
  by (simp add: exampleProfiles_def exampleProfile_def U_inj)


lemma example_hyps:
  "length examplePlants = 10"
  "distinct (map pSlug examplePlants)"
  "length exampleProfiles = 6"
  "distinct (map tPlantSlug exampleProfiles)"
  "length (filter (\<lambda>t. tPlantSlug t \<in> Some ` pSlug ` set examplePlants) exampleProfiles) = 5"
proof -
  show "length examplePlants = 10" by (simp add: examplePlants_def)
  show "distinct (map pSlug examplePlants)"
    unfolding example_slugs by (simp add: U_inj)
  show "length exampleProfiles = 6" by (simp add: exampleProfiles_def)
  show "distinct (map tPlantSlug exampleProfiles)" by (rule h4)
  show "length (filter (\<lambda>t. tPlantSlug t \<in> Some ` pSlug ` set examplePlants) exampleProfiles) = 5"
    by (rule h5)
qed

text \<open>
  The theorem on the example corpus; the orphaned profile is the one under the slug
  \<open>ghost\<close>.
\<close>

theorem merged_index_witness:
  "length examplePlants = 10 \<and> length exampleProfiles = 6
   \<and> length (fst (buildMergedIndex examplePlants exampleProfiles)) = 11
   \<and> filter (\<lambda>e. mType e = TypeHerb) (fst (buildMergedIndex examplePlants exampleProfiles))
       = map (herbEntry examplePlants) exampleProfiles
   \<and> length (map (herbEntry examplePlants) exampleProfiles) = 6
   \<and> length (filter (\<lambda>e. mType e = TypePlant) (fst (buildMergedIndex examplePlants exampleProfiles))) = 5
   \<and> filter (\<lambda>e. mSlug e = Some (U ''ghost'')) (fst (buildMergedIndex examplePlants exampleProfiles))
       = [herbEntry examplePlants (exampleProfile ''t5'' ''ghost'')]"
proof -
  note T = merged_index_scenario [OF example_hyps]
  have g: "exampleProfile ''t5'' ''ghost'' \<in> set exampleProfiles"
    by (simp add: exampleProfiles_def)
  have s: "tPlantSlug (exampleProfile ''t5'' ''ghost'') = Some (U ''ghost'')"
    by (simp add: exampleProfile_def)
  have o: "tPlantSlug (exampleProfile ''t5'' ''ghost'') \<notin> Some ` pSlug ` set examplePlants"
    unfolding h5a s by (simp add: U_inj)
  from T g o have "filter (\<lambda>e. mSlug e = tPlantSlug (exampleProfile ''t5'' ''ghost''))
        (fst (buildMergedIndex examplePlants exampleProfiles))
       = [herbEntry examplePlants (exampleProfile ''t5'' ''ghost'')]"
    by blast
  then have once: "filter (\<lambda>e. mSlug e = Some (U ''ghost''))
        (fst (buildMergedIndex examplePlants exampleProfiles))
       = [herbEntry examplePlants (exampleProfile ''t5'' ''ghost'')]"
    unfolding s .
  from T have p1: "filter (\<lambda>e. mType e = TypePlant)
        (fst (buildMergedIndex examplePlants exampleProfiles))
      = map plantEntry (filter (\<lambda>p. Some (pSlug p) \<notin> set (map tPlantSlug exampleProfiles))
          examplePlants)"
    by blast
  from T have p2: "length (filter (\<lambda>p. Some (pSlug p) \<notin> set (map tPlantSlug exampleProfiles))
          examplePlants) = 5"
    by blast
  have plants: "length (filter (\<lambda>e. mType e = TypePlant)
      (fst (buildMergedIndex examplePlants exampleProfiles))) = 5"
    unfolding p1 length_map by (rule p2)
  from T have herbs: "filter (\<lambda>e. mType e = TypeHerb)
        (fst (buildMergedIndex examplePlants exampleProfiles))
      = map (herbEntry examplePlants) exampleProfiles"
    by blast
  from T have total: "length (fst (buildMergedIndex examplePlants exampleProfiles)) = 11"
    by blast
  from T have six: "length (map (herbEntry examplePlants) exampleProfiles) = 6"
    by blast
  from example_hyps(1,3) total herbs six plants once show ?thesis
    by blast
qed

text \<open>
  On the example corpus the merged index has eleven entries and not ten: six of type
  \<open>herb\<close>, the sixth being the orphaned profile under the slug \<open>ghost\<close>.
\<close>

theorem merged_index_counterexample:
  "map mType (fst (buildMergedIndex examplePlants exampleProfiles)) =
     [TypeHerb, TypeHerb, TypeHerb, TypeHerb, TypeHerb, TypeHerb,
      TypePlant, TypePlant, TypePlant, TypePlant, TypePlant]
   \<and> map mSlug (fst (buildMergedIndex examplePlants exampleProfiles)) =
     map (Some \<circ> U) [''p0'', ''p1'', ''p2'', ''p3'', ''p4'', ''ghost'',
                       ''p5'', ''p6'', ''p7'', ''p8'', ''p9'']
   \<and> length (fst (buildMergedIndex examplePlants exampleProfiles)) \<noteq> 10"
proof -
  have r: "filter (\<lambda>p. Some (pSlug p) \<notin> set (map tPlantSlug exampleProfiles)) examplePlants
      = map examplePlant [''p5'', ''p6'', ''p7'', ''p8'', ''p9'']"
    unfolding example_slugs(2)
    by (simp add: examplePlants_def examplePlant_def U_inj)
  have m: "fst (buildMergedIndex examplePlants exampleProfiles) =
      map (herbEntry examplePlants) exampleProfiles
      @ map plantEntry (map examplePlant [''p5'', ''p6'', ''p7'', ''p8'', ''p9''])"
    by (simp only: merged_entries r)
  show ?thesis
    unfolding m
    by (simp add: herbEntry_def Let_def plantEntry_def exampleProfiles_def exampleProfile_def
        examplePlant_def)
qed

subsection \<open>Name normalizer\<close>

lemma gsub_shrinking:
  assumes "\<And>s rest. matchAt s = Some rest \<Longrightarrow> length rest < length s"
  shows "gsub matchAt rep [] = []"
    and "gsub matchAt rep (c # cs) =
      (case matchAt (c # cs) of
         Some rest \<Rightarrow> rep @ gsub matchAt rep rest
       | None \<Rightarrow> c # gsub matchAt rep cs)"
proof -
  have "matchAt [] = None"
    using assms [of "[]"] by (cases "matchAt []") auto
  then show "gsub matchAt rep [] = []" by simp
  show "gsub matchAt rep (c # cs) =
      (case matchAt (c # cs) of
         Some rest \<Rightarrow> rep @ gsub matchAt rep rest
       | None \<Rightarrow> c # gsub matchAt rep cs)"
    using assms [of "c # cs"] by (auto split: option.splits)
qed

lemma length_dropWhile_le': "length (dropWhile P xs) \<le> length xs"
  by (induction xs) auto

lemma matchCitation_shrinks:
  assumes "lit \<noteq> []" and "matchCitation lit s = Some rest"
  shows "length rest < length s"
proof -
  define r where "r = dropWhile isSpace s"
  from assms(2) have p: "prefix lit r" and rest: "rest = dropWhile isSpace (drop (length lit) r)"
    by (auto simp: matchCitation_def Let_def r_def split: if_splits)
  from p assms(1) have "length lit \<le> length r" "0 < length lit"
    by (auto simp: prefix_length_le)
  then have "length (drop (length lit) r) < length r"
    unfolding length_drop by linarith
  moreover have "length rest \<le> length (drop (length lit) r)"
    unfolding rest by (rule length_dropWhile_le')
  moreover have "length r \<le> length s"
    unfolding r_def by (rule length_dropWhile_le')
  ultimately show ?thesis by linarith
qed

lemma matchParenthesized_shrinks:
  assumes "matchParenthesized inside s = Some rest"
  shows "length rest < length s"
proof -
  from assms obtain r1 r2 where a: "dropWhile isSpace s = 40 # r1"
    and b: "dropWhile isCitationChar r1 = 41 # r2" and c: "rest = dropWhile isSpace r2"
    by (auto simp: matchParenthesized_def split: list.splits if_splits)
  have "length rest \<le> length r2"
    unfolding c by (rule length_dropWhile_le')
  moreover have "length (41 # r2) \<le> length r1"
    using length_dropWhile_le' [of isCitationChar r1] b by simp
  moreover have "length (40 # r1) \<le> length s"
    using length_dropWhile_le' [of isSpace s] a by simp
  ultimately show ?thesis by simp
qed

lemma matchSpaces_shrinks: "matchSpaces s = Some rest \<Longrightarrow> length rest < length s"
  using length_dropWhile_le' [of isSpace "tl s"]
  by (auto simp: matchSpaces_def split: list.splits if_splits)

lemma matchSpacesThen_shrinks: "matchSpacesThen ch s = Some rest \<Longrightarrow> length rest < length s"
proof -
  assume a: "matchSpacesThen ch s = Some rest"
  then obtain c cs where s: "s = c # cs" and d: "dropWhile isSpace cs = ch # rest"
    by (auto simp: matchSpacesThen_def split: list.splits if_splits)
  have "length (ch # rest) \<le> length cs"
    using length_dropWhile_le' [of isSpace cs] d by simp
  then show ?thesis by (simp add: s)
qed

lemma matchThenSpaces_shrinks: "matchThenSpaces ch s = Some rest \<Longrightarrow> length rest < length s"
proof -
  assume a: "matchThenSpaces ch s = Some rest"
  then obtain c d r where s: "s = c # d # r" and rest: "rest = dropWhile isSpace r"
    by (auto simp: matchThenSpaces_def split: list.splits if_splits)
  have "length rest \<le> length r"
    unfolding rest by (rule length_dropWhile_le')
  then show ?thesis by (simp add: s)
qed

lemma matchEmptyParens_shrinks: "matchEmptyParens s = Some rest \<Longrightarrow> length rest < length s"
proof -
  assume a: "matchEmptyParens s = Some rest"
  then obtain c cs where s: "s = c # cs" and d: "dropWhile isSpace cs = 41 # rest"
    by (auto simp: matchEmptyParens_def split: list.splits if_splits)
  have "length (41 # rest) \<le> length cs"
    using length_dropWhile_le' [of isSpace cs] d by simp
  then show ?thesis by (simp add: s)
qed

lemma gsub_citation:
  "gsub (matchCitation (l # ls)) rep [] = []"
  "gsub (matchCitation (l # ls)) rep (c # cs) =
      (case matchCitation (l # ls) (c # cs) of
         Some rest \<Rightarrow> rep @ gsub (matchCitation (l # ls)) rep rest
       | None \<Rightarrow> c # gsub (matchCitation (l # ls)) rep cs)"
proof -
  have sh: "\<And>s rest. matchCitation (l # ls) s = Some rest \<Longrightarrow> length rest < length s"
    by (rule matchCitation_shrinks) simp_all
  show "gsub (matchCitation (l # ls)) rep [] = []"
    using sh by (rule gsub_shrinking)
  show "gsub (matchCitation (l # ls)) rep (c # cs) =
      (case matchCitation (l # ls) (c # cs) of
         Some rest \<Rightarrow> rep @ gsub (matchCitation (l # ls)) rep rest
       | None \<Rightarrow> c # gsub (matchCitation (l # ls)) rep cs)"
    using sh by (rule gsub_shrinking)
qed

lemma gsub_paren:
  "gsub (matchParenthesized inside) rep [] = []"
  "gsub (matchParenthesized inside) rep (c # cs) =
      (case matchParenthesized inside (c # cs) of
         Some rest \<Rightarrow> rep @ gsub (matchParenthesized inside) rep rest
       | None \<Rightarrow> c # gsub (matchParenthesized inside) rep cs)"
  by (rule gsub_shrinking, erule matchParenthesized_shrinks)+

lemma gsub_spaces:
  "gsub matchSpaces rep [] = []"
  "gsub matchSpaces rep (c # cs) =
      (case matchSpaces (c # cs) of
         Some rest \<Rightarrow> rep @ gsub matchSpaces rep rest
       | None \<Rightarrow> c # gsub matchSpaces rep cs)"
  by (rule gsub_shrinking, erule matchSpaces_shrinks)+

lemma gsub_spacesThen:
  "gsub (matchSpacesThen ch) rep [] = []"
  "gsub (matchSpacesThen ch) rep (c # cs) =
      (case matchSpacesThen ch (c # cs) of
         Some rest \<Rightarrow> rep @ gsub (matchSpacesThen ch) rep rest
       | None \<Rightarrow> c # gsub (matchSpacesThen ch) rep cs)"
  by (rule gsub_shrinking, erule matchSpacesThen_shrinks)+

lemma gsub_thenSpaces:
  "gsub (matchThenSpaces ch) rep [] = []"
  "gsub (matchThenSpaces ch) rep (c # cs) =
      (case matchThenSpaces ch (c # cs) of
         Some rest \<Rightarrow> rep @ gsub (matchThenSpaces ch) rep rest
       | None \<Rightarrow> c # gsub (matchThenSpaces ch) rep cs)"
  by (rule gsub_shrinking, erule matchThenSpaces_shrinks)+

lemma gsub_emptyParens:
  "gsub matchEmptyParens rep [] = []"
  "gsub matchEmptyParens rep (c # cs) =
      (case matchEmptyParens (c # cs) of
         Some rest \<Rightarrow> rep @ gsub matchEmptyParens rep rest
       | None \<Rightarrow> c # gsub matchEmptyParens rep cs)"
  by (rule gsub_shrinking, erule matchEmptyParens_shrinks)+

lemmas ev_norm = gsub_citation gsub_paren gsub_spaces gsub_spacesThen gsub_thenSpaces
  gsub_emptyParens matchCitation_def matchParenthesized_def matchSpaces_def
  matchSpacesThen_def matchThenSpaces_def matchEmptyParens_def Let_def
  isSpace_def isLetter_def isCitationChar_def exHere.simps exInside.simps
  replaceFirst.simps includes'.simps prefix_code list_ex_Nil_iff list_ex_Cons_iff
  dropWhile.simps takeWhile.simps trim_def rev.simps append.simps
  last.simps butlast.simps list.size drop_0 drop_Suc_Cons fold_simps o_apply id_apply
  fixScientificName_def applyTypos_def removeComplex_def removeCitations_def cleanUp_def
  dropTrailingPeriod_def TYPO_CORRECTIONS_def AUTHOR_CITATIONS_def SKIP_PATTERNS_def
  add_Suc_right plus_nat.add_0

text \<open>
  C8. The citation \<open>Ma\<close> is removed from inside the word \<open>Magnolia\<close>: the expression
  built for a citation is \<open>\s*Ma\s*\<close>, without the word boundaries that the comment
  above it announces.
\<close>

theorem fixScientificName_strips_inside_word:
  "fixScientificName (U ''Magnolia denudata'') =
     \<lparr>fixedName = U ''gnolia denudata'', nameSkipped = False\<rparr>"
  by (simp only: ev_U ev_base ev_norm cong: if_weak_cong)

text \<open>
  C7. \<open>Polygonum multiflorum Thunb.\<close> becomes \<open>Reynoutria multiflora\<close>, by the typo
  table. The clean name \<open>Ziziphus jujuba var. spinosa\<close> does not come back unchanged:
  the clean-up replaces a period followed by white space with a space, and \<open>var.\<close>
  loses its period. The same happens to the name that the typo table itself writes for
  \<open>Ziaiphus Jujube Mill. Var. Spinosa\<close>.
\<close>

theorem fixScientificName_examples:
  "fixScientificName (U ''Polygonum multiflorum Thunb.'') =
     \<lparr>fixedName = U ''Reynoutria multiflora'', nameSkipped = False\<rparr>
   \<and> fixScientificName (U ''Ziziphus jujuba var. spinosa'') =
     \<lparr>fixedName = U ''Ziziphus jujuba var spinosa'', nameSkipped = False\<rparr>
   \<and> fixScientificName (U ''Ziaiphus Jujube Mill. Var. Spinosa'') =
     \<lparr>fixedName = U ''Ziziphus jujuba var spinosa'', nameSkipped = False\<rparr>"
  by (simp only: ev_U ev_base ev_norm cong: if_weak_cong)

subsection \<open>The translation filler\<close>

lemma agni_unknown: "lookupTerm str (JStr (U ''Agni'')) = None"
  by (simp add: lookupTerm_def lookupKey_def AYURVEDA_TERMS_def inheritedNames_def U_inj)

lemma ayurveda_path:
  "\<not> pathMatches (U ''systems/ayurveda/concepts.jsonld'') (U ''/schema/'')"
  "\<not> pathMatches (U ''systems/ayurveda/concepts.jsonld'') (U ''/entities/plants/'')"
  "\<not> pathMatches (U ''systems/ayurveda/concepts.jsonld'') (U ''/systems/tcm/herbs/'')"
  "\<not> pathMatches (U ''systems/ayurveda/concepts.jsonld'') (U ''/systems/western/herbs/'')"
  "pathMatches (U ''systems/ayurveda/concepts.jsonld'') (U ''/systems/ayurveda/'')"
  "\<not> pathMatches (U ''systems/ayurveda/concepts.jsonld'') (U ''/dravyas/'')"
  by (simp_all only: pathMatches_def Let_def ev_U ev_base includes'.simps prefix_code
      cong: if_weak_cong)

text \<open>
  C4. A reference item of the Ayurveda files whose English label is not in
  \<open>AYURVEDA_TERMS\<close>, with a simplified label and no traditional one: the fallback branch of
  \<open>processAyurvedaReference\<close> tests only the traditional label and then assigns both, so
  the simplified label that was there is replaced by the English one. The branch for a
  known term tests each of the two labels before it assigns it.
\<close>

theorem filler_overwrites_simplified_label:
  "processFile str (U ''systems/ayurveda/concepts.jsonld'') agniReference =
     Inr ([(''@graph'', JArr [JObj [(''@id'', JStr (U ''ayurveda/agni'')),
             (''prefLabel'', JObj [(''en'', JStr (U ''Agni'')),
                                  (''zh-Hans'', JStr (U ''Agni'')),
                                  (''zh-Hant'', JStr (U ''Agni''))])]])],
          [U ''Added prefLabel zh for ayurveda/agni (fallback)''])"
proof -
  have "processAyurvedaReference str (U ''systems/ayurveda/concepts.jsonld'') agniReference =
     Inr ([(''@graph'', JArr [JObj [(''@id'', JStr (U ''ayurveda/agni'')),
             (''prefLabel'', JObj [(''en'', JStr (U ''Agni'')),
                                  (''zh-Hans'', JStr (U ''Agni'')),
                                  (''zh-Hant'', JStr (U ''Agni''))])]])],
          [U ''Added prefLabel zh for ayurveda/agni (fallback)''])"
    by (simp add: processAyurvedaReference_def agniReference_def get_def fillPrefLabel_def
        fillItemDescription_def langOf_def agni_unknown setField_def setProp_def U_eq_Nil
        textOf_def Let_def)
       (simp add: U_def)
  then show ?thesis
    by (simp add: processFile_def ayurveda_path)
qed


lemma ginger_path:
  "\<not> pathMatches (U ''entities/plants/ginger/entity.jsonld'') (U ''/schema/'')"
  "pathMatches (U ''entities/plants/ginger/entity.jsonld'') (U ''/entities/plants/'')"
  "suffix (U ''entity.jsonld'') (U ''entities/plants/ginger/entity.jsonld'')"
  by (simp_all only: pathMatches_def Let_def ev_U ev_base includes'.simps prefix_code
      suffix_to_prefix rev.simps append.simps cong: if_weak_cong)

lemma ginger_category:
  "detectCategory (U ''entities/plants/ginger/entity.jsonld'') (JObj [(''en'', JStr (U ''Ginger''))])
     JUndefined = Inr Cdefault"
  by (simp only: detectCategory_def lowerCaseValue_def toLowerCase_def Let_def ev_U ev_base ev_js
      includes'.simps prefix_code cong: if_weak_cong)

lemma G_unmapped: "map_of CHAR_MAP 71 = None"
  unfolding CHAR_MAP_def map_of_objectLiteral CHAR_MAP_source_def
  by (simp only: rev.simps append.simps map_of_Cons_code rel_simps simp_thms if_True if_False
      cong: if_weak_cong)

lemma generated_description:
  "processFile str (U ''entities/plants/ginger/entity.jsonld'') gingerDescribed =
     Inr ([(''name'', JObj [(''en'', JStr (U ''Ginger''))]),
           (''description'',
            JObj [(''en'', JStr (U ''A flowering plant'')),
                  (''zh-Hant'', JStr (template_default (U ''Ginger'') [])),
                  (''zh-Hans'', JStr (tradToSimp (template_default (U ''Ginger'') [])))])],
          [U ''Added description.zh-Hant'', U ''Added description.zh-Hans''])
   \<and> \<not> reviewMarker (template_default (U ''Ginger'') [])
   \<and> \<not> reviewMarker (tradToSimp (template_default (U ''Ginger'') []))"
proof -
  have n: "get gingerDescribed ''name'' = JObj [(''en'', JStr (U ''Ginger''))]"
    and d: "get gingerDescribed ''description'' = JObj [(''en'', JStr (U ''A flowering plant''))]"
    and s: "get gingerDescribed ''scientificName'' = JUndefined"
    and c: "get gingerDescribed ''commonName'' = JUndefined"
    by (simp_all add: gingerDescribed_def get_def)
  have g: "generateChineseDescription str gingerDescribed (U ''entities/plants/ginger/entity.jsonld'')
      = Inr (template_default (U ''Ginger'') [], tradToSimp (template_default (U ''Ginger'') []))"
    unfolding generateChineseDescription_def Let_def n s ginger_category
    by (simp add: get_def jsOr_def U_eq_Nil textOf_def)
  have f: "fillDescription str (U ''entities/plants/ginger/entity.jsonld'') (gingerDescribed, []) =
     Inr ([(''name'', JObj [(''en'', JStr (U ''Ginger''))]),
           (''description'',
            JObj [(''en'', JStr (U ''A flowering plant'')),
                  (''zh-Hant'', JStr (template_default (U ''Ginger'') [])),
                  (''zh-Hans'', JStr (tradToSimp (template_default (U ''Ginger'') [])))])],
          [U ''Added description.zh-Hant'', U ''Added description.zh-Hans''])"
    by (simp add: fillDescription_def Let_def langOf_def g [unfolded gingerDescribed_def]
        gingerDescribed_def get_def setField_def setProp_def U_eq_Nil)
  have p: "processPlantEntity_fill str (U ''entities/plants/ginger/entity.jsonld'') gingerDescribed =
     Inr ([(''name'', JObj [(''en'', JStr (U ''Ginger''))]),
           (''description'',
            JObj [(''en'', JStr (U ''A flowering plant'')),
                  (''zh-Hant'', JStr (template_default (U ''Ginger'') [])),
                  (''zh-Hans'', JStr (tradToSimp (template_default (U ''Ginger'') [])))])],
          [U ''Added description.zh-Hant'', U ''Added description.zh-Hans''])"
    unfolding processPlantEntity_fill_def f
    by (simp add: fillCommonName_def get_def)
  have h: "template_default (U ''Ginger'') [] = 71 # tl (template_default (U ''Ginger'') [])"
    by (simp add: template_default_def U_def)
  have m1: "\<not> reviewMarker (template_default (U ''Ginger'') [])"
    by (subst h) (simp add: reviewMarker_def)
  have "tradToSimp (template_default (U ''Ginger'') []) =
      substChar CHAR_MAP 71 # map (substChar CHAR_MAP) (tl (template_default (U ''Ginger'') []))"
    by (subst h) (simp add: tradToSimp_map)
  then have m2: "\<not> reviewMarker (tradToSimp (template_default (U ''Ginger'') []))"
    by (simp add: reviewMarker_def substChar_CHAR_MAP G_unmapped)
  from p m1 m2 show ?thesis
    by (simp add: processFile_def ginger_path)
qed


subsection \<open>Placeholders of the TCM profiles\<close>

lemma langOf_isObject: "truthy (langOf d f l) \<Longrightarrow> isObject (get d f)"
  by (cases "get d f") (simp_all add: langOf_def)

lemma get_setField:
  "get (setField d f l v) g =
     (if g = f then (case get d f of JObj kvs \<Rightarrow> JObj (setProp kvs l v) | other \<Rightarrow> other)
      else get d g)"
  by (cases "get d f") (simp_all add: setField_def get_setProp)

lemma langOf_setField:
  "isObject (get d f) \<Longrightarrow>
   langOf (setField d f l v) g m = (if g = f \<and> m = l then v else langOf d g m)"
  by (cases "get d f") (auto simp add: langOf_def get_setField get_setProp)

lemma isObject_setField: "isObject (get (setField d f l v) g) = isObject (get d g)"
  by (cases "get d f") (simp_all add: get_setField)

lemma reviewMarker_zh: "reviewMarker (zhPlaceholder s f)"
  by (simp add: reviewMarker_def zhPlaceholder_def)

lemma bracket_unmapped: "map_of CHAR_MAP 0x3010 = None"
  unfolding CHAR_MAP_def map_of_objectLiteral CHAR_MAP_source_def
  by (simp only: rev.simps append.simps map_of_Cons_code rel_simps simp_thms if_True if_False
      cong: if_weak_cong)

lemma reviewMarker_zh_simp: "reviewMarker (tradToSimp (zhPlaceholder s f))"
  by (simp add: reviewMarker_def zhPlaceholder_def tradToSimp_map substChar_CHAR_MAP
      bracket_unmapped)

lemma reviewMarker_en: "reviewMarker (enPlaceholder s f)"
  by (simp add: reviewMarker_def enPlaceholder_def U_def)

lemma langOf_not_object: "\<not> isObject (get d f) \<Longrightarrow> langOf d f l = JUndefined"
  by (cases "get d f") (simp_all add: langOf_def)

lemma langOf_setField_other: "g \<noteq> f \<Longrightarrow> langOf (setField d f l v) g m = langOf d g m"
  by (simp add: langOf_def get_setField)

lemma langOf_setField_same:
  "isObject (get d f) \<Longrightarrow> langOf (setField d f l v) f m = (if m = l then v else langOf d f m)"
  by (simp add: langOf_setField)

lemma get_setField_other: "g \<noteq> f \<Longrightarrow> get (setField d f l v) g = get d g"
  by (simp add: get_setField)

lemma addMissingTranslations_frame:
  assumes "addMissingTranslations str f (d, u) = Inr (d', u')" and "g \<noteq> f"
  shows "get d' g = get d g"
  using assms unfolding addMissingTranslations_def Let_def fst_conv snd_conv
  by (auto simp add: get_setField_other split: if_splits sum.splits)

lemma addMissingTranslations_origin:
  assumes "addMissingTranslations str f (d, u) = Inr (d', u')" and "f \<noteq> ''name''"
  shows "tcmOrigin str (get d ''name'') f (get d f) l (langOf d' f l)"
proof (cases "isObject (get d f)")
  case False
  then have "\<And>l. langOf d f l = JUndefined"
    by (rule langOf_not_object)
  with assms(1) have "d' = d"
    by (simp add: addMissingTranslations_def Let_def split: if_splits)
  then show ?thesis
    by (simp add: tcmOrigin_def langOf_def)
next
  case True
  have n: "''name'' \<noteq> f"
    using assms(2) by simp
  from assms(1) True show ?thesis
    unfolding addMissingTranslations_def Let_def tcmOrigin_def tcmSubjectZh_def tcmSubjectEn_def
      langOf_def [symmetric] fst_conv snd_conv
    by (auto simp add: langOf_setField_same langOf_setField_other [OF n] isObject_setField
        split: if_splits sum.splits)
qed

lemma tcmOrigin_cong:
  "tcmOrigin str n f old l (langOf d1 f l) = tcmOrigin str n f old l (getProp (get d1 f) l)"
  by (simp add: langOf_def)

lemma steps_origin:
  assumes "steps (map (addMissingTranslations str) fs) (d, u) = Inr (d', u')"
    and "distinct fs" and "''name'' \<notin> set fs"
  shows "(\<forall>g. g \<notin> set fs \<longrightarrow> get d' g = get d g)
       \<and> (\<forall>g l. g \<in> set fs \<longrightarrow> tcmOrigin str (get d ''name'') g (get d g) l (langOf d' g l))"
  using assms
proof (induction fs arbitrary: d u)
  case Nil
  then show ?case
    by simp
next
  case (Cons f fs)
  from Cons.prems(1) obtain d1 u1 where
    a: "addMissingTranslations str f (d, u) = Inr (d1, u1)" and
    b: "steps (map (addMissingTranslations str) fs) (d1, u1) = Inr (d', u')"
    by (cases "addMissingTranslations str f (d, u)") auto
  from Cons.prems have fs: "distinct fs" "''name'' \<notin> set fs" "f \<notin> set fs" "f \<noteq> ''name''"
    by auto
  have frame1: "\<And>g. g \<noteq> f \<Longrightarrow> get d1 g = get d g"
    using a by (rule addMissingTranslations_frame)
  have origin1: "\<And>l. tcmOrigin str (get d ''name'') f (get d f) l (langOf d1 f l)"
    using a fs(4) by (rule addMissingTranslations_origin)
  from Cons.IH [OF b fs(1) fs(2)] have
    frame2: "\<And>g. g \<notin> set fs \<Longrightarrow> get d' g = get d1 g" and
    origin2: "\<And>g l. g \<in> set fs \<Longrightarrow> tcmOrigin str (get d1 ''name'') g (get d1 g) l (langOf d' g l)"
    by blast+
  have "get d' g = get d g" if "g \<notin> set (f # fs)" for g
    using that frame1 [of g] frame2 [of g] by simp
  moreover have "tcmOrigin str (get d ''name'') g (get d g) l (langOf d' g l)"
    if "g \<in> set (f # fs)" for g l
  proof (cases "g = f")
    case True
    have "langOf d' f l = langOf d1 f l"
      using frame2 [OF fs(3)] by (simp add: langOf_def)
    with origin1 [of l] True show ?thesis
      by simp
  next
    case False
    with that have g: "g \<in> set fs"
      by simp
    have "get d1 ''name'' = get d ''name''"
      using fs(4) frame1 [of "''name''"] by simp
    moreover have "get d1 g = get d g"
      using False by (rule frame1)
    ultimately show ?thesis
      using origin2 [OF g, of l] by simp
  qed
  ultimately show ?case
    by blast
qed

lemma tcmFields_distinct: "distinct tcmFields \<and> ''name'' \<notin> set tcmFields"
  by (simp add: tcmFields_def)

lemma processTcmProfile_unlisted:
  assumes "processTcmProfile str filePath data = Inr (data', updates)"
    and "field \<notin> set tcmFields"
  shows "get data' field = get data field"
  using steps_origin [OF assms(1) [unfolded processTcmProfile_def]] tcmFields_distinct assms(2)
  by blast


lemma gingerProfile_filled:
  "processTcmProfile (\<lambda>v. []) (U ''systems/tcm/herbs/ginger/profile.jsonld'') gingerProfile =
     Inr ([(''name'', JObj [(''en'', JStr (U ''Ginger''))]),
           (''tcmHistory'',
            JObj [(''en'', JStr (U ''Used for centuries'')),
                  (''zh-Hant'', JStr (zhPlaceholder (U ''Ginger'') ''tcmHistory'')),
                  (''zh-Hans'', JStr (tradToSimp (zhPlaceholder (U ''Ginger'') ''tcmHistory'')))])],
          [U ''Added '' @ U ''tcmHistory''
             @ U ''.zh-Hant/zh-Hans (placeholder - needs translation)''])"
proof -
  have z: "zhPlaceholder s f \<noteq> []" "tradToSimp (zhPlaceholder s f) \<noteq> []" for s f
    by (simp_all add: zhPlaceholder_def tradToSimp_map)
  have h: "addMissingTranslations (\<lambda>v. []) ''tcmHistory'' (gingerProfile, []) =
     Inr ([(''name'', JObj [(''en'', JStr (U ''Ginger''))]),
           (''tcmHistory'',
            JObj [(''en'', JStr (U ''Used for centuries'')),
                  (''zh-Hant'', JStr (zhPlaceholder (U ''Ginger'') ''tcmHistory'')),
                  (''zh-Hans'', JStr (tradToSimp (zhPlaceholder (U ''Ginger'') ''tcmHistory'')))])],
          [U ''Added '' @ U ''tcmHistory''
             @ U ''.zh-Hant/zh-Hans (placeholder - needs translation)''])"
    by (simp add: addMissingTranslations_def gingerProfile_def Let_def langOf_def get_def
        setField_def setProp_def jsOr_def textOf_def U_eq_Nil z)
  have o: "addMissingTranslations (\<lambda>v. []) f
      ([(''name'', JObj [(''en'', JStr (U ''Ginger''))]), (''tcmHistory'', x)], u) =
      Inr ([(''name'', JObj [(''en'', JStr (U ''Ginger''))]), (''tcmHistory'', x)], u)"
    if "f \<noteq> ''name''" "f \<noteq> ''tcmHistory''" for f x u
    using that by (simp add: addMissingTranslations_def get_def)
  show ?thesis
    unfolding processTcmProfile_def tcmFields_def list.map steps.simps h sum.case
    by (simp add: o)
qed

subsection \<open>Translation filler: where the filled values come from\<close>

lemma includes'_prefix: "prefix p ys \<Longrightarrow> includes' ys p"
  by (cases ys) simp_all

lemma includes'_append_left: "includes' ys p \<Longrightarrow> includes' (xs @ ys) p"
  by (induction xs) simp_all

lemma includes'_middle: "includes' (xs @ p @ zs) p"
  by (rule includes'_append_left) (rule includes'_prefix, simp)

lemma tradToSimp_append: "tradToSimp (xs @ ys) = tradToSimp xs @ tradToSimp ys"
  by (simp add: tradToSimp_map)

lemma markedFor_zh: "markedFor s (fieldLabel f) (zhPlaceholder s f)"
proof -
  have a: "includes' (zhPlaceholder s f) s"
    unfolding zhPlaceholder_def by (rule includes'_middle)
  have "zhPlaceholder s f = ([0x3010] @ s @ [0x3011]) @ fieldLabel f
     @ [0x5167, 0x5BB9, 0x5F85, 0x7FFB, 0x8B6F, 0x88DC, 0x5145, 0x3002]"
    by (simp add: zhPlaceholder_def)
  then have b: "includes' (zhPlaceholder s f) (fieldLabel f)"
    by (simp only: includes'_middle)
  from a b show ?thesis
    by (simp add: markedFor_def reviewMarker_zh)
qed

lemma markedFor_zh_simp:
  "markedFor (tradToSimp s) (tradToSimp (fieldLabel f)) (tradToSimp (zhPlaceholder s f))"
proof -
  have a: "includes' (tradToSimp (zhPlaceholder s f)) (tradToSimp s)"
    unfolding zhPlaceholder_def tradToSimp_append by (rule includes'_middle)
  have "tradToSimp (zhPlaceholder s f) = tradToSimp ([0x3010] @ s @ [0x3011])
     @ tradToSimp (fieldLabel f)
     @ tradToSimp [0x5167, 0x5BB9, 0x5F85, 0x7FFB, 0x8B6F, 0x88DC, 0x5145, 0x3002]"
    by (simp add: zhPlaceholder_def tradToSimp_map)
  then have b: "includes' (tradToSimp (zhPlaceholder s f)) (tradToSimp (fieldLabel f))"
    by (simp only: includes'_middle)
  from a b show ?thesis
    by (simp add: markedFor_def reviewMarker_zh_simp)
qed

lemma markedFor_en: "markedFor s (fieldLabel f) (enPlaceholder s f)"
proof -
  have a: "includes' (enPlaceholder s f) (fieldLabel f)"
    unfolding enPlaceholder_def by (rule includes'_middle)
  have "enPlaceholder s f = (U ''['' @ fieldLabel f @ U '' information for '') @ s
     @ U '' - translation needed]''"
    by (simp add: enPlaceholder_def)
  then have b: "includes' (enPlaceholder s f) s"
    by (simp only: includes'_middle)
  from a b show ?thesis
    by (simp add: markedFor_def reviewMarker_en)
qed


text \<open>Plant entities.\<close>

lemma fillDescription_frame:
  assumes "fillDescription str path (d, u) = Inr (d', u')" and "g \<noteq> ''description''"
  shows "get d' g = get d g"
  using assms unfolding fillDescription_def Let_def fst_conv snd_conv
  by (auto simp add: get_setField_other split: if_splits sum.splits prod.splits)

lemma generateChineseDescription_cases:
  assumes "generateChineseDescription str d path = Inr (zhHant, zhHans)"
  shows "\<exists>cat. detectCategory path (get d ''name'') (get d ''scientificName'') = Inr cat
     \<and> zhHant = descTemplate cat (plantSubject str (get d ''name'')) (plantSci str d)
     \<and> zhHans = tradToSimp (descTemplate cat (plantSubject str (get d ''name'')) (plantSci str d))"
  using assms
  by (auto simp add: generateChineseDescription_def Let_def plantSubject_def plantSci_def
      split: sum.splits)

lemma fillDescription_origin:
  assumes "fillDescription str path (d, u) = Inr (d', u')"
  shows "langOf d' ''description'' l = langOf d ''description'' l
     \<or> l = ''zh-Hant''
       \<and> (\<exists>cat. detectCategory path (get d ''name'') (get d ''scientificName'') = Inr cat
            \<and> langOf d' ''description'' l
                = JStr (descTemplate cat (plantSubject str (get d ''name'')) (plantSci str d)))
     \<or> l = ''zh-Hans''
       \<and> (\<exists>cat. detectCategory path (get d ''name'') (get d ''scientificName'') = Inr cat
            \<and> langOf d' ''description'' l
                = JStr (tradToSimp
                    (descTemplate cat (plantSubject str (get d ''name'')) (plantSci str d))))"
proof (cases "truthy (get d ''description'') \<and> truthy (langOf d ''description'' ''en'')
    \<and> (\<not> truthy (langOf d ''description'' ''zh-Hant'')
       \<or> \<not> truthy (langOf d ''description'' ''zh-Hans''))")
  case False
  with assms have "d' = d"
    by (auto simp add: fillDescription_def Let_def split: if_splits)
  then show ?thesis
    by simp
next
  case True
  then have o: "isObject (get d ''description'')"
    using langOf_isObject by blast
  from True assms obtain zhHant zhHans where
    g: "generateChineseDescription str d path = Inr (zhHant, zhHans)"
    by (auto simp add: fillDescription_def Let_def split: if_splits sum.splits)
  from generateChineseDescription_cases [OF g] obtain cat where
    c: "detectCategory path (get d ''name'') (get d ''scientificName'') = Inr cat" and
    zt: "zhHant = descTemplate cat (plantSubject str (get d ''name'')) (plantSci str d)" and
    zs: "zhHans = tradToSimp (descTemplate cat (plantSubject str (get d ''name'')) (plantSci str d))"
    by blast
  from True assms g have
    "langOf d' ''description'' l = langOf d ''description'' l
     \<or> l = ''zh-Hant'' \<and> langOf d' ''description'' l = JStr zhHant
     \<or> l = ''zh-Hans'' \<and> langOf d' ''description'' l = JStr zhHans"
    using o
    by (auto simp add: fillDescription_def Let_def langOf_setField_same isObject_setField
        split: if_splits)
  with c zt zs show ?thesis
    by blast
qed

lemma fillCommonName_frame:
  assumes "fillCommonName (d, u) = (d', u')" and "g \<noteq> ''commonName''"
  shows "get d' g = get d g"
  using assms unfolding fillCommonName_def Let_def fst_conv snd_conv
  by (auto simp add: get_setField_other split: if_splits)

lemma fillCommonName_origin:
  assumes "fillCommonName (d, u) = (d', u')"
  shows "langOf d' ''commonName'' l = langOf d ''commonName'' l
     \<or> (l = ''zh-Hant'' \<or> l = ''zh-Hans'') \<and> langOf d' ''commonName'' l = langOf d ''name'' l"
proof (cases "isObject (get d ''commonName'')")
  case False
  then have "\<And>l. langOf d ''commonName'' l = JUndefined"
    by (rule langOf_not_object)
  with assms have "d' = d"
    by (simp add: fillCommonName_def Let_def split: if_splits)
  then show ?thesis
    by simp
next
  case True
  have n: "''name'' \<noteq> ''commonName''"
    by simp
  from assms True show ?thesis
    unfolding fillCommonName_def Let_def fst_conv snd_conv
    by (auto simp add: langOf_setField_same langOf_setField_other [OF n] isObject_setField
        split: if_splits)
qed

lemma processPlantEntity_fill_origin:
  assumes "processPlantEntity_fill str path d = Inr (d', u')"
  shows "langOf d' field l = langOf d field l
     \<or> field = ''description'' \<and> l = ''zh-Hant''
       \<and> (\<exists>cat. detectCategory path (get d ''name'') (get d ''scientificName'') = Inr cat
            \<and> langOf d' field l
                = JStr (descTemplate cat (plantSubject str (get d ''name'')) (plantSci str d)))
     \<or> field = ''description'' \<and> l = ''zh-Hans''
       \<and> (\<exists>cat. detectCategory path (get d ''name'') (get d ''scientificName'') = Inr cat
            \<and> langOf d' field l
                = JStr (tradToSimp
                    (descTemplate cat (plantSubject str (get d ''name'')) (plantSci str d))))
     \<or> field = ''commonName'' \<and> (l = ''zh-Hant'' \<or> l = ''zh-Hans'')
       \<and> langOf d' field l = langOf d ''name'' l"
proof -
  from assms obtain d1 u1 where
    a: "fillDescription str path (d, []) = Inr (d1, u1)" and
    b: "fillCommonName (d1, u1) = (d', u')"
    by (auto simp add: processPlantEntity_fill_def split: sum.splits)
  have f1: "\<And>g. g \<noteq> ''description'' \<Longrightarrow> get d1 g = get d g"
    using a by (rule fillDescription_frame)
  have f2: "\<And>g. g \<noteq> ''commonName'' \<Longrightarrow> get d' g = get d1 g"
    using b by (rule fillCommonName_frame)
  show ?thesis
  proof (cases "field = ''description''")
    case True
    then have "langOf d' field l = langOf d1 ''description'' l"
      using f2 [of "''description''"] by (simp add: langOf_def)
    with fillDescription_origin [OF a, of l] True show ?thesis
      by auto
  next
    case False
    note nd = this
    show ?thesis
    proof (cases "field = ''commonName''")
      case True
      have "langOf d1 ''commonName'' l = langOf d ''commonName'' l"
        "langOf d1 ''name'' l = langOf d ''name'' l"
        using f1 [of "''commonName''"] f1 [of "''name''"] by (simp_all add: langOf_def)
      with fillCommonName_origin [OF b, of l] True show ?thesis
        by auto
    next
      case False
      with nd have "get d' field = get d field"
        using f1 [of field] f2 [of field] by simp
      then show ?thesis
        by (simp add: langOf_def)
    qed
  qed
qed


text \<open>Western profiles.\<close>

lemma addWesternTranslations_frame:
  assumes "addWesternTranslations subject f (d, u) = (d', u')" and "g \<noteq> f"
  shows "get d' g = get d g"
  using assms unfolding addWesternTranslations_def Let_def fst_conv snd_conv
  by (auto simp add: get_setField_other split: if_splits)

lemma addWesternTranslations_origin:
  assumes "addWesternTranslations subject f (d, u) = (d', u')"
  shows "langOf d' f l = langOf d f l
     \<or> l = ''zh-Hant'' \<and> langOf d' f l = JStr (westernPlaceholder subject)
     \<or> l = ''zh-Hans'' \<and> langOf d' f l = JStr (tradToSimp (westernPlaceholder subject))"
proof (cases "isObject (get d f)")
  case False
  then have "\<And>l. langOf d f l = JUndefined"
    by (rule langOf_not_object)
  with assms have "d' = d"
    by (simp add: addWesternTranslations_def Let_def split: if_splits)
  then show ?thesis
    by simp
next
  case True
  from assms True show ?thesis
    unfolding addWesternTranslations_def Let_def fst_conv snd_conv
    by (auto simp add: langOf_setField_same isObject_setField split: if_splits)
qed

lemma fold_western_origin:
  assumes "fold (addWesternTranslations subject) fs (d, u) = (d', u')" and "distinct fs"
  shows "(\<forall>g. g \<notin> set fs \<longrightarrow> get d' g = get d g)
       \<and> (\<forall>g l. g \<in> set fs \<longrightarrow>
             langOf d' g l = langOf d g l
             \<or> l = ''zh-Hant'' \<and> langOf d' g l = JStr (westernPlaceholder subject)
             \<or> l = ''zh-Hans'' \<and> langOf d' g l = JStr (tradToSimp (westernPlaceholder subject)))"
  using assms
proof (induction fs arbitrary: d u)
  case Nil
  then show ?case
    by simp
next
  case (Cons f fs)
  obtain d1 u1 where a: "addWesternTranslations subject f (d, u) = (d1, u1)"
    by (cases "addWesternTranslations subject f (d, u)")
  with Cons.prems(1) have b: "fold (addWesternTranslations subject) fs (d1, u1) = (d', u')"
    by simp
  from Cons.prems(2) have fs: "distinct fs" "f \<notin> set fs"
    by auto
  have frame1: "\<And>g. g \<noteq> f \<Longrightarrow> get d1 g = get d g"
    using a by (rule addWesternTranslations_frame)
  note origin1 = addWesternTranslations_origin [OF a]
  from Cons.IH [OF b fs(1)] have
    frame2: "\<And>g. g \<notin> set fs \<Longrightarrow> get d' g = get d1 g" and
    origin2: "\<And>g l. g \<in> set fs \<Longrightarrow>
             langOf d' g l = langOf d1 g l
             \<or> l = ''zh-Hant'' \<and> langOf d' g l = JStr (westernPlaceholder subject)
             \<or> l = ''zh-Hans'' \<and> langOf d' g l = JStr (tradToSimp (westernPlaceholder subject))"
    by blast+
  have "get d' g = get d g" if "g \<notin> set (f # fs)" for g
    using that frame1 [of g] frame2 [of g] by simp
  moreover have "langOf d' g l = langOf d g l
             \<or> l = ''zh-Hant'' \<and> langOf d' g l = JStr (westernPlaceholder subject)
             \<or> l = ''zh-Hans'' \<and> langOf d' g l = JStr (tradToSimp (westernPlaceholder subject))"
    if "g \<in> set (f # fs)" for g l
  proof (cases "g = f")
    case True
    have "langOf d' f l = langOf d1 f l"
      using frame2 [OF fs(2)] by (simp add: langOf_def)
    with origin1 [of l] True show ?thesis
      by simp
  next
    case False
    with that have g: "g \<in> set fs"
      by simp
    have "langOf d1 g l = langOf d g l"
      using frame1 [OF False] by (simp add: langOf_def)
    with origin2 [OF g, of l] show ?thesis
      by simp
  qed
  ultimately show ?case
    by blast
qed

lemma processWesternProfile_origin:
  assumes "processWesternProfile str path d = Inr (d', u')"
  shows "langOf d' field l = langOf d field l
     \<or> field \<in> set westernFields \<and> l = ''zh-Hant''
       \<and> langOf d' field l = JStr (westernPlaceholder (westernSubject str (get d ''name'')))
     \<or> field \<in> set westernFields \<and> l = ''zh-Hans''
       \<and> langOf d' field l
           = JStr (tradToSimp (westernPlaceholder (westernSubject str (get d ''name''))))"
proof -
  from assms have f: "fold (addWesternTranslations (westernSubject str (get d ''name'')))
      westernFields (d, []) = (d', u')"
    by (simp add: processWesternProfile_def westernSubject_def langOf_def Let_def)
  have dis: "distinct westernFields"
    by (simp add: westernFields_def)
  note F = fold_western_origin [OF f dis]
  show ?thesis
  proof (cases "field \<in> set westernFields")
    case True
    with F show ?thesis
      by blast
  next
    case False
    with F have "get d' field = get d field"
      by blast
    then show ?thesis
      by (simp add: langOf_def)
  qed
qed

text \<open>Ayurveda reference files.\<close>

lemma fillPrefLabel_frame:
  assumes "fillPrefLabel str (d, u) = (d', u')" and "g \<noteq> ''prefLabel''"
  shows "get d' g = get d g"
  using assms unfolding fillPrefLabel_def Let_def fst_conv snd_conv
  by (auto simp add: get_setField_other split: if_splits option.splits)

lemma fillItemDescription_frame:
  assumes "fillItemDescription str (d, u) = (d', u')" and "g \<noteq> ''description''"
  shows "get d' g = get d g"
  using assms unfolding fillItemDescription_def Let_def fst_conv snd_conv
  by (auto simp add: get_setField_other split: if_splits option.splits jsval.splits)

lemma lookupTerm_Some_defined: "lookupTerm str v = Some t \<Longrightarrow> v \<noteq> JUndefined"
  by (auto simp add: lookupTerm_def)

lemma fillPrefLabel_origin:
  assumes "fillPrefLabel str (d, u) = (d', u')"
  shows "ayurvedaOrigin str d ''prefLabel'' l (langOf d' ''prefLabel'' l)"
proof (cases "isObject (get d ''prefLabel'')")
  case False
  then have u: "\<And>l. langOf d ''prefLabel'' l = JUndefined"
    by (rule langOf_not_object)
  then have "lookupTerm str (langOf d ''prefLabel'' ''en'') = None"
    by (simp add: lookupTerm_def)
  with assms u have "d' = d"
    by (simp add: fillPrefLabel_def Let_def split: if_splits)
  then show ?thesis
    by (simp add: ayurvedaOrigin_def)
next
  case True
  from assms True show ?thesis
    unfolding fillPrefLabel_def Let_def fst_conv snd_conv ayurvedaOrigin_def
    by (auto simp add: langOf_setField_same isObject_setField split: if_splits option.splits)
qed

lemma fillItemDescription_origin:
  assumes "fillItemDescription str (d, u) = (d', u')"
  shows "ayurvedaOrigin str d ''description'' l (langOf d' ''description'' l)"
proof (cases "isObject (get d ''description'')")
  case False
  then have u: "\<And>l. langOf d ''description'' l = JUndefined"
    by (rule langOf_not_object)
  with assms have "d' = d"
    by (simp add: fillItemDescription_def Let_def split: if_splits)
  then show ?thesis
    by (simp add: ayurvedaOrigin_def)
next
  case True
  from assms True show ?thesis
    unfolding fillItemDescription_def Let_def fst_conv snd_conv ayurvedaOrigin_def
    by (auto simp add: langOf_setField_same isObject_setField
        split: if_splits option.splits jsval.splits)
qed


lemma fillPrefLabel_en:
  assumes "fillPrefLabel str (d, u) = (d', u')"
  shows "langOf d' ''prefLabel'' ''en'' = langOf d ''prefLabel'' ''en''"
proof (cases "isObject (get d ''prefLabel'')")
  case False
  then have u: "\<And>l. langOf d ''prefLabel'' l = JUndefined"
    by (rule langOf_not_object)
  then have "lookupTerm str (langOf d ''prefLabel'' ''en'') = None"
    by (simp add: lookupTerm_def)
  with assms u have "d' = d"
    by (simp add: fillPrefLabel_def Let_def split: if_splits)
  then show ?thesis
    by simp
next
  case True
  from assms True show ?thesis
    unfolding fillPrefLabel_def Let_def fst_conv snd_conv
    by (auto simp add: langOf_setField_same isObject_setField split: if_splits option.splits)
qed

lemma ayurvedaOrigin_same: "ayurvedaOrigin str item field l (langOf item field l)"
  by (simp add: ayurvedaOrigin_def)

lemma ayurvedaOrigin_cong:
  assumes "langOf b field l = langOf a field l"
    and "langOf b ''prefLabel'' ''en'' = langOf a ''prefLabel'' ''en''"
  shows "ayurvedaOrigin str b field l v = ayurvedaOrigin str a field l v"
  using assms by (simp add: ayurvedaOrigin_def)

lemma processItem_filled:
  assumes "processItem str item u = Inr (item', u')"
  shows "itemFilled str item item'"
proof (cases item)
  case (JObj d)
  obtain d1 u1 where a: "fillPrefLabel str (d, u) = (d1, u1)"
    by (cases "fillPrefLabel str (d, u)")
  obtain d2 u2 where b: "fillItemDescription str (d1, u1) = (d2, u2)"
    by (cases "fillItemDescription str (d1, u1)")
  from assms JObj a b have i: "item' = JObj d2"
    by (simp add: Let_def)
  have f1: "\<And>g. g \<noteq> ''prefLabel'' \<Longrightarrow> get d1 g = get d g"
    using a by (rule fillPrefLabel_frame)
  have f2: "\<And>g. g \<noteq> ''description'' \<Longrightarrow> get d2 g = get d1 g"
    using b by (rule fillItemDescription_frame)
  have en: "langOf d1 ''prefLabel'' ''en'' = langOf d ''prefLabel'' ''en''"
    using a by (rule fillPrefLabel_en)
  have "ayurvedaOrigin str d field l (langOf d2 field l)" for field l
  proof (cases "field = ''prefLabel''")
    case True
    have "langOf d2 ''prefLabel'' l = langOf d1 ''prefLabel'' l"
      using f2 [of "''prefLabel''"] by (simp add: langOf_def)
    with fillPrefLabel_origin [OF a, of l] True show ?thesis
      by simp
  next
    case False
    note np = this
    show ?thesis
    proof (cases "field = ''description''")
      case True
      have "langOf d1 ''description'' l = langOf d ''description'' l"
        using f1 [of "''description''"] by (simp add: langOf_def)
      then have "ayurvedaOrigin str d1 ''description'' l (langOf d2 ''description'' l)
          = ayurvedaOrigin str d ''description'' l (langOf d2 ''description'' l)"
        using en by (rule ayurvedaOrigin_cong)
      with fillItemDescription_origin [OF b, of l] True show ?thesis
        by simp
    next
      case False
      with np have "get d2 field = get d field"
        using f1 [of field] f2 [of field] by simp
      then have "langOf d2 field l = langOf d field l"
        by (simp add: langOf_def)
      then show ?thesis
        by (simp add: ayurvedaOrigin_same)
    qed
  qed
  with JObj i show ?thesis
    by simp
qed (use assms in auto)

lemma processItems_filled:
  assumes "processItems str items u = Inr (items', u')"
  shows "list_all2 (itemFilled str) items items'"
  using assms
proof (induction items arbitrary: u items' u')
  case Nil
  then show ?case
    by simp
next
  case (Cons item items)
  from Cons.prems obtain item' u1 rest where
    a: "processItem str item u = Inr (item', u1)" and
    b: "processItems str items u1 = Inr (rest, u')" and
    c: "items' = item' # rest"
    by (auto split: sum.splits prod.splits)
  from processItem_filled [OF a] Cons.IH [OF b] c show ?case
    by simp
qed

lemma processAyurvedaReference_origin:
  assumes "processAyurvedaReference str path d = Inr (d', u')"
  shows "(\<forall>g. g \<noteq> ''@graph'' \<longrightarrow> get d' g = get d g)
     \<and> (\<forall>items. get d ''@graph'' = JArr items \<longrightarrow>
          (\<exists>items'. get d' ''@graph'' = JArr items' \<and> list_all2 (itemFilled str) items items'))
     \<and> (\<not> isArray (get d ''@graph'') \<longrightarrow> d' = d)"
proof (cases "get d ''@graph''")
  case (JArr items)
  with assms obtain items' where
    a: "processItems str items [] = Inr (items', u')" and
    b: "d' = setProp d ''@graph'' (JArr items')"
    by (auto simp add: processAyurvedaReference_def split: sum.splits prod.splits)
  from processItems_filled [OF a] b JArr show ?thesis
    by (auto simp add: get_setProp)
qed (use assms in \<open>auto simp add: processAyurvedaReference_def split: if_splits\<close>)


text \<open>
  C6 (as amended). Whatever the filler leaves in a language of a field is the value that
  was there or one of the following. In a TCM profile: the conversion of the traditional
  text, the simplified text copied as it is, or a placeholder; the placeholders are
  marked, they open with U+3010 or a square bracket and hold the subject's name and the
  label of the field. In a Western profile: U+3010, the subject's name, U+3011 and one
  fixed sentence, the same for every field, or its conversion. In a plant entity: the
  text of \<open>DESC_TEMPLATES\<close> for the detected category with the name and the scientific
  name put in, or its conversion, and for \<open>commonName\<close> the name in that language. In
  an item of an Ayurveda reference file: a label or the description of the term found
  under the English label, or its conversion, and, when no term is found, the English
  label itself.
\<close>

theorem filled_values_origin:
  "(processTcmProfile str filePath data = Inr (data', updates) \<longrightarrow>
      langOf data' field lang = langOf data field lang
      \<or> lang = ''zh-Hans''
        \<and> tradToSimpValue (langOf data field ''zh-Hant'') = Inr (langOf data' field lang)
      \<or> lang = ''zh-Hant'' \<and> langOf data' field lang = langOf data field ''zh-Hans''
      \<or> langOf data' field lang
          = JStr (zhPlaceholder (tcmSubjectZh str (get data ''name'')) field)
      \<or> langOf data' field lang
          = JStr (tradToSimp (zhPlaceholder (tcmSubjectZh str (get data ''name'')) field))
      \<or> langOf data' field lang
          = JStr (enPlaceholder (tcmSubjectEn str (get data ''name'')) field))
   \<and> markedFor subject (fieldLabel field) (zhPlaceholder subject field)
   \<and> markedFor (tradToSimp subject) (tradToSimp (fieldLabel field))
        (tradToSimp (zhPlaceholder subject field))
   \<and> markedFor subject (fieldLabel field) (enPlaceholder subject field)
   \<and> (processWesternProfile str filePath data = Inr (data', updates) \<longrightarrow>
      langOf data' field lang = langOf data field lang
      \<or> field \<in> set westernFields \<and> lang = ''zh-Hant''
        \<and> langOf data' field lang
            = JStr (westernPlaceholder (westernSubject str (get data ''name'')))
      \<or> field \<in> set westernFields \<and> lang = ''zh-Hans''
        \<and> langOf data' field lang
            = JStr (tradToSimp (westernPlaceholder (westernSubject str (get data ''name'')))))
   \<and> (processPlantEntity_fill str filePath data = Inr (data', updates) \<longrightarrow>
      langOf data' field lang = langOf data field lang
      \<or> field = ''description'' \<and> lang = ''zh-Hant''
        \<and> (\<exists>cat. detectCategory filePath (get data ''name'') (get data ''scientificName'')
                    = Inr cat
             \<and> langOf data' field lang
                 = JStr (descTemplate cat (plantSubject str (get data ''name''))
                     (plantSci str data)))
      \<or> field = ''description'' \<and> lang = ''zh-Hans''
        \<and> (\<exists>cat. detectCategory filePath (get data ''name'') (get data ''scientificName'')
                    = Inr cat
             \<and> langOf data' field lang
                 = JStr (tradToSimp (descTemplate cat (plantSubject str (get data ''name''))
                     (plantSci str data))))
      \<or> field = ''commonName'' \<and> (lang = ''zh-Hant'' \<or> lang = ''zh-Hans'')
        \<and> langOf data' field lang = langOf data ''name'' lang)
   \<and> (processAyurvedaReference str filePath data = Inr (data', updates) \<longrightarrow>
      (\<forall>g. g \<noteq> ''@graph'' \<longrightarrow> get data' g = get data g)
      \<and> (\<forall>items. get data ''@graph'' = JArr items \<longrightarrow>
           (\<exists>items'. get data' ''@graph'' = JArr items'
              \<and> list_all2 (itemFilled str) items items'))
      \<and> (\<not> isArray (get data ''@graph'') \<longrightarrow> data' = data))"
proof -
  have tcm: "langOf data' field lang = langOf data field lang
      \<or> lang = ''zh-Hans''
        \<and> tradToSimpValue (langOf data field ''zh-Hant'') = Inr (langOf data' field lang)
      \<or> lang = ''zh-Hant'' \<and> langOf data' field lang = langOf data field ''zh-Hans''
      \<or> langOf data' field lang
          = JStr (zhPlaceholder (tcmSubjectZh str (get data ''name'')) field)
      \<or> langOf data' field lang
          = JStr (tradToSimp (zhPlaceholder (tcmSubjectZh str (get data ''name'')) field))
      \<or> langOf data' field lang
          = JStr (enPlaceholder (tcmSubjectEn str (get data ''name'')) field)"
    if r: "processTcmProfile str filePath data = Inr (data', updates)"
  proof (cases "field \<in> set tcmFields")
    case True
    from steps_origin [OF r [unfolded processTcmProfile_def]] tcmFields_distinct True
    have "tcmOrigin str (get data ''name'') field (get data field) lang (langOf data' field lang)"
      by blast
    then show ?thesis
      unfolding tcmOrigin_def langOf_def [symmetric] by simp
  next
    case False
    with r have "get data' field = get data field"
      by (rule processTcmProfile_unlisted)
    then show ?thesis
      by (simp add: langOf_def)
  qed
  then have T: "processTcmProfile str filePath data = Inr (data', updates) \<longrightarrow>
      langOf data' field lang = langOf data field lang
      \<or> lang = ''zh-Hans''
        \<and> tradToSimpValue (langOf data field ''zh-Hant'') = Inr (langOf data' field lang)
      \<or> lang = ''zh-Hant'' \<and> langOf data' field lang = langOf data field ''zh-Hans''
      \<or> langOf data' field lang
          = JStr (zhPlaceholder (tcmSubjectZh str (get data ''name'')) field)
      \<or> langOf data' field lang
          = JStr (tradToSimp (zhPlaceholder (tcmSubjectZh str (get data ''name'')) field))
      \<or> langOf data' field lang
          = JStr (enPlaceholder (tcmSubjectEn str (get data ''name'')) field)"
    by (rule impI)
  have W: "processWesternProfile str filePath data = Inr (data', updates) \<longrightarrow>
      langOf data' field lang = langOf data field lang
      \<or> field \<in> set westernFields \<and> lang = ''zh-Hant''
        \<and> langOf data' field lang
            = JStr (westernPlaceholder (westernSubject str (get data ''name'')))
      \<or> field \<in> set westernFields \<and> lang = ''zh-Hans''
        \<and> langOf data' field lang
            = JStr (tradToSimp (westernPlaceholder (westernSubject str (get data ''name''))))"
    by (rule impI) (rule processWesternProfile_origin)
  have P: "processPlantEntity_fill str filePath data = Inr (data', updates) \<longrightarrow>
      langOf data' field lang = langOf data field lang
      \<or> field = ''description'' \<and> lang = ''zh-Hant''
        \<and> (\<exists>cat. detectCategory filePath (get data ''name'') (get data ''scientificName'')
                    = Inr cat
             \<and> langOf data' field lang
                 = JStr (descTemplate cat (plantSubject str (get data ''name''))
                     (plantSci str data)))
      \<or> field = ''description'' \<and> lang = ''zh-Hans''
        \<and> (\<exists>cat. detectCategory filePath (get data ''name'') (get data ''scientificName'')
                    = Inr cat
             \<and> langOf data' field lang
                 = JStr (tradToSimp (descTemplate cat (plantSubject str (get data ''name''))
                     (plantSci str data))))
      \<or> field = ''commonName'' \<and> (lang = ''zh-Hant'' \<or> lang = ''zh-Hans'')
        \<and> langOf data' field lang = langOf data ''name'' lang"
    by (rule impI) (rule processPlantEntity_fill_origin)
  have A: "processAyurvedaReference str filePath data = Inr (data', updates) \<longrightarrow>
      (\<forall>g. g \<noteq> ''@graph'' \<longrightarrow> get data' g = get data g)
      \<and> (\<forall>items. get data ''@graph'' = JArr items \<longrightarrow>
           (\<exists>items'. get data' ''@graph'' = JArr items'
              \<and> list_all2 (itemFilled str) items items'))
      \<and> (\<not> isArray (get data ''@graph'') \<longrightarrow> data' = data)"
    by (rule impI) (rule processAyurvedaReference_origin)
  note m = markedFor_zh [of subject field] markedFor_zh_simp [of subject field]
    markedFor_en [of subject field]
  show ?thesis
    by (intro conjI) (rule T W P A m)+
qed


lemma western_path:
  "\<not> pathMatches (U ''systems/western/herbs/ginger/profile.jsonld'') (U ''/schema/'')"
  "\<not> pathMatches (U ''systems/western/herbs/ginger/profile.jsonld'') (U ''/entities/plants/'')"
  "\<not> pathMatches (U ''systems/western/herbs/ginger/profile.jsonld'') (U ''/systems/tcm/herbs/'')"
  "pathMatches (U ''systems/western/herbs/ginger/profile.jsonld'') (U ''/systems/western/herbs/'')"
  "suffix (U ''profile.jsonld'') (U ''systems/western/herbs/ginger/profile.jsonld'')"
  by (simp_all only: pathMatches_def Let_def ev_U ev_base includes'.simps prefix_code
      suffix_to_prefix rev.simps append.simps cong: if_weak_cong)

lemma gingerWestern_filled:
  "processWesternProfile str path gingerWestern =
     Inr ([(''name'', JObj [(''en'', JStr (U ''Ginger''))]),
           (''westernHistory'',
            JObj [(''en'', JStr (U ''Used in Europe'')),
                  (''zh-Hant'', JStr (westernPlaceholder (U ''Ginger''))),
                  (''zh-Hans'', JStr (tradToSimp (westernPlaceholder (U ''Ginger''))))]),
           (''westernModernResearch'',
            JObj [(''en'', JStr (U ''Studied for nausea'')),
                  (''zh-Hant'', JStr (westernPlaceholder (U ''Ginger''))),
                  (''zh-Hans'', JStr (tradToSimp (westernPlaceholder (U ''Ginger''))))])],
          [U ''Added '' @ U ''westernHistory'' @ U ''.zh-Hant/zh-Hans'',
           U ''Added '' @ U ''westernModernResearch'' @ U ''.zh-Hant/zh-Hans''])"
  by (simp add: processWesternProfile_def westernFields_def addWesternTranslations_def
      gingerWestern_def Let_def langOf_def get_def setField_def setProp_def jsOr_def textOf_def
      U_eq_Nil)

lemma western_names_no_field:
  "\<not> includes' (westernPlaceholder (U ''Ginger'')) (U ''History'')"
  "\<not> includes' (westernPlaceholder (U ''Ginger'')) (U ''Research'')"
  by (simp_all only: westernPlaceholder_def ev_U ev_base includes'.simps prefix_code
      append.simps cong: if_weak_cong)

lemma prakriti_unknown: "lookupTerm str (JStr (U ''Prakriti'')) = None"
  by (simp add: lookupTerm_def lookupKey_def AYURVEDA_TERMS_def inheritedNames_def U_inj)

lemma prakritiReference_filled:
  "processAyurvedaReference str path prakritiReference =
     Inr ([(''@graph'', JArr [JObj [(''@id'', JStr (U ''ayurveda/prakriti'')),
              (''prefLabel'', JObj [(''en'', JStr (U ''Prakriti'')),
                                   (''zh-Hant'', JStr (U ''Prakriti'')),
                                   (''zh-Hans'', JStr (U ''Prakriti''))])]])],
          [U ''Added prefLabel zh for '' @ U ''ayurveda/prakriti'' @ U '' (fallback)''])"
  by (simp add: processAyurvedaReference_def prakritiReference_def get_def fillPrefLabel_def
      fillItemDescription_def langOf_def prakriti_unknown setField_def setProp_def U_eq_Nil
      textOf_def Let_def)

lemma vata_known:
  "lookupTerm str (JStr (U ''Vata'')) =
     Some (OwnTerm
      \<lparr>termHant = [0x98A8, 0x578B, 0xFF08, 0x74E6, 0x5854, 0xFF09],
       termHans = [0x98CE, 0x578B, 0xFF08, 0x74E6, 0x5854, 0xFF09],
       termDesc = Some
        [0x4E3B, 0x53F8, 0x904B, 0x52D5, 0x3001, 0x547C, 0x5438, 0x3001, 0x5FAA, 0x74B0,
         0x53CA, 0x795E, 0x7D93, 0x7CFB, 0x7D71, 0x529F, 0x80FD, 0xFF0C, 0x7531, 0x98A8,
         0x8207, 0x4EE5, 0x592A, 0x5143, 0x7D20, 0x7D44, 0x6210]\<rparr>)"
  by (simp add: lookupTerm_def lookupKey_def AYURVEDA_TERMS_def)

lemma vataReference_filled:
  "processAyurvedaReference str path vataReference =
     Inr ([(''@graph'', JArr [JObj [(''@id'', JStr (U ''dosha/vata'')),
              (''prefLabel'',
               JObj [(''en'', JStr (U ''Vata'')),
                     (''zh-Hant'', JStr [0x98A8, 0x578B, 0xFF08, 0x74E6, 0x5854, 0xFF09]),
                     (''zh-Hans'', JStr [0x98CE, 0x578B, 0xFF08, 0x74E6, 0x5854, 0xFF09])]),
              (''description'',
               JObj [(''en'', JStr (U ''The dosha of movement'')),
                     (''zh-Hant'', JStr
                       [0x4E3B, 0x53F8, 0x904B, 0x52D5, 0x3001, 0x547C, 0x5438, 0x3001, 0x5FAA,
                        0x74B0, 0x53CA, 0x795E, 0x7D93, 0x7CFB, 0x7D71, 0x529F, 0x80FD, 0xFF0C,
                        0x7531, 0x98A8, 0x8207, 0x4EE5, 0x592A, 0x5143, 0x7D20, 0x7D44, 0x6210]),
                     (''zh-Hans'', JStr (tradToSimp
                       [0x4E3B, 0x53F8, 0x904B, 0x52D5, 0x3001, 0x547C, 0x5438, 0x3001, 0x5FAA,
                        0x74B0, 0x53CA, 0x795E, 0x7D93, 0x7CFB, 0x7D71, 0x529F, 0x80FD, 0xFF0C,
                        0x7531, 0x98A8, 0x8207, 0x4EE5, 0x592A, 0x5143, 0x7D20, 0x7D44,
                        0x6210]))])]])],
          [U ''Added prefLabel.zh-Hant for '' @ U ''dosha/vata'' @ U '': ''
             @ [0x98A8, 0x578B, 0xFF08, 0x74E6, 0x5854, 0xFF09],
           U ''Added prefLabel.zh-Hans for '' @ U ''dosha/vata'' @ U '': ''
             @ [0x98CE, 0x578B, 0xFF08, 0x74E6, 0x5854, 0xFF09],
           U ''Added description.zh for '' @ U ''dosha/vata''])"
  by (simp add: processAyurvedaReference_def vataReference_def get_def fillPrefLabel_def
      fillItemDescription_def langOf_def vata_known setField_def setProp_def U_eq_Nil
      textOf_def Let_def)

lemma gingerDescribed_filled:
  "processPlantEntity_fill str (U ''entities/plants/ginger/entity.jsonld'') gingerDescribed =
     Inr ([(''name'', JObj [(''en'', JStr (U ''Ginger''))]),
           (''description'',
            JObj [(''en'', JStr (U ''A flowering plant'')),
                  (''zh-Hant'', JStr (template_default (U ''Ginger'') [])),
                  (''zh-Hans'', JStr (tradToSimp (template_default (U ''Ginger'') [])))])],
          [U ''Added description.zh-Hant'', U ''Added description.zh-Hans''])"
  using generated_description [of str] by (simp add: processFile_def ginger_path)

lemma prakriti_unmarked: "\<not> reviewMarker (U ''Prakriti'')"
  by (simp add: reviewMarker_def U_def)


text \<open>
  The theorem on a TCM profile, a Western profile, a plant entity and an Ayurveda
  reference file whose fields are in English only: what each processor returns, and what
  the theorem then says of the placeholder, of the Western history, of the description
  and of the reference item.
\<close>

theorem filled_values_witness:
  "processTcmProfile (\<lambda>v. []) (U ''systems/tcm/herbs/ginger/profile.jsonld'') gingerProfile =
     Inr ([(''name'', JObj [(''en'', JStr (U ''Ginger''))]),
           (''tcmHistory'',
            JObj [(''en'', JStr (U ''Used for centuries'')),
                  (''zh-Hant'', JStr (zhPlaceholder (U ''Ginger'') ''tcmHistory'')),
                  (''zh-Hans'', JStr (tradToSimp (zhPlaceholder (U ''Ginger'') ''tcmHistory'')))])],
          [U ''Added '' @ U ''tcmHistory''
             @ U ''.zh-Hant/zh-Hans (placeholder - needs translation)''])
   \<and> markedFor (U ''Ginger'') (fieldLabel ''tcmHistory'')
        (zhPlaceholder (U ''Ginger'') ''tcmHistory'')
   \<and> processWesternProfile (\<lambda>v. []) (U ''systems/western/herbs/ginger/profile.jsonld'')
        gingerWestern =
     Inr ([(''name'', JObj [(''en'', JStr (U ''Ginger''))]),
           (''westernHistory'',
            JObj [(''en'', JStr (U ''Used in Europe'')),
                  (''zh-Hant'', JStr (westernPlaceholder (U ''Ginger''))),
                  (''zh-Hans'', JStr (tradToSimp (westernPlaceholder (U ''Ginger''))))]),
           (''westernModernResearch'',
            JObj [(''en'', JStr (U ''Studied for nausea'')),
                  (''zh-Hant'', JStr (westernPlaceholder (U ''Ginger''))),
                  (''zh-Hans'', JStr (tradToSimp (westernPlaceholder (U ''Ginger''))))])],
          [U ''Added '' @ U ''westernHistory'' @ U ''.zh-Hant/zh-Hans'',
           U ''Added '' @ U ''westernModernResearch'' @ U ''.zh-Hant/zh-Hans''])
   \<and> processPlantEntity_fill (\<lambda>v. []) (U ''entities/plants/ginger/entity.jsonld'')
        gingerDescribed =
     Inr ([(''name'', JObj [(''en'', JStr (U ''Ginger''))]),
           (''description'',
            JObj [(''en'', JStr (U ''A flowering plant'')),
                  (''zh-Hant'', JStr (template_default (U ''Ginger'') [])),
                  (''zh-Hans'', JStr (tradToSimp (template_default (U ''Ginger'') [])))])],
          [U ''Added description.zh-Hant'', U ''Added description.zh-Hans''])
   \<and> processAyurvedaReference (\<lambda>v. []) (U ''systems/ayurveda/concepts.jsonld'')
        prakritiReference =
     Inr ([(''@graph'', JArr [JObj [(''@id'', JStr (U ''ayurveda/prakriti'')),
              (''prefLabel'', JObj [(''en'', JStr (U ''Prakriti'')),
                                   (''zh-Hant'', JStr (U ''Prakriti'')),
                                   (''zh-Hans'', JStr (U ''Prakriti''))])]])],
          [U ''Added prefLabel zh for '' @ U ''ayurveda/prakriti'' @ U '' (fallback)''])
   \<and> list_all2 (itemFilled (\<lambda>v. []))
        [JObj [(''@id'', JStr (U ''ayurveda/prakriti'')),
               (''prefLabel'', JObj [(''en'', JStr (U ''Prakriti''))])]]
        [JObj [(''@id'', JStr (U ''ayurveda/prakriti'')),
               (''prefLabel'', JObj [(''en'', JStr (U ''Prakriti'')),
                                    (''zh-Hant'', JStr (U ''Prakriti'')),
                                    (''zh-Hans'', JStr (U ''Prakriti''))])]]
   \<and> langOf
        [(''name'', JObj [(''en'', JStr (U ''Ginger''))]),
         (''westernHistory'',
          JObj [(''en'', JStr (U ''Used in Europe'')),
                (''zh-Hant'', JStr (westernPlaceholder (U ''Ginger''))),
                (''zh-Hans'', JStr (tradToSimp (westernPlaceholder (U ''Ginger''))))]),
         (''westernModernResearch'',
          JObj [(''en'', JStr (U ''Studied for nausea'')),
                (''zh-Hant'', JStr (westernPlaceholder (U ''Ginger''))),
                (''zh-Hans'', JStr (tradToSimp (westernPlaceholder (U ''Ginger''))))])]
        ''westernHistory'' ''zh-Hant''
       = JStr (westernPlaceholder (westernSubject (\<lambda>v. []) (get gingerWestern ''name'')))
   \<and> (\<exists>cat. detectCategory (U ''entities/plants/ginger/entity.jsonld'')
               (get gingerDescribed ''name'') (get gingerDescribed ''scientificName'') = Inr cat
          \<and> langOf
               [(''name'', JObj [(''en'', JStr (U ''Ginger''))]),
                (''description'',
                 JObj [(''en'', JStr (U ''A flowering plant'')),
                       (''zh-Hant'', JStr (template_default (U ''Ginger'') [])),
                       (''zh-Hans'', JStr (tradToSimp (template_default (U ''Ginger'') [])))])]
               ''description'' ''zh-Hant''
              = JStr (descTemplate cat (plantSubject (\<lambda>v. []) (get gingerDescribed ''name''))
                  (plantSci (\<lambda>v. []) gingerDescribed)))"
proof -
  note t = gingerProfile_filled
  note w = gingerWestern_filled [of "\<lambda>v. []" "U ''systems/western/herbs/ginger/profile.jsonld''"]
  note p = gingerDescribed_filled [of "\<lambda>v. []"]
  note a = prakritiReference_filled [of "\<lambda>v. []" "U ''systems/ayurveda/concepts.jsonld''"]
  let ?item = "JObj [(''@id'', JStr (U ''ayurveda/prakriti'')),
               (''prefLabel'', JObj [(''en'', JStr (U ''Prakriti''))])]"
  let ?item' = "JObj [(''@id'', JStr (U ''ayurveda/prakriti'')),
               (''prefLabel'', JObj [(''en'', JStr (U ''Prakriti'')),
                                    (''zh-Hant'', JStr (U ''Prakriti'')),
                                    (''zh-Hans'', JStr (U ''Prakriti''))])]"
  note T = filled_values_origin [where str = "\<lambda>v. []"
      and filePath = "U ''systems/ayurveda/concepts.jsonld''" and data = prakritiReference
      and data' = "[(''@graph'', JArr [?item'])]"
      and updates = "[U ''Added prefLabel zh for '' @ U ''ayurveda/prakriti'' @ U '' (fallback)'']"
      and subject = "U ''Ginger''" and field = "''tcmHistory''"]
  have m: "markedFor (U ''Ginger'') (fieldLabel ''tcmHistory'')
        (zhPlaceholder (U ''Ginger'') ''tcmHistory'')"
    using T by blast
  have g: "get prakritiReference ''@graph'' = JArr [?item]"
    by (simp add: prakritiReference_def get_def)
  from T a g have "\<exists>items'. get [(''@graph'', JArr [?item'])] ''@graph'' = JArr items'
      \<and> list_all2 (itemFilled (\<lambda>v. [])) [?item] items'"
    by blast
  then have "list_all2 (itemFilled (\<lambda>v. [])) [?item] [?item']"
    by (simp add: get_def)
  then have l: "list_all2 (itemFilled (\<lambda>v. [])) [?item] [?item']" .
  note W = filled_values_origin [where str = "\<lambda>v. []"
      and filePath = "U ''systems/western/herbs/ginger/profile.jsonld''"
      and data = gingerWestern and field = "''westernHistory''" and lang = "''zh-Hant''",
      THEN conjunct2, THEN conjunct2, THEN conjunct2, THEN conjunct2, THEN conjunct1,
      THEN mp, OF w]
  have wv: "langOf
        [(''name'', JObj [(''en'', JStr (U ''Ginger''))]),
         (''westernHistory'',
          JObj [(''en'', JStr (U ''Used in Europe'')),
                (''zh-Hant'', JStr (westernPlaceholder (U ''Ginger''))),
                (''zh-Hans'', JStr (tradToSimp (westernPlaceholder (U ''Ginger''))))]),
         (''westernModernResearch'',
          JObj [(''en'', JStr (U ''Studied for nausea'')),
                (''zh-Hant'', JStr (westernPlaceholder (U ''Ginger''))),
                (''zh-Hans'', JStr (tradToSimp (westernPlaceholder (U ''Ginger''))))])]
        ''westernHistory'' ''zh-Hant''
       = JStr (westernPlaceholder (westernSubject (\<lambda>v. []) (get gingerWestern ''name'')))"
    using W by (simp add: langOf_def get_def gingerWestern_def)
  note P = filled_values_origin [where str = "\<lambda>v. []"
      and filePath = "U ''entities/plants/ginger/entity.jsonld''"
      and data = gingerDescribed and field = "''description''" and lang = "''zh-Hant''",
      THEN conjunct2, THEN conjunct2, THEN conjunct2, THEN conjunct2, THEN conjunct2,
      THEN conjunct1, THEN mp, OF p]
  have pv: "\<exists>cat. detectCategory (U ''entities/plants/ginger/entity.jsonld'')
               (get gingerDescribed ''name'') (get gingerDescribed ''scientificName'') = Inr cat
          \<and> langOf
               [(''name'', JObj [(''en'', JStr (U ''Ginger''))]),
                (''description'',
                 JObj [(''en'', JStr (U ''A flowering plant'')),
                       (''zh-Hant'', JStr (template_default (U ''Ginger'') [])),
                       (''zh-Hans'', JStr (tradToSimp (template_default (U ''Ginger'') [])))])]
               ''description'' ''zh-Hant''
              = JStr (descTemplate cat (plantSubject (\<lambda>v. []) (get gingerDescribed ''name''))
                  (plantSci (\<lambda>v. []) gingerDescribed))"
    using P by (simp add: langOf_def [of _ "''description''" "''zh-Hant''"] get_def gingerDescribed_def)
  from t m w p a l wv pv show ?thesis
    by (intro conjI)
qed

lemma tcm_path:
  "\<not> pathMatches (U ''systems/tcm/herbs/ginger/profile.jsonld'') (U ''/schema/'')"
  "\<not> pathMatches (U ''systems/tcm/herbs/ginger/profile.jsonld'') (U ''/entities/plants/'')"
  "pathMatches (U ''systems/tcm/herbs/ginger/profile.jsonld'') (U ''/systems/tcm/herbs/'')"
  "suffix (U ''profile.jsonld'') (U ''systems/tcm/herbs/ginger/profile.jsonld'')"
  by (simp_all only: pathMatches_def Let_def ev_U ev_base includes'.simps prefix_code
      suffix_to_prefix rev.simps append.simps cong: if_weak_cong)

lemma gingerNamed_filled:
  "processPlantEntity_fill str path gingerNamed =
     Inr ([(''name'', JObj [(''en'', JStr (U ''Ginger'')), (''zh-Hant'', JStr [0x8591])]),
           (''commonName'', JObj [(''en'', JStr (U ''Ginger'')), (''zh-Hant'', JStr [0x8591])])],
          [U ''Added commonName.zh-Hant from name''])"
  by (simp add: processPlantEntity_fill_def fillDescription_def fillCommonName_def
      gingerNamed_def Let_def langOf_def get_def setField_def setProp_def U_eq_Nil)

lemma gingerSimplified_filled:
  "processTcmProfile str path gingerSimplified =
     Inr ([(''name'', JObj [(''en'', JStr (U ''Ginger''))]),
           (''tcmHistory'',
            JObj [(''en'', JStr (U ''Used for centuries'')),
                  (''zh-Hans'', JStr [0x59DC]), (''zh-Hant'', JStr [0x59DC])])],
          [U ''Added '' @ U ''tcmHistory'' @ U ''.zh-Hant''])"
proof -
  have h: "addMissingTranslations str ''tcmHistory'' (gingerSimplified, []) =
     Inr ([(''name'', JObj [(''en'', JStr (U ''Ginger''))]),
           (''tcmHistory'',
            JObj [(''en'', JStr (U ''Used for centuries'')),
                  (''zh-Hans'', JStr [0x59DC]), (''zh-Hant'', JStr [0x59DC])])],
          [U ''Added '' @ U ''tcmHistory'' @ U ''.zh-Hant''])"
    by (simp add: addMissingTranslations_def gingerSimplified_def Let_def langOf_def get_def
        setField_def setProp_def jsOr_def textOf_def U_eq_Nil)
  have o: "addMissingTranslations str f
      ([(''name'', JObj [(''en'', JStr (U ''Ginger''))]), (''tcmHistory'', x)], u) =
      Inr ([(''name'', JObj [(''en'', JStr (U ''Ginger''))]), (''tcmHistory'', x)], u)"
    if "f \<noteq> ''name''" "f \<noteq> ''tcmHistory''" for f x u
    using that by (simp add: addMissingTranslations_def get_def)
  show ?thesis
    unfolding processTcmProfile_def tcmFields_def list.map steps.simps h sum.case
    by (simp add: o)
qed

lemma copies_unmarked:
  "\<not> reviewMarker [0x8591]" "\<not> reviewMarker [0x59DC]"
  "\<not> reviewMarker [0x98A8, 0x578B, 0xFF08, 0x74E6, 0x5854, 0xFF09]"
  by (simp_all add: reviewMarker_def)

text \<open>
  C6, values without the marker. A plant with an English description gets the text of
  \<open>DESC_TEMPLATES.default\<close> in both Chinese variants: prose about the plant that opens
  with its name. A common name gets the traditional name, and the traditional text of a
  TCM field gets the simplified text, each copied as it is. Two fields of a Western
  profile get the same sentence, which names neither of them. An Ayurveda item whose
  label is not in the table gets its English label as the Chinese one, and an item whose
  label is in the table gets the labels and the description of the table.
\<close>

theorem synthesized_values_unmarked:
  "processFile (\<lambda>v. []) (U ''entities/plants/ginger/entity.jsonld'') gingerDescribed =
     Inr ([(''name'', JObj [(''en'', JStr (U ''Ginger''))]),
           (''description'',
            JObj [(''en'', JStr (U ''A flowering plant'')),
                  (''zh-Hant'', JStr (template_default (U ''Ginger'') [])),
                  (''zh-Hans'', JStr (tradToSimp (template_default (U ''Ginger'') [])))])],
          [U ''Added description.zh-Hant'', U ''Added description.zh-Hans''])
   \<and> \<not> reviewMarker (template_default (U ''Ginger'') [])
   \<and> \<not> reviewMarker (tradToSimp (template_default (U ''Ginger'') []))
   \<and> processFile (\<lambda>v. []) (U ''entities/plants/ginger/entity.jsonld'') gingerNamed =
     Inr ([(''name'', JObj [(''en'', JStr (U ''Ginger'')), (''zh-Hant'', JStr [0x8591])]),
           (''commonName'', JObj [(''en'', JStr (U ''Ginger'')), (''zh-Hant'', JStr [0x8591])])],
          [U ''Added commonName.zh-Hant from name''])
   \<and> \<not> reviewMarker [0x8591]
   \<and> processFile (\<lambda>v. []) (U ''systems/tcm/herbs/ginger/profile.jsonld'') gingerSimplified =
     Inr ([(''name'', JObj [(''en'', JStr (U ''Ginger''))]),
           (''tcmHistory'',
            JObj [(''en'', JStr (U ''Used for centuries'')),
                  (''zh-Hans'', JStr [0x59DC]), (''zh-Hant'', JStr [0x59DC])])],
          [U ''Added '' @ U ''tcmHistory'' @ U ''.zh-Hant''])
   \<and> \<not> reviewMarker [0x59DC]
   \<and> processFile (\<lambda>v. []) (U ''systems/western/herbs/ginger/profile.jsonld'') gingerWestern =
     Inr ([(''name'', JObj [(''en'', JStr (U ''Ginger''))]),
           (''westernHistory'',
            JObj [(''en'', JStr (U ''Used in Europe'')),
                  (''zh-Hant'', JStr (westernPlaceholder (U ''Ginger''))),
                  (''zh-Hans'', JStr (tradToSimp (westernPlaceholder (U ''Ginger''))))]),
           (''westernModernResearch'',
            JObj [(''en'', JStr (U ''Studied for nausea'')),
                  (''zh-Hant'', JStr (westernPlaceholder (U ''Ginger''))),
                  (''zh-Hans'', JStr (tradToSimp (westernPlaceholder (U ''Ginger''))))])],
          [U ''Added '' @ U ''westernHistory'' @ U ''.zh-Hant/zh-Hans'',
           U ''Added '' @ U ''westernModernResearch'' @ U ''.zh-Hant/zh-Hans''])
   \<and> \<not> includes' (westernPlaceholder (U ''Ginger'')) (U ''History'')
   \<and> \<not> includes' (westernPlaceholder (U ''Ginger'')) (U ''Research'')
   \<and> processFile (\<lambda>v. []) (U ''systems/ayurveda/concepts.jsonld'') prakritiReference =
     Inr ([(''@graph'', JArr [JObj [(''@id'', JStr (U ''ayurveda/prakriti'')),
              (''prefLabel'', JObj [(''en'', JStr (U ''Prakriti'')),
                                   (''zh-Hant'', JStr (U ''Prakriti'')),
                                   (''zh-Hans'', JStr (U ''Prakriti''))])]])],
          [U ''Added prefLabel zh for '' @ U ''ayurveda/prakriti'' @ U '' (fallback)''])
   \<and> \<not> reviewMarker (U ''Prakriti'')
   \<and> processFile (\<lambda>v. []) (U ''systems/ayurveda/concepts.jsonld'') vataReference =
     Inr ([(''@graph'', JArr [JObj [(''@id'', JStr (U ''dosha/vata'')),
              (''prefLabel'',
               JObj [(''en'', JStr (U ''Vata'')),
                     (''zh-Hant'', JStr [0x98A8, 0x578B, 0xFF08, 0x74E6, 0x5854, 0xFF09]),
                     (''zh-Hans'', JStr [0x98CE, 0x578B, 0xFF08, 0x74E6, 0x5854, 0xFF09])]),
              (''description'',
               JObj [(''en'', JStr (U ''The dosha of movement'')),
                     (''zh-Hant'', JStr
                       [0x4E3B, 0x53F8, 0x904B, 0x52D5, 0x3001, 0x547C, 0x5438, 0x3001, 0x5FAA,
                        0x74B0, 0x53CA, 0x795E, 0x7D93, 0x7CFB, 0x7D71, 0x529F, 0x80FD, 0xFF0C,
                        0x7531, 0x98A8, 0x8207, 0x4EE5, 0x592A, 0x5143, 0x7D20, 0x7D44, 0x6210]),
                     (''zh-Hans'', JStr (tradToSimp
                       [0x4E3B, 0x53F8, 0x904B, 0x52D5, 0x3001, 0x547C, 0x5438, 0x3001, 0x5FAA,
                        0x74B0, 0x53CA, 0x795E, 0x7D93, 0x7CFB, 0x7D71, 0x529F, 0x80FD, 0xFF0C,
                        0x7531, 0x98A8, 0x8207, 0x4EE5, 0x592A, 0x5143, 0x7D20, 0x7D44,
                        0x6210]))])]])],
          [U ''Added prefLabel.zh-Hant for '' @ U ''dosha/vata'' @ U '': ''
             @ [0x98A8, 0x578B, 0xFF08, 0x74E6, 0x5854, 0xFF09],
           U ''Added prefLabel.zh-Hans for '' @ U ''dosha/vata'' @ U '': ''
             @ [0x98CE, 0x578B, 0xFF08, 0x74E6, 0x5854, 0xFF09],
           U ''Added description.zh for '' @ U ''dosha/vata''])
   \<and> \<not> reviewMarker [0x98A8, 0x578B, 0xFF08, 0x74E6, 0x5854, 0xFF09]"
proof -
  have v: "processFile (\<lambda>v. []) (U ''systems/ayurveda/concepts.jsonld'') vataReference
      = processAyurvedaReference (\<lambda>v. []) (U ''systems/ayurveda/concepts.jsonld'')
          vataReference"
    by (simp add: processFile_def ayurveda_path)
  have n: "processFile (\<lambda>v. []) (U ''entities/plants/ginger/entity.jsonld'') gingerNamed
      = processPlantEntity_fill (\<lambda>v. []) (U ''entities/plants/ginger/entity.jsonld'')
          gingerNamed"
    by (simp add: processFile_def ginger_path)
  have t: "processFile (\<lambda>v. []) (U ''systems/tcm/herbs/ginger/profile.jsonld'') gingerSimplified
      = processTcmProfile (\<lambda>v. []) (U ''systems/tcm/herbs/ginger/profile.jsonld'')
          gingerSimplified"
    by (simp add: processFile_def tcm_path)
  have w: "processFile (\<lambda>v. []) (U ''systems/western/herbs/ginger/profile.jsonld'') gingerWestern
      = processWesternProfile (\<lambda>v. []) (U ''systems/western/herbs/ginger/profile.jsonld'')
          gingerWestern"
    by (simp add: processFile_def western_path)
  have a: "processFile (\<lambda>v. []) (U ''systems/ayurveda/concepts.jsonld'') prakritiReference
      = processAyurvedaReference (\<lambda>v. []) (U ''systems/ayurveda/concepts.jsonld'')
          prakritiReference"
    by (simp add: processFile_def ayurveda_path)
  show ?thesis
    unfolding n t w a v gingerNamed_filled gingerSimplified_filled gingerWestern_filled
      prakritiReference_filled vataReference_filled
    using generated_description [of "\<lambda>v. []"] western_names_no_field prakriti_unmarked
      copies_unmarked
    by (intro conjI) simp_all
qed

end
